theory Spec2Isabelle
  imports Complex_Main
begin

section \<open>GeoPy: the shape-average and climatology workers\<close>

text \<open>
  A shallow embedding of \<^verbatim>\<open>performExtraction\<close> and the batch driver of
  \<^verbatim>\<open>src/processing/shpavg.py\<close>, and of \<^verbatim>\<open>computeClimatology\<close> of
  \<^verbatim>\<open>src/datasets/wrfavg.py\<close>. Exceptions are values of the type \<open>error\<close>; the
  file system, the clock and the log are an explicit state; the loaders, the dataset
  modules and the processing engine, which are not part of these two files, are
  parameters collected in a record.
\<close>

subsection \<open>Exceptions\<close>

datatype error =
    TypeError | IOError | DateError | DatasetError | NotImplementedError
  | ImportError | KeyError | IndexError | ValueError | AttributeError
  | UnboundLocalError | NameError | OSError | AssertionError | ZeroDivisionError

subsection \<open>Python strings and integers\<close>

text \<open>\<^verbatim>\<open>str.upper\<close> on byte strings: the letters a to z are mapped, all else is kept.\<close>

definition upper_char :: "char \<Rightarrow> char" where
  "upper_char c =
     (case map_of (zip ''abcdefghijklmnopqrstuvwxyz'' ''ABCDEFGHIJKLMNOPQRSTUVWXYZ'') c of
        None \<Rightarrow> c | Some u \<Rightarrow> u)"

definition lower_char :: "char \<Rightarrow> char" where
  "lower_char c =
     (case map_of (zip ''ABCDEFGHIJKLMNOPQRSTUVWXYZ'' ''abcdefghijklmnopqrstuvwxyz'') c of
        None \<Rightarrow> c | Some l \<Rightarrow> l)"

definition upper :: "string \<Rightarrow> string" where
  "upper s = map upper_char s"

text \<open>
  \<^verbatim>\<open>str.title\<close>: a letter that follows a non-letter is put in upper case, every other
  letter in lower case. The flag is true when the previous character was a letter.
\<close>

fun title_from :: "bool \<Rightarrow> string \<Rightarrow> string" where
  "title_from prev [] = []"
| "title_from prev (c # cs) =
     (if upper_char c \<noteq> c \<or> lower_char c \<noteq> c
      then (if prev then lower_char c else upper_char c) # title_from True cs
      else c # title_from False cs)"

definition title :: "string \<Rightarrow> string" where
  "title s = title_from False s"

text \<open>The decimal digits of a natural number, and \<^verbatim>\<open>'{:4d}'.format(i)\<close>: the sign and the
  digits, padded with blanks on the left to four characters.\<close>

fun digits :: "nat \<Rightarrow> string" where
  "digits n =
     (if n < 10 then [''0123456789'' ! n]
      else digits (n div 10) @ [''0123456789'' ! (n mod 10)])"

declare digits.simps [simp del]

definition str_int :: "int \<Rightarrow> string" where
  "str_int i = (if i < 0 then CHR ''-'' # digits (nat (- i)) else digits (nat i))"

definition fmt4d :: "int \<Rightarrow> string" where
  "fmt4d i = (let s = str_int i in replicate (4 - length s) CHR '' '' @ s)"

text \<open>\<^verbatim>\<open>int(s)\<close> on a byte string: blanks around it are dropped, an optional sign, then one
  or more decimal digits; anything else is a \<^verbatim>\<open>ValueError\<close>.\<close>

definition is_space :: "char \<Rightarrow> bool" where
  "is_space c = (c \<in> set [CHR '' '', CHR 0x09, CHR 0x0A, CHR 0x0B, CHR 0x0C, CHR 0x0D])"

definition strip :: "string \<Rightarrow> string" where
  "strip s = rev (dropWhile is_space (rev (dropWhile is_space s)))"

definition digit_of :: "char \<Rightarrow> nat option" where
  "digit_of c = map_of (zip ''0123456789'' [0, 1, 2, 3, 4, 5, 6, 7, 8, 9]) c"

fun nat_of_digits :: "string \<Rightarrow> nat \<Rightarrow> nat option" where
  "nat_of_digits [] acc = Some acc"
| "nat_of_digits (c # cs) acc =
     (case digit_of c of None \<Rightarrow> None | Some d \<Rightarrow> nat_of_digits cs (10 * acc + d))"

definition py_int :: "string \<Rightarrow> error + int" where
  "py_int s =
     (let t = strip s;
          neg = (t \<noteq> [] \<and> hd t = CHR ''-'');
          ds = (if t \<noteq> [] \<and> (hd t = CHR ''-'' \<or> hd t = CHR ''+'') then tl t else t)
      in if ds = [] then Inl ValueError
         else (case nat_of_digits ds 0 of
                 None \<Rightarrow> Inl ValueError
               | Some n \<Rightarrow> Inr (if neg then - int n else int n)))"

subsection \<open>The file system, the clock and the log\<close>

text \<open>
  A file has a modification time, a size in bytes and a writer's status: a NetCDF file that
  is being written is \<open>Unsynced\<close>, after \<^verbatim>\<open>sync()\<close> it is \<open>Synced\<close>, after
  \<^verbatim>\<open>close()\<close> it is \<open>Closed\<close>. Directories are kept apart from files; their modification
  times are not modelled.
\<close>

datatype fstatus = Unsynced | Synced | Closed

record fileinfo =
  mtime :: int
  fsize :: nat
  fstatus :: fstatus

text \<open>A period as the workers are given it: none, a number of years, or a sequence of
  years. The keyword arguments of a call of a loader.\<close>

datatype period_arg = PNone | PInt int | PSeq "int list"

record load_args =
  la_experiment :: string
  la_domains :: "int option"
  la_period :: period_arg
  la_filetypes :: "string list"
  la_resolution :: "string option"
  la_varlist :: "string list option"
  la_load3D :: "bool option"
  la_folder :: "string option"

datatype message =
    Processing string string
  | SourceInfo
  | SinkInfo
  | Skipping string string
  | Writing string string
  | InvalidPeriod int
  | Computing string

datatype event =
    GetLogger
  | Import string
  | Load string load_args
  | Info message
  | Exists string
  | Getmtime string
  | Getsize string
  | Remove string
  | Create string
  | Write string
  | Sync string
  | Close string
  | Rename string string

text \<open>What a job is started in: the files, the directories and the time of day.\<close>

record world =
  fs :: "string \<rightharpoonup> fileinfo"
  dirs :: "string set"
  today :: int

text \<open>
  A run of a job carries, besides the world, the events so far and the file system as it
  was after each change (the newest last).
\<close>

record run = world +
  trace :: "event list"
  snaps :: "(string \<rightharpoonup> fileinfo) list"

definition start :: "world \<Rightarrow> run" where
  "start w = \<lparr>fs = fs w, dirs = dirs w, today = today w, trace = [], snaps = []\<rparr>"

type_synonym 'a io = "run \<Rightarrow> (error + 'a) \<times> run"

definition ok :: "'a \<Rightarrow> 'a io" where
  "ok x = (\<lambda>r. (Inr x, r))"

definition raise :: "error \<Rightarrow> 'a io" where
  "raise e = (\<lambda>r. (Inl e, r))"

definition bnd :: "'a io \<Rightarrow> ('a \<Rightarrow> 'b io) \<Rightarrow> 'b io" where
  "bnd m f = (\<lambda>r. case m r of (Inl e, r') \<Rightarrow> (Inl e, r') | (Inr x, r') \<Rightarrow> f x r')"

definition lift :: "error + 'a \<Rightarrow> 'a io" where
  "lift v = (\<lambda>r. (v, r))"

definition emit :: "event \<Rightarrow> unit io" where
  "emit e = (\<lambda>r. (Inr (), r\<lparr>trace := trace r @ [e]\<rparr>))"

definition change :: "event \<Rightarrow> ((string \<rightharpoonup> fileinfo) \<Rightarrow> (string \<rightharpoonup> fileinfo)) \<Rightarrow> unit io" where
  "change e f =
     (\<lambda>r. (Inr (), r\<lparr>fs := f (fs r), trace := trace r @ [e], snaps := snaps r @ [f (fs r)]\<rparr>))"

definition info :: "message \<Rightarrow> unit io" where
  "info m = emit (Info m)"

text \<open>A dictionary lookup \<^verbatim>\<open>d[key]\<close>, the read of a local variable that may not have been
  assigned, of an attribute and of a module global.\<close>

definition lookup :: "'a option \<Rightarrow> 'a io" where
  "lookup v = (case v of None \<Rightarrow> raise KeyError | Some x \<Rightarrow> ok x)"

definition local_var :: "'a option \<Rightarrow> 'a io" where
  "local_var v = (case v of None \<Rightarrow> raise UnboundLocalError | Some x \<Rightarrow> ok x)"

definition attribute :: "'a option \<Rightarrow> 'a io" where
  "attribute v = (case v of None \<Rightarrow> raise AttributeError | Some x \<Rightarrow> ok x)"

definition global_var :: "'a option \<Rightarrow> 'a io" where
  "global_var v = (case v of None \<Rightarrow> raise NameError | Some x \<Rightarrow> ok x)"

text \<open>The calls of \<^verbatim>\<open>os\<close>, \<^verbatim>\<open>os.path\<close> and \<^verbatim>\<open>datetime\<close> that the workers make.\<close>

definition datetime_today :: "int io" where
  "datetime_today = (\<lambda>r. (Inr (today r), r))"

definition os_path_exists :: "string \<Rightarrow> bool io" where
  "os_path_exists p = bnd (emit (Exists p)) (\<lambda>_ r. (Inr (p \<in> dirs r \<or> fs r p \<noteq> None), r))"

definition os_path_getmtime :: "string \<Rightarrow> int io" where
  "os_path_getmtime p =
     bnd (emit (Getmtime p))
       (\<lambda>_ r. (case fs r p of None \<Rightarrow> Inl OSError | Some f \<Rightarrow> Inr (mtime f), r))"

definition os_path_getsize :: "string \<Rightarrow> nat io" where
  "os_path_getsize p =
     bnd (emit (Getsize p))
       (\<lambda>_ r. (case fs r p of None \<Rightarrow> Inl OSError | Some f \<Rightarrow> Inr (fsize f), r))"

definition os_remove :: "string \<Rightarrow> unit io" where
  "os_remove p =
     (\<lambda>r. case fs r p of
             None \<Rightarrow> (Inl OSError, r\<lparr>trace := trace r @ [Remove p]\<rparr>)
           | Some f \<Rightarrow> change (Remove p) (\<lambda>m. m(p := None)) r)"

definition os_rename :: "string \<Rightarrow> string \<Rightarrow> unit io" where
  "os_rename src dst =
     (\<lambda>r. case fs r src of
             None \<Rightarrow> (Inl OSError, r\<lparr>trace := trace r @ [Rename src dst]\<rparr>)
           | Some f \<Rightarrow>
               if dst \<in> dirs r then (Inl OSError, r\<lparr>trace := trace r @ [Rename src dst]\<rparr>)
               else change (Rename src dst) (\<lambda>m. (m(src := None))(dst \<mapsto> f)) r)"

text \<open>
  What the NetCDF layer does to the file behind a sink: \<^verbatim>\<open>DatasetNetCDF(mode='w')\<close>
  creates it empty, a flush of the processing engine writes into it, \<^verbatim>\<open>sync()\<close> and
  \<^verbatim>\<open>close()\<close> move its status on. A file that is written carries the time of day.
\<close>

definition nc_create :: "string \<Rightarrow> unit io" where
  "nc_create p =
     (\<lambda>r. change (Create p) (\<lambda>m. m(p \<mapsto> \<lparr>mtime = today r, fsize = 0, fstatus = Unsynced\<rparr>)) r)"

definition nc_write :: "string \<Rightarrow> nat \<Rightarrow> unit io" where
  "nc_write p n =
     (\<lambda>r. change (Write p) (\<lambda>m. m(p \<mapsto> \<lparr>mtime = today r, fsize = n, fstatus = Unsynced\<rparr>)) r)"

definition nc_sync :: "string \<Rightarrow> unit io" where
  "nc_sync p =
     (\<lambda>r. case fs r p of
             None \<Rightarrow> (Inl IOError, r\<lparr>trace := trace r @ [Sync p]\<rparr>)
           | Some f \<Rightarrow> change (Sync p) (\<lambda>m. m(p \<mapsto> f\<lparr>fstatus := Synced\<rparr>)) r)"

definition nc_close :: "string \<Rightarrow> unit io" where
  "nc_close p =
     (\<lambda>r. case fs r p of
             None \<Rightarrow> (Inl IOError, r\<lparr>trace := trace r @ [Close p]\<rparr>)
           | Some f \<Rightarrow> change (Close p) (\<lambda>m. m(p \<mapsto> f\<lparr>fstatus := Closed\<rparr>)) r)"

subsection \<open>Arguments and collaborators of the shape-average worker\<close>

text \<open>
  The values that \<^verbatim>\<open>dataargs['period']\<close> and \<^verbatim>\<open>dataargs['domain']\<close> can hold, and the
  \<^verbatim>\<open>logger\<close> keyword: absent, the name of a logger, a logger, or something else. The type
  checks of lines 41 to 43 (\<^verbatim>\<open>dataset\<close> a string, \<^verbatim>\<open>dataargs\<close> a dictionary, \<^verbatim>\<open>shape_dict\<close>
  an ordered dictionary) hold of every argument of the types below.
\<close>

datatype domain_arg = DInt int | DSeq "int list" | DOther

datatype logger_arg = NoLogger | LoggerName string | LoggerHandle | NotALogger

record Exp =
  name :: string
  begindate :: string

text \<open>The dictionary \<^verbatim>\<open>dataargs\<close>: a key that is missing is \<open>None\<close>; the key
  \<^verbatim>\<open>experiment\<close> is the field \<open>experiment_key\<close>.\<close>

record dataargs =
  experiment_key :: "Exp option"
  domain :: "domain_arg option"
  period :: "period_arg option"
  filetypes :: "string list option"
  resolution :: "string option"
  load3D :: "bool option"

record kwargs =
  loverwrite :: bool
  varlist :: "string list option"
  lwrite :: bool
  lreturn :: bool
  ldebug :: bool
  lparallel :: bool
  pidstr :: string
  logger :: logger_arg

definition default_kwargs :: kwargs where
  "default_kwargs =
     \<lparr>loverwrite = False, varlist = None, lwrite = True, lreturn = False, ldebug = False,
      lparallel = False, pidstr = [], logger = NoLogger\<rparr>"

text \<open>A loaded source dataset: its attributes and the files behind it.\<close>

record source =
  atts :: "string \<rightharpoonup> string"
  filelist :: "string list"

text \<open>A sink: its attributes and, when it is a NetCDF dataset, the path of its file.\<close>

record sink =
  sink_atts :: "string \<rightharpoonup> string"
  sink_file :: "string option"

datatype retval = RetNone | RetCode int | RetSink sink

text \<open>
  A dataset module (\<^verbatim>\<open>datasets.WRF\<close>, \<^verbatim>\<open>datasets.CESM\<close>, \<^verbatim>\<open>datasets.GPCC\<close>, ...) as far as
  the worker reads it. The file name patterns are format strings in the source and
  functions of the format arguments here; a module need not have them.
\<close>

datatype fmtarg = FStr string | FInt int

record module_info =
  dataset_name :: string
  avgfolder :: string
  clim_file_pattern :: "(fmtarg list \<Rightarrow> string) option"
  ts_file_pattern :: "(fmtarg list \<Rightarrow> string) option"

text \<open>
  The code that \<^verbatim>\<open>shpavg.py\<close> imports and that is not part of it: the importable dataset
  modules, the loaders (by name), \<^verbatim>\<open>all(isInt(period))\<close> of \<^verbatim>\<open>geodata.misc\<close>,
  \<^verbatim>\<open>getFileName\<close> of \<^verbatim>\<open>datasets.common\<close>, and the processing engine, of which
  \<^verbatim>\<open>ShapeAverage\<close> followed by \<^verbatim>\<open>sync\<close> either raises or leaves a number of bytes in the
  sink. The \<^verbatim>\<open>CESM.py\<close> of this repository is an older revision than the worker (its
  loaders take no \<^verbatim>\<open>load3D\<close>); as a loader it is the one that always raises.
\<close>

record 'shp env =
  modules :: "string \<rightharpoonup> module_info"
  load :: "string \<Rightarrow> load_args \<Rightarrow> error + source"
  all_isInt :: "int list \<Rightarrow> error + bool"
  getFileName :: "string \<Rightarrow> period_arg \<Rightarrow> string \<Rightarrow> string \<Rightarrow> string"
  ShapeAverage :: "source \<Rightarrow> (string \<times> 'shp) list \<Rightarrow> string \<Rightarrow> string list option \<Rightarrow> error + nat"

definition import_module :: "'shp env \<Rightarrow> string \<Rightarrow> module_info io" where
  "import_module env m =
     bnd (emit (Import m))
       (\<lambda>_. case modules env m of None \<Rightarrow> raise ImportError | Some mi \<Rightarrow> ok mi)"

definition call_loader :: "'shp env \<Rightarrow> string \<Rightarrow> load_args \<Rightarrow> source io" where
  "call_loader env f args = bnd (emit (Load f args)) (\<lambda>_. lift (load env f args))"

subsection \<open>performExtraction, lines 40 to 151: input checks, logger, source\<close>

text \<open>The local variables that the branches of lines 59 to 151 assign; the three that only
  some branches assign are optional.\<close>

record vars =
  v_module :: module_info
  v_source :: source
  v_dataset_name :: string
  v_period :: period_arg
  v_periodstr :: string
  v_datamsgstr :: string
  v_filetype :: "string option"
  v_domain :: "int option"
  v_grid_name :: "string option"

text \<open>Lines 44 to 46.\<close>

definition check_input :: "kwargs \<Rightarrow> unit io" where
  "check_input kw =
     (if lparallel kw then
        (if \<not> lwrite kw then raise IOError
         else if lreturn kw then raise IOError
         else ok ())
      else ok ())"

text \<open>Lines 49 to 56.\<close>

definition setup_logger :: "logger_arg \<Rightarrow> unit io" where
  "setup_logger l =
     (case l of
        NoLogger \<Rightarrow> emit GetLogger
      | LoggerName n \<Rightarrow> emit GetLogger
      | LoggerHandle \<Rightarrow> ok ()
      | NotALogger \<Rightarrow> raise TypeError)"

text \<open>Lines 66 to 71 and 98 to 103: the period of a WRF or CESM experiment.\<close>

definition model_period :: "'shp env \<Rightarrow> Exp \<Rightarrow> period_arg \<Rightarrow> error + period_arg" where
  "model_period env e p =
     (case p of
        PNone \<Rightarrow> Inr PNone
      | PInt n \<Rightarrow>
          (case py_int (take 4 (begindate e)) of
             Inl err \<Rightarrow> Inl err
           | Inr beginyear \<Rightarrow> Inr (PSeq [beginyear, beginyear + n]))
      | PSeq xs \<Rightarrow>
          if length xs \<noteq> 2 then
            (case all_isInt env xs of
               Inl err \<Rightarrow> Inl err
             | Inr b \<Rightarrow> if b then Inl DateError else Inr (PSeq xs))
          else Inr (PSeq xs))"

text \<open>Lines 131 to 135: the period of an observational dataset.\<close>

definition obs_period :: "'shp env \<Rightarrow> period_arg \<Rightarrow> error + period_arg" where
  "obs_period env p =
     (case p of
        PNone \<Rightarrow> Inr PNone
      | PInt n \<Rightarrow> Inr (PSeq [1979, 1979 + n])
      | PSeq xs \<Rightarrow>
          if length xs \<noteq> 2 then
            (case all_isInt env xs of
               Inl err \<Rightarrow> Inl err
             | Inr b \<Rightarrow> if \<not> b then Inl DateError else Inr (PSeq xs))
          else Inr (PSeq xs))"

text \<open>\<^verbatim>\<open>'{0:4d}-{1:4d}'.format(*period)\<close>.\<close>

definition format_period :: "int list \<Rightarrow> error + string" where
  "format_period xs =
     (case xs of
        a # b # _ \<Rightarrow> Inr (fmt4d a @ ''-'' @ fmt4d b)
      | _ \<Rightarrow> Inl IndexError)"

text \<open>Lines 87 to 88 and 118 to 119; \<open>ltm\<close> is the string for no period (lines 146 to 148).\<close>

definition periodstr_of :: "string \<Rightarrow> period_arg \<Rightarrow> error + string" where
  "periodstr_of ltm p =
     (case p of
        PNone \<Rightarrow> Inr ltm
      | PInt n \<Rightarrow> Inl TypeError
      | PSeq xs \<Rightarrow> format_period xs)"

text \<open>Lines 87 to 90 and 118 to 121.\<close>

definition check_period :: "period_arg \<Rightarrow> source \<Rightarrow> string io" where
  "check_period p src =
     bnd (lift (periodstr_of [] p))
       (\<lambda>periodstr.
          if atts src ''period'' \<noteq> None \<and> Some periodstr \<noteq> atts src ''period''
          then raise DateError else ok periodstr)"

text \<open>\<^verbatim>\<open>xs[0]\<close>, and \<^verbatim>\<open>'{:02d}'.format(i)\<close>.\<close>

definition first :: "'a list \<Rightarrow> 'a io" where
  "first xs = (case xs of [] \<Rightarrow> raise IndexError | x # _ \<Rightarrow> ok x)"

definition fmt02d :: "int \<Rightarrow> string" where
  "fmt02d i = (let s = str_int i in replicate (2 - length s) CHR ''0'' @ s)"

text \<open>Lines 59 to 91: a WRF experiment.\<close>

definition load_WRF :: "'shp env \<Rightarrow> string \<Rightarrow> dataargs \<Rightarrow> string list option \<Rightarrow> vars io" where
  "load_WRF env mode da vl =
     bnd (import_module env ''WRF'') (\<lambda>module.
     bnd (lookup (experiment_key da)) (\<lambda>e.
     bnd (lookup (domain da)) (\<lambda>dom.
     bnd (lookup (period da)) (\<lambda>p0.
     bnd (lift (model_period env e p0)) (\<lambda>p.
     bnd (lookup (filetypes da)) (\<lambda>fts.
     if length fts > 1 then raise DatasetError
     else
     bnd (first fts) (\<lambda>filetype.
     bnd (case dom of DInt d \<Rightarrow> ok d | DSeq ds \<Rightarrow> first ds | DOther \<Rightarrow> raise DatasetError) (\<lambda>d.
     bnd (if mode = ''climatology'' then
            call_loader env ''loadWRF''
              \<lparr>la_experiment = name e, la_domains = Some d, la_period = p,
               la_filetypes = [filetype], la_resolution = None, la_varlist = vl,
               la_load3D = None, la_folder = None\<rparr>
          else if mode = ''time-series'' then
            call_loader env ''loadWRF_TS''
              \<lparr>la_experiment = name e, la_domains = Some d, la_period = PNone,
               la_filetypes = [filetype], la_resolution = None, la_varlist = vl,
               la_load3D = None, la_folder = None\<rparr>
          else raise NotImplementedError) (\<lambda>src.
     bnd (check_period p src) (\<lambda>periodstr.
     ok \<lparr>v_module = module, v_source = src, v_dataset_name = name e, v_period = p,
         v_periodstr = periodstr,
         v_datamsgstr = ''Processing WRF '' @ [CHR 0x27] @ filetype @ [CHR 0x27]
            @ ''-file from Experiment '' @ [CHR 0x27] @ name e @ [CHR 0x27]
            @ '' (d'' @ fmt02d d @ '')'',
         v_filetype = Some filetype, v_domain = Some d, v_grid_name = None\<rparr>))))))))))"

text \<open>Lines 92 to 122: a CESM experiment.\<close>

definition load_CESM :: "'shp env \<Rightarrow> string \<Rightarrow> dataargs \<Rightarrow> string list option \<Rightarrow> vars io" where
  "load_CESM env mode da vl =
     bnd (import_module env ''CESM'') (\<lambda>module.
     bnd (lookup (experiment_key da)) (\<lambda>e.
     bnd (lookup (period da)) (\<lambda>p0.
     bnd (lift (model_period env e p0)) (\<lambda>p.
     bnd (lookup (filetypes da)) (\<lambda>fts.
     if length fts > 1 then raise DatasetError
     else
     bnd (first fts) (\<lambda>filetype.
     bnd (if mode = ''climatology'' then
            call_loader env ''loadCESM''
              \<lparr>la_experiment = name e, la_domains = None, la_period = p,
               la_filetypes = [filetype], la_resolution = None, la_varlist = vl,
               la_load3D = load3D da, la_folder = None\<rparr>
          else if mode = ''time-series'' then
            call_loader env ''loadCESM_TS''
              \<lparr>la_experiment = name e, la_domains = None, la_period = PNone,
               la_filetypes = [filetype], la_resolution = None, la_varlist = vl,
               la_load3D = load3D da, la_folder = None\<rparr>
          else raise NotImplementedError) (\<lambda>src.
     bnd (check_period p src) (\<lambda>periodstr.
     ok \<lparr>v_module = module, v_source = src, v_dataset_name = name e, v_period = p,
         v_periodstr = periodstr,
         v_datamsgstr = ''Processing CESM '' @ [CHR 0x27] @ filetype @ [CHR 0x27]
            @ ''-file from Experiment '' @ [CHR 0x27] @ name e @ [CHR 0x27],
         v_filetype = Some filetype, v_domain = None, v_grid_name = None\<rparr>))))))))"

text \<open>Lines 123 to 149: an observational dataset, whose identifier is in upper case.\<close>

definition load_obs :: "'shp env \<Rightarrow> string \<Rightarrow> string \<Rightarrow> dataargs \<Rightarrow> string list option \<Rightarrow> vars io" where
  "load_obs env dataset mode da vl =
     bnd (import_module env dataset) (\<lambda>module.
     bnd (lookup (resolution da)) (\<lambda>res.
     bnd (lookup (period da)) (\<lambda>p0.
     bnd (lift (obs_period env p0)) (\<lambda>p.
     bnd (if mode = ''climatology'' then
            call_loader env (dataset @ ''.loadClimatology'')
              \<lparr>la_experiment = dataset_name module, la_domains = None, la_period = p,
               la_filetypes = [], la_resolution = Some res, la_varlist = vl,
               la_load3D = None, la_folder = Some (avgfolder module)\<rparr>
          else if mode = ''time-series'' then
            call_loader env (dataset @ ''.loadTimeSeries'')
              \<lparr>la_experiment = dataset_name module, la_domains = None, la_period = PNone,
               la_filetypes = [], la_resolution = Some res, la_varlist = vl,
               la_load3D = None, la_folder = None\<rparr>
          else raise NotImplementedError) (\<lambda>src.
     bnd (lift (periodstr_of (if mode = ''climatology'' then ''Long-Term Mean'' else []) p))
       (\<lambda>periodstr.
     ok \<lparr>v_module = module, v_source = src, v_dataset_name = dataset_name module, v_period = p,
         v_periodstr = periodstr,
         v_datamsgstr = ''Processing Dataset '' @ [CHR 0x27] @ dataset_name module @ [CHR 0x27],
         v_filetype = None, v_domain = None,
         v_grid_name = Some (if res \<noteq> [] then dataset_name module @ ''_'' @ res
                             else dataset_name module)\<rparr>))))))"

text \<open>Lines 58 to 151.\<close>

definition load_source :: "'shp env \<Rightarrow> string \<Rightarrow> string \<Rightarrow> dataargs \<Rightarrow> string list option \<Rightarrow> vars io" where
  "load_source env dataset mode da vl =
     (if dataset = ''WRF'' then load_WRF env mode da vl
      else if dataset = ''CESM'' then load_CESM env mode da vl
      else if dataset = upper dataset then load_obs env dataset mode da vl
      else raise DatasetError)"

subsection \<open>performExtraction, lines 153 to 191: messages, age of the source, target names\<close>

text \<open>Lines 153 to 160.\<close>

definition announce :: "string \<Rightarrow> kwargs \<Rightarrow> vars \<Rightarrow> unit io" where
  "announce mode kw v =
     bnd (if mode = ''climatology'' then
            ok (''Averaging Data from Climatology ('' @ v_periodstr v @ '')'')
          else if mode = ''time-series'' then ok ''Averaging Data from Time-series''
          else raise NotImplementedError) (\<lambda>opmsgstr.
     bnd (info (Processing (v_datamsgstr v) opmsgstr)) (\<lambda>_.
     if \<not> lparallel kw \<and> ldebug kw then info SourceInfo else ok ()))"

text \<open>Lines 164 to 166 (and 49 to 51 of \<^verbatim>\<open>wrfavg.py\<close>): the loop over the file list.\<close>

fun oldest :: "string list \<Rightarrow> int \<Rightarrow> int io" where
  "oldest [] sourceage = ok sourceage"
| "oldest (filename # rest) sourceage =
     bnd (os_path_getmtime filename)
       (\<lambda>age. oldest rest (if age < sourceage then age else sourceage))"

text \<open>Lines 162 to 166; without the overwrite flag \<^verbatim>\<open>sourceage\<close> stays unassigned.\<close>

definition source_age :: "bool \<Rightarrow> source \<Rightarrow> int option io" where
  "source_age overwrite src =
     (if \<not> overwrite then
        bnd datetime_today (\<lambda>t. bnd (oldest (filelist src) t) (\<lambda>sourceage. ok (Some sourceage)))
      else ok None)"

text \<open>What lines 40 to 191 hand on: the variables of the source, the age of the source, the
  period string as line 171 or 179 leave it, the file name and the folder.\<close>

record job =
  j_vars :: vars
  j_sourceage :: "int option"
  j_periodstr :: string
  j_filename :: "string option"
  j_avgfolder :: string

text \<open>Lines 169 to 189. The file name and the folder are assigned only when \<^verbatim>\<open>lwrite\<close> is
  set.\<close>

definition target_names ::
  "'shp env \<Rightarrow> string \<Rightarrow> string \<Rightarrow> string \<Rightarrow> kwargs \<Rightarrow> vars
     \<Rightarrow> (string \<times> string option \<times> string option) io" where
  "target_names env dataset mode shape_name kw v =
     (if dataset = ''WRF'' then
        (let stnstr = ''_'' @ shape_name;
             periodstr = (if v_periodstr v \<noteq> [] then ''_'' @ v_periodstr v else [])
         in if lwrite kw then
              bnd (if mode = ''climatology'' then
                     bnd (attribute (clim_file_pattern (v_module v))) (\<lambda>pat.
                     bnd (local_var (v_filetype v)) (\<lambda>filetype.
                     bnd (local_var (v_domain v)) (\<lambda>d.
                     ok (pat [FStr filetype, FInt d, FStr stnstr, FStr periodstr]))))
                   else if mode = ''time-series'' then
                     bnd (attribute (ts_file_pattern (v_module v))) (\<lambda>pat.
                     bnd (local_var (v_filetype v)) (\<lambda>filetype.
                     bnd (local_var (v_domain v)) (\<lambda>d.
                     ok (pat [FStr filetype, FInt d, FStr stnstr]))))
                   else raise NotImplementedError) (\<lambda>filename.
              ok (periodstr, Some filename,
                  Some (avgfolder (v_module v) @ ''/'' @ v_dataset_name v @ ''/'')))
            else ok (periodstr, None, None))
      else if dataset = ''CESM'' then
        (let stnstr = ''_'' @ shape_name;
             periodstr = (if v_periodstr v \<noteq> [] then ''_'' @ v_periodstr v else [])
         in if lwrite kw then
              bnd (if mode = ''climatology'' then
                     bnd (attribute (clim_file_pattern (v_module v))) (\<lambda>pat.
                     bnd (local_var (v_filetype v)) (\<lambda>filetype.
                     ok (pat [FStr filetype, FStr stnstr, FStr periodstr])))
                   else if mode = ''time-series'' then
                     bnd (attribute (ts_file_pattern (v_module v))) (\<lambda>pat.
                     bnd (local_var (v_filetype v)) (\<lambda>filetype.
                     ok (pat [FStr filetype, FStr stnstr])))
                   else raise NotImplementedError) (\<lambda>filename.
              ok (periodstr, Some filename,
                  Some (avgfolder (v_module v) @ ''/'' @ v_dataset_name v @ ''/'')))
            else ok (periodstr, None, None))
      else if dataset = upper dataset then
        (if lwrite kw then
           bnd (local_var (v_grid_name v)) (\<lambda>grid_name.
           ok (v_periodstr v,
               Some (getFileName env shape_name (v_period v) grid_name mode),
               Some (avgfolder (v_module v))))
         else ok (v_periodstr v, None, None))
      else raise DatasetError)"

text \<open>Lines 190 to 191.\<close>

definition check_folder ::
  "kwargs \<Rightarrow> string option \<Rightarrow> string option \<Rightarrow> (string option \<times> string) io" where
  "check_folder kw filename folder =
     bnd (if ldebug kw then bnd (local_var filename) (\<lambda>f. ok (Some (''test_'' @ f)))
          else ok filename) (\<lambda>filename'.
     bnd (local_var folder) (\<lambda>avgf.
     bnd (os_path_exists avgf) (\<lambda>there.
     if \<not> there then raise IOError else ok (filename', avgf))))"

text \<open>Lines 153 to 191.\<close>

definition after_load ::
  "'shp env \<Rightarrow> string \<Rightarrow> string \<Rightarrow> string \<Rightarrow> kwargs \<Rightarrow> vars \<Rightarrow> job io" where
  "after_load env dataset mode shape_name kw v =
     bnd (announce mode kw v) (\<lambda>_.
     bnd (source_age (loverwrite kw) (v_source v)) (\<lambda>sourceage.
     bnd (target_names env dataset mode shape_name kw v) (\<lambda>(periodstr, filename, folder).
     bnd (check_folder kw filename folder) (\<lambda>(filename', avgf).
     ok \<lparr>j_vars = v, j_sourceage = sourceage, j_periodstr = periodstr,
         j_filename = filename', j_avgfolder = avgf\<rparr>))))"

text \<open>Lines 40 to 191.\<close>

definition prepare ::
  "'shp env \<Rightarrow> string \<Rightarrow> string \<Rightarrow> string \<Rightarrow> dataargs \<Rightarrow> kwargs \<Rightarrow> job io" where
  "prepare env dataset mode shape_name da kw =
     bnd (check_input kw) (\<lambda>_.
     bnd (setup_logger (logger kw)) (\<lambda>_.
     bnd (load_source env dataset mode da (varlist kw)) (\<lambda>v.
     after_load env dataset mode shape_name kw v)))"

subsection \<open>performExtraction, lines 192 to 260: skip or recompute, publish\<close>

text \<open>The names of lines 194 to 201.\<close>

record paths =
  filename :: string
  filepath :: string
  tmpfilename :: string
  tmpfilepath :: string

text \<open>Lines 194 to 199; \<^verbatim>\<open>pidstr[1:-1]\<close> drops the first and the last character.\<close>

definition tmp_name :: "string \<Rightarrow> kwargs \<Rightarrow> string \<Rightarrow> string" where
  "tmp_name shape_name kw fname =
     (if lreturn kw then fname
      else (if lparallel kw
            then ''tmp_'' @ shape_name @ ''_'' @ butlast (tl (pidstr kw)) @ ''_''
            else ''tmp_'' @ shape_name @ ''_'') @ fname)"

definition target_paths :: "string \<Rightarrow> kwargs \<Rightarrow> string \<Rightarrow> string \<Rightarrow> paths" where
  "target_paths shape_name kw avgf fname =
     \<lparr>filename = fname, filepath = avgf @ fname,
      tmpfilename = tmp_name shape_name kw fname,
      tmpfilepath = avgf @ tmp_name shape_name kw fname\<rparr>"

text \<open>Lines 202 to 208: the decision on an existing file. The size is only read when the
  file is newer than the source.\<close>

definition existing_file :: "kwargs \<Rightarrow> int option \<Rightarrow> string \<Rightarrow> bool io" where
  "existing_file kw sourceage fpath =
     bnd (if \<not> loverwrite kw then
            bnd (os_path_getmtime fpath) (\<lambda>age.
            bnd (local_var sourceage) (\<lambda>sa.
            if age > sa then
              bnd (os_path_getsize fpath) (\<lambda>sz. ok (sz > 1000000))
            else ok False))
          else ok False) (\<lambda>lskip.
     bnd (if \<not> lskip then os_remove fpath else ok ()) (\<lambda>_.
     ok lskip))"

text \<open>Lines 192 to 208.\<close>

definition skip_decision :: "string \<Rightarrow> kwargs \<Rightarrow> job \<Rightarrow> (bool \<times> paths option) io" where
  "skip_decision shape_name kw j =
     (if lwrite kw then
        bnd (local_var (j_filename j)) (\<lambda>fname.
        let ps = target_paths shape_name kw (j_avgfolder j) fname in
        bnd (os_path_exists (filepath ps)) (\<lambda>there.
        if there then
          bnd (existing_file kw (j_sourceage j) (filepath ps)) (\<lambda>lskip. ok (lskip, Some ps))
        else ok (False, Some ps)))
      else ok (False, None))"

text \<open>Lines 220 to 223.\<close>

definition sink_attributes :: "string \<Rightarrow> string \<Rightarrow> job \<Rightarrow> (string \<rightharpoonup> string)" where
  "sink_attributes mode shape_name j =
     (atts (v_source (j_vars j)))
       (''period'' \<mapsto> (if j_periodstr j \<noteq> [] then tl (j_periodstr j) else ''time-series''),
        ''name'' \<mapsto> v_dataset_name (j_vars j),
        ''shapes'' \<mapsto> shape_name,
        ''title'' \<mapsto> ''Area Averages from '' @ v_dataset_name (j_vars j) @ '' '' @ title mode)"

text \<open>Lines 225 to 228.\<close>

definition new_sink :: "string \<Rightarrow> string \<Rightarrow> kwargs \<Rightarrow> job \<Rightarrow> paths option \<Rightarrow> sink io" where
  "new_sink mode shape_name kw j ps =
     (if lwrite kw then
        bnd (local_var ps) (\<lambda>p.
        bnd (os_path_exists (tmpfilepath p)) (\<lambda>there.
        bnd (if there then os_remove (tmpfilepath p) else ok ()) (\<lambda>_.
        bnd (nc_create (tmpfilepath p)) (\<lambda>_.
        ok \<lparr>sink_atts = sink_attributes mode shape_name j,
            sink_file = Some (tmpfilepath p)\<rparr>))))
      else ok \<lparr>sink_atts = sink_attributes mode shape_name j, sink_file = None\<rparr>)"

text \<open>Lines 231 to 236: the processing engine; what it flushes goes to the file of the
  sink.\<close>

definition process ::
  "'shp env \<Rightarrow> string \<Rightarrow> (string \<times> 'shp) list \<Rightarrow> kwargs \<Rightarrow> job \<Rightarrow> sink \<Rightarrow> unit io" where
  "process env shape_name shape_dict kw j snk =
     bnd (lift (ShapeAverage env (v_source (j_vars j)) shape_dict shape_name (varlist kw)))
       (\<lambda>n. case sink_file snk of None \<Rightarrow> ok () | Some p \<Rightarrow> nc_write p n)"

text \<open>Lines 242 to 252.\<close>

definition write_results :: "kwargs \<Rightarrow> paths option \<Rightarrow> unit io" where
  "write_results kw ps =
     (if lwrite kw then
        bnd (local_var ps) (\<lambda>p.
        bnd (nc_sync (tmpfilepath p)) (\<lambda>_.
        bnd (info (Writing (filename p) (filepath p))) (\<lambda>_.
        if \<not> lreturn kw then
          bnd (nc_close (tmpfilepath p)) (\<lambda>_.
          bnd (os_path_exists (filepath p)) (\<lambda>there.
          bnd (if there then os_remove (filepath p) else ok ()) (\<lambda>_.
          os_rename (tmpfilepath p) (filepath p))))
        else ok ())))
      else ok ())"

text \<open>Lines 210 to 260. The two \<^verbatim>\<open>return\<close> statements are in the branch that computes; the
  branch that skips runs to the end of the function.\<close>

definition compute ::
  "'shp env \<Rightarrow> string \<Rightarrow> string \<Rightarrow> (string \<times> 'shp) list \<Rightarrow> kwargs \<Rightarrow> job
     \<Rightarrow> bool \<Rightarrow> paths option \<Rightarrow> retval io" where
  "compute env mode shape_name shape_dict kw j lskip ps =
     (if lskip then
        bnd (local_var ps) (\<lambda>p.
        bnd (info (Skipping (filename p) (filepath p))) (\<lambda>_.
        ok RetNone))
      else
        bnd (new_sink mode shape_name kw j ps) (\<lambda>snk.
        bnd (process env shape_name shape_dict kw j snk) (\<lambda>_.
        bnd (if \<not> lparallel kw \<and> ldebug kw then info SinkInfo else ok ()) (\<lambda>_.
        bnd (write_results kw ps) (\<lambda>_.
        if lreturn kw then ok (RetSink snk) else ok (RetCode 0))))))"

text \<open>Lines 192 to 260.\<close>

definition skip_or_compute ::
  "'shp env \<Rightarrow> string \<Rightarrow> string \<Rightarrow> (string \<times> 'shp) list \<Rightarrow> kwargs \<Rightarrow> job \<Rightarrow> retval io" where
  "skip_or_compute env mode shape_name shape_dict kw j =
     bnd (skip_decision shape_name kw j) (\<lambda>(lskip, ps).
     compute env mode shape_name shape_dict kw j lskip ps)"

text \<open>The worker, run in a world.\<close>

definition performExtraction ::
  "'shp env \<Rightarrow> string \<Rightarrow> string \<Rightarrow> string \<Rightarrow> (string \<times> 'shp) list \<Rightarrow> dataargs \<Rightarrow> kwargs
     \<Rightarrow> world \<Rightarrow> (error + retval) \<times> run" where
  "performExtraction env dataset mode shape_name shape_dict da kw w =
     bnd (prepare env dataset mode shape_name da kw)
       (\<lambda>j. skip_or_compute env mode shape_name shape_dict kw j) (start w)"

subsection \<open>computeClimatology of wrfavg.py\<close>

text \<open>
  The code that \<^verbatim>\<open>wrfavg.py\<close> imports and that is not part of it: the file classes and
  the folder of \<^verbatim>\<open>datasets.WRF\<close> (the file names are format strings there and functions
  here), the loader \<^verbatim>\<open>loadWRF_TS\<close>, the truth value of \<^verbatim>\<open>isInt(periods)\<close>, and the
  processing engine, of which \<^verbatim>\<open>Climatology\<close> and \<^verbatim>\<open>Regrid\<close> either raise or determine the
  bytes that \<^verbatim>\<open>sync\<close> flushes; \<open>months\<close> is the size of the two variables of lines 120 to
  123. The worker reads the module globals \<^verbatim>\<open>grid\<close> and \<^verbatim>\<open>ldebug\<close>, which the main program
  assigns.
\<close>

record fileclass =
  tsfile :: "int \<Rightarrow> string"
  climfile :: "int \<Rightarrow> string \<Rightarrow> string \<Rightarrow> string"

text \<open>A grid definition: its name, whether the name is the very string object \<^verbatim>\<open>'WRF'\<close>
  (line 77 compares with \<^verbatim>\<open>is\<close>), and the attribute that line 111 reads.\<close>

record griddef =
  gd_name :: string
  gd_name_is_WRF :: bool
  geotansform :: "string option"

record wenv =
  fileclasses :: "string \<rightharpoonup> fileclass"
  loadWRF_TS :: "string \<Rightarrow> string list \<Rightarrow> int \<Rightarrow> error + source"
  wrf_avgfolder :: string
  isInt :: "int list \<Rightarrow> error + bool"
  Climatology :: "source \<Rightarrow> int \<Rightarrow> int \<Rightarrow> error + nat"
  Regrid :: "griddef \<Rightarrow> error + nat"
  months :: nat
  grid :: "string option"
  debug :: "bool option"

text \<open>Lines 29 to 51. The first use of the logger is \<^verbatim>\<open>logger.info\<close>, which only a logger
  has.\<close>

definition open_source ::
  "wenv \<Rightarrow> string \<Rightarrow> string \<Rightarrow> int \<Rightarrow> int list option \<Rightarrow> bool \<Rightarrow> bool \<Rightarrow> logger_arg
     \<Rightarrow> (fileclass \<times> source \<times> int option) io" where
  "open_source env exper filetype dmn periods overwrite parallel lg =
     bnd (case periods of
            None \<Rightarrow> ok ()
          | Some ps \<Rightarrow> bnd (lift (isInt env ps)) (\<lambda>b. if \<not> b then raise TypeError else ok ()))
       (\<lambda>_.
     bnd (lookup (fileclasses env filetype)) (\<lambda>fc.
     bnd (case lg of
            LoggerHandle \<Rightarrow> info (Processing exper (tsfile fc dmn))
          | _ \<Rightarrow> raise AttributeError) (\<lambda>_.
     bnd (emit (Load ''loadWRF_TS''
            \<lparr>la_experiment = exper, la_domains = Some dmn, la_period = PNone,
             la_filetypes = [filetype], la_resolution = None, la_varlist = None,
             la_load3D = None, la_folder = None\<rparr>)) (\<lambda>_.
     bnd (lift (loadWRF_TS env exper [filetype] dmn)) (\<lambda>src.
     bnd (if \<not> parallel then info SourceInfo else ok ()) (\<lambda>_.
     bnd (source_age overwrite src) (\<lambda>sourceage.
     ok (fc, src, sourceage))))))))"

text \<open>Lines 54 and 55: the year is what precedes the first hyphen of the date.\<close>

definition year_of :: "source \<Rightarrow> string \<Rightarrow> error + int" where
  "year_of src key =
     (case atts src key of
        None \<Rightarrow> Inl AttributeError
      | Some d \<Rightarrow> py_int (takeWhile (\<lambda>c. c \<noteq> CHR ''-'') d))"

text \<open>Line 60.\<close>

definition default_periods :: "int \<Rightarrow> int \<Rightarrow> int list" where
  "default_periods bdate fileend = [bdate - fileend]"

text \<open>What the loop of lines 62 to 131 reads and does not change.\<close>

record clim =
  c_experiment :: string
  c_domain :: int
  c_offset :: int
  c_griddef :: "griddef option"
  c_overwrite :: bool
  c_parallel :: bool
  c_fileclass :: fileclass
  c_source :: source
  c_sourceage :: "int option"
  c_filebegin :: int
  c_fileend :: int
  c_begindate :: int

text \<open>Lines 83 to 89: the decision on an existing file.\<close>

definition clim_existing_file :: "bool \<Rightarrow> int option \<Rightarrow> string \<Rightarrow> bool io" where
  "clim_existing_file overwrite sourceage fpath =
     bnd (if \<not> overwrite then
            bnd (os_path_getmtime fpath) (\<lambda>age.
            bnd (local_var sourceage) (\<lambda>sa. ok (age > sa)))
          else ok False) (\<lambda>lskip.
     bnd (if \<not> lskip then os_remove fpath else ok ()) (\<lambda>_.
     ok lskip))"

text \<open>Lines 97 to 131. Line 111 raises whenever a grid definition is given: the attribute
  is misspelt, and with it present the format operator binds to the last string only.\<close>

definition write_climatology :: "wenv \<Rightarrow> clim \<Rightarrow> int \<Rightarrow> string \<Rightarrow> string \<Rightarrow> unit io" where
  "write_climatology env c p fname fpath =
     bnd (nc_create fpath) (\<lambda>_.
     bnd (lift (Climatology env (c_source c) p (c_offset c))) (\<lambda>n.
     bnd (case c_griddef c of
            None \<Rightarrow> ok n
          | Some g \<Rightarrow>
              bnd (lift (Regrid env g)) (\<lambda>m.
              case geotansform g of None \<Rightarrow> raise AttributeError | Some t \<Rightarrow> raise TypeError))
       (\<lambda>n'.
     bnd (nc_write fpath n') (\<lambda>_.
     bnd (nc_write fpath (n' + months env)) (\<lambda>_.
     bnd (info (Writing fname fpath)) (\<lambda>_.
     bnd (nc_sync fpath) (\<lambda>_.
     bnd (nc_close fpath) (\<lambda>_.
     if \<not> c_parallel c then info SinkInfo else ok ()))))))))"

text \<open>Lines 72, 73, 77, 78 and 81: the period string, the folder of the experiment, the
  name and the path of the climatology file.\<close>

definition clim_periodstr :: "clim \<Rightarrow> int \<Rightarrow> string" where
  "clim_periodstr c enddate = fmt4d (c_begindate c) @ ''-'' @ fmt4d enddate"

definition expfolder :: "wenv \<Rightarrow> clim \<Rightarrow> string" where
  "expfolder env c = wrf_avgfolder env @ c_experiment c @ ''/''"

definition clim_filename :: "clim \<Rightarrow> bool \<Rightarrow> int \<Rightarrow> string" where
  "clim_filename c dbg enddate =
     (let gridstr = (case c_griddef c of
                       None \<Rightarrow> []
                     | Some gd \<Rightarrow> if gd_name_is_WRF gd then [] else ''_'' @ gd_name gd);
          fname = climfile (c_fileclass c) (c_domain c) gridstr (''_'' @ clim_periodstr c enddate)
      in if dbg then ''test_'' @ fname else fname)"

definition clim_filepath :: "wenv \<Rightarrow> clim \<Rightarrow> bool \<Rightarrow> int \<Rightarrow> string" where
  "clim_filepath env c dbg enddate = expfolder env c @ clim_filename c dbg enddate"

text \<open>Lines 72 to 131: a period that lies in the file.\<close>

definition average_period :: "wenv \<Rightarrow> clim \<Rightarrow> int \<Rightarrow> int \<Rightarrow> unit io" where
  "average_period env c p enddate =
     bnd (global_var (grid env)) (\<lambda>g.
     bnd (info (Computing (clim_periodstr c enddate))) (\<lambda>_.
     bnd (global_var (debug env)) (\<lambda>dbg.
     bnd (os_path_exists (expfolder env c)) (\<lambda>there.
     if \<not> there then raise AssertionError
     else
     bnd (os_path_exists (clim_filepath env c dbg enddate)) (\<lambda>ex.
     bnd (if ex then clim_existing_file (c_overwrite c) (c_sourceage c)
                       (clim_filepath env c dbg enddate)
          else ok False) (\<lambda>lskip.
     if lskip then
       info (Skipping (clim_filename c dbg enddate) (clim_filepath env c dbg enddate))
     else
       write_climatology env c p (clim_filename c dbg enddate)
         (clim_filepath env c dbg enddate)))))))"

text \<open>Lines 64 to 131: one pass of the loop.\<close>

definition climatology_period :: "wenv \<Rightarrow> clim \<Rightarrow> int \<Rightarrow> unit io" where
  "climatology_period env c p =
     (let enddate = c_begindate c + p in
      if c_filebegin c > enddate then raise DateError
      else if enddate > c_fileend c then info (InvalidPeriod enddate)
      else average_period env c p enddate)"

text \<open>Lines 62 to 131.\<close>

fun climatology_loop :: "wenv \<Rightarrow> clim \<Rightarrow> int list \<Rightarrow> unit io" where
  "climatology_loop env c [] = ok ()"
| "climatology_loop env c (p # ps) =
     bnd (climatology_period env c p) (\<lambda>_. climatology_loop env c ps)"

text \<open>The values that the loop reads, as lines 25 to 57 leave them.\<close>

definition clim_job ::
  "string \<Rightarrow> int \<Rightarrow> int \<Rightarrow> griddef option \<Rightarrow> bool \<Rightarrow> bool
     \<Rightarrow> fileclass \<times> source \<times> int option \<Rightarrow> int \<Rightarrow> int \<Rightarrow> clim" where
  "clim_job exper dmn offset gd overwrite parallel opened filebegin fileend =
     (case opened of (fc, src, sourceage) \<Rightarrow>
       \<lparr>c_experiment = exper, c_domain = dmn, c_offset = offset, c_griddef = gd,
        c_overwrite = overwrite, c_parallel = parallel, c_fileclass = fc,
        c_source = src, c_sourceage = sourceage, c_filebegin = filebegin,
        c_fileend = fileend, c_begindate = offset + filebegin\<rparr>)"

text \<open>Lines 53 to 131, after the source is open. The function has no \<^verbatim>\<open>return\<close>.\<close>

definition climatologies ::
  "wenv \<Rightarrow> string \<Rightarrow> int \<Rightarrow> int list option \<Rightarrow> int \<Rightarrow> griddef option \<Rightarrow> bool \<Rightarrow> bool
     \<Rightarrow> fileclass \<times> source \<times> int option \<Rightarrow> retval io" where
  "climatologies env exper dmn periods offset gd overwrite parallel opened =
     (case opened of (fc, src, sourceage) \<Rightarrow>
     bnd (lift (year_of src ''begin_date'')) (\<lambda>filebegin.
     bnd (lift (year_of src ''end_date'')) (\<lambda>fileend.
     let bdate = offset + filebegin in
     if \<not> (filebegin \<le> bdate \<and> bdate \<le> fileend) then raise DateError
     else
     bnd (climatology_loop env
            (clim_job exper dmn offset gd overwrite parallel opened filebegin fileend)
            (case periods of None \<Rightarrow> default_periods bdate fileend | Some ps \<Rightarrow> ps))
       (\<lambda>_. ok RetNone))))"

definition computeClimatology ::
  "wenv \<Rightarrow> string \<Rightarrow> string \<Rightarrow> int \<Rightarrow> int list option \<Rightarrow> int \<Rightarrow> griddef option \<Rightarrow> bool \<Rightarrow> bool
     \<Rightarrow> logger_arg \<Rightarrow> world \<Rightarrow> (error + retval) \<times> run" where
  "computeClimatology env exper filetype dmn periods offset gd overwrite parallel lg w =
     bnd (open_source env exper filetype dmn periods overwrite parallel lg)
       (climatologies env exper dmn periods offset gd overwrite parallel) (start w)"

subsection \<open>Exit status of the batch driver\<close>

text \<open>
  \<^verbatim>\<open>exit(int(10+np.ceil(10.*ec/len(args))) if ec > 0 else 0)\<close>, the last line of
  \<^verbatim>\<open>shpavg.py\<close>. The condition is evaluated first, so the division is only
  reached with a positive failure count; on an empty job list it divides by zero. The
  quotient is a double in the source and an exact real here: the two ceilings agree as long
  as the job count stays below \<open>2^49\<close>.
\<close>

definition exit_code :: "int \<Rightarrow> nat \<Rightarrow> error + int" where
  "exit_code ec n =
     (if ec > 0 then
        (if n = 0 then Inl ZeroDivisionError
         else Inr (10 + \<lceil>10 * real_of_int ec / real n\<rceil>))
      else Inr 0)"

subsection \<open>Concrete inputs\<close>

text \<open>
  A WRF module with the file name patterns of \<^verbatim>\<open>datasets.WRF\<close>, a source of two files
  covering 1979 to 1989, collaborators that succeed, and a world in which the two source
  files are 10 and 20 time units old and a shape-average file of two million bytes was
  written in between.
\<close>

definition wrf_module :: module_info where
  "wrf_module =
     \<lparr>dataset_name = ''WRF'', avgfolder = ''/wrfavg'',
      clim_file_pattern = Some (\<lambda>args. case args of
          [FStr ft, FInt d, FStr g, FStr p] \<Rightarrow> ''wrf'' @ ft @ ''_d'' @ fmt02d d @ g @ ''_clim'' @ p @ ''.nc''
        | _ \<Rightarrow> []),
      ts_file_pattern = Some (\<lambda>args. case args of
          [FStr ft, FInt d, FStr g] \<Rightarrow> ''wrf'' @ ft @ ''_d'' @ fmt02d d @ g @ ''_monthly.nc''
        | _ \<Rightarrow> [])\<rparr>"

definition src0 :: source where
  "src0 =
     \<lparr>atts = [''begin_date'' \<mapsto> ''1979-01-01'', ''end_date'' \<mapsto> ''1989-01-01''],
      filelist = [''/a.nc'', ''/b.nc'']\<rparr>"

definition env0 :: "nat env" where
  "env0 =
     \<lparr>modules = [''WRF'' \<mapsto> wrf_module],
      load = (\<lambda>f a. Inr src0),
      all_isInt = (\<lambda>xs. Inr True),
      getFileName = (\<lambda>g p n t. n @ ''_'' @ g @ ''.nc''),
      ShapeAverage = (\<lambda>s d n v. Inr 2000000)\<rparr>"

definition da0 :: dataargs where
  "da0 =
     \<lparr>experiment_key = Some \<lparr>name = ''max'', begindate = ''1979-01-01''\<rparr>,
      domain = Some (DInt 2), period = Some PNone, filetypes = Some [''srfc''],
      resolution = None, load3D = None\<rparr>"

definition world0 :: world where
  "world0 =
     \<lparr>fs = [''/a.nc'' \<mapsto> \<lparr>mtime = 10, fsize = 5, fstatus = Closed\<rparr>,
            ''/b.nc'' \<mapsto> \<lparr>mtime = 20, fsize = 5, fstatus = Closed\<rparr>,
            ''/wrfavg/max/wrfsrfc_d02_shpavg_monthly.nc''
              \<mapsto> \<lparr>mtime = 15, fsize = 2000000, fstatus = Closed\<rparr>],
      dirs = {''/wrfavg/max/''}, today = 100\<rparr>"

text \<open>The same for the climatology worker; the climatology file of 1979 to 1984 is there,
  newer than the source and ten bytes long.\<close>

definition fileclass0 :: fileclass where
  "fileclass0 =
     \<lparr>tsfile = (\<lambda>d. ''wrfsrfc_d'' @ fmt02d d @ ''_monthly.nc''),
      climfile = (\<lambda>d g p. ''wrfsrfc_d'' @ fmt02d d @ g @ ''_clim'' @ p @ ''.nc'')\<rparr>"

definition wenv0 :: wenv where
  "wenv0 =
     \<lparr>fileclasses = [''srfc'' \<mapsto> fileclass0],
      loadWRF_TS = (\<lambda>e f d. Inr src0),
      wrf_avgfolder = ''/wrfavg/'',
      isInt = (\<lambda>xs. Inr True),
      Climatology = (\<lambda>s p off. Inr 500000),
      Regrid = (\<lambda>g. Inr 500000),
      months = 100,
      grid = Some ''WRF'',
      debug = Some False\<rparr>"

definition world1 :: world where
  "world1 =
     \<lparr>fs = [''/a.nc'' \<mapsto> \<lparr>mtime = 10, fsize = 5, fstatus = Closed\<rparr>,
            ''/b.nc'' \<mapsto> \<lparr>mtime = 20, fsize = 5, fstatus = Closed\<rparr>,
            ''/wrfavg/max/wrfsrfc_d01_clim_1979-1984.nc''
              \<mapsto> \<lparr>mtime = 50, fsize = 10, fstatus = Unsynced\<rparr>],
      dirs = {''/wrfavg/max/''}, today = 100\<rparr>"

text \<open>The job that lines 40 to 191 hand on for these inputs (a time-series job of the
  experiment \<^verbatim>\<open>max\<close>, domain 2, file type \<^verbatim>\<open>srfc\<close>), and the run up to there.\<close>

definition job0 :: job where
  "job0 =
     \<lparr>j_vars =
        \<lparr>v_module = wrf_module, v_source = src0, v_dataset_name = ''max'', v_period = PNone,
         v_periodstr = [],
         v_datamsgstr = ''Processing WRF '' @ [CHR 0x27] @ ''srfc'' @ [CHR 0x27]
            @ ''-file from Experiment '' @ [CHR 0x27] @ ''max'' @ [CHR 0x27] @ '' (d02)'',
         v_filetype = Some ''srfc'', v_domain = Some 2, v_grid_name = None\<rparr>,
      j_sourceage = Some 10, j_periodstr = [],
      j_filename = Some ''wrfsrfc_d02_shpavg_monthly.nc'', j_avgfolder = ''/wrfavg/max/''\<rparr>"

definition run0 :: run where
  "run0 =
     \<lparr>fs = fs world0, dirs = dirs world0, today = today world0,
      trace =
        [GetLogger, Import ''WRF'',
         Load ''loadWRF_TS''
           \<lparr>la_experiment = ''max'', la_domains = Some 2, la_period = PNone,
            la_filetypes = [''srfc''], la_resolution = None, la_varlist = None,
            la_load3D = None, la_folder = None\<rparr>,
         Info (Processing (v_datamsgstr (j_vars job0)) ''Averaging Data from Time-series''),
         Getmtime ''/a.nc'', Getmtime ''/b.nc'', Exists ''/wrfavg/max/''],
      snaps = []\<rparr>"

text \<open>The run of the climatology worker on \<open>world1\<close> (experiment \<^verbatim>\<open>max\<close>, file type
  \<^verbatim>\<open>srfc\<close>, domain 1, not in parallel) when lines 29 to 51 are done.\<close>

definition run1 :: run where
  "run1 =
     \<lparr>fs = fs world1, dirs = dirs world1, today = today world1,
      trace =
        [Info (Processing ''max'' ''wrfsrfc_d01_monthly.nc''),
         Load ''loadWRF_TS''
           \<lparr>la_experiment = ''max'', la_domains = Some 1, la_period = PNone,
            la_filetypes = [''srfc''], la_resolution = None, la_varlist = None,
            la_load3D = None, la_folder = None\<rparr>,
         Info SourceInfo, Getmtime ''/a.nc'', Getmtime ''/b.nc''],
      snaps = []\<rparr>"

text \<open>A source whose NetCDF attribute \<^verbatim>\<open>period\<close> is 1979-1984, a loader that returns it,
  and a climatology job that asks for ten years from 1979.\<close>

definition src1 :: source where
  "src1 = \<lparr>atts = [''begin_date'' \<mapsto> ''1979-01-01'', ''end_date'' \<mapsto> ''1989-01-01'',
                     ''period'' \<mapsto> ''1979-1984''],
            filelist = [''/a.nc'', ''/b.nc'']\<rparr>"

definition env1 :: "nat env" where
  "env1 = env0\<lparr>load := (\<lambda>f a. Inr src1)\<rparr>"

definition da1 :: dataargs where
  "da1 = da0\<lparr>period := Some (PInt 10)\<rparr>"

definition args1 :: load_args where
  "args1 = \<lparr>la_experiment = ''max'', la_domains = Some 2, la_period = PSeq [1979, 1989],
            la_filetypes = [''srfc''], la_resolution = None, la_varlist = None,
            la_load3D = None, la_folder = None\<rparr>"

definition run2 :: run where
  "run2 = \<lparr>fs = fs world0, dirs = dirs world0, today = today world0,
      trace = [GetLogger, Import ''WRF'', Load ''loadWRF'' args1], snaps = []\<rparr>"

text \<open>The world of \<open>world0\<close> with a truncated shape-average file of 4096 bytes, left
  behind unsynced, and the run on it up to line 191.\<close>

definition world2 :: world where
  "world2 =
     \<lparr>fs = [''/a.nc'' \<mapsto> \<lparr>mtime = 10, fsize = 5, fstatus = Closed\<rparr>,
            ''/b.nc'' \<mapsto> \<lparr>mtime = 20, fsize = 5, fstatus = Closed\<rparr>,
            ''/wrfavg/max/wrfsrfc_d02_shpavg_monthly.nc''
              \<mapsto> \<lparr>mtime = 15, fsize = 4096, fstatus = Unsynced\<rparr>],
      dirs = {''/wrfavg/max/''}, today = 100\<rparr>"

definition run3 :: run where
  "run3 = run0\<lparr>fs := fs world2\<rparr>"

text \<open>
  The inputs of a CESM job: the module as \<^verbatim>\<open>CESM.py\<close> has it (no file patterns), a loader
  that takes the keywords of the worker and returns the source with the period attribute
  (\<open>env2\<close>), and the loaders of the \<^verbatim>\<open>CESM.py\<close> of this repository, which take neither
  \<^verbatim>\<open>load3D\<close> nor \<^verbatim>\<open>translateVars\<close> and so raise \<^verbatim>\<open>TypeError\<close> (\<open>env3\<close>); a period of three
  years; the arguments of the CESM loader and the two runs that end at line 121 and at
  line 71.
\<close>

definition cesm_module :: module_info where
  "cesm_module =
     \<lparr>dataset_name = ''CESM'', avgfolder = ''/CESM/cesmavg/'',
      clim_file_pattern = None, ts_file_pattern = None\<rparr>"

definition env2 :: "nat env" where
  "env2 = env1\<lparr>modules := [''WRF'' \<mapsto> wrf_module, ''CESM'' \<mapsto> cesm_module]\<rparr>"

definition env3 :: "nat env" where
  "env3 = env2\<lparr>load := (\<lambda>f a. if f = ''loadCESM'' \<or> f = ''loadCESM_TS'' then Inl TypeError
                                else Inr src1)\<rparr>"

definition da2 :: dataargs where
  "da2 = da0\<lparr>period := Some (PSeq [1979, 1984, 1989])\<rparr>"

definition args2 :: load_args where
  "args2 = \<lparr>la_experiment = ''max'', la_domains = None, la_period = PSeq [1979, 1989],
            la_filetypes = [''srfc''], la_resolution = None, la_varlist = None,
            la_load3D = None, la_folder = None\<rparr>"

definition run4 :: run where
  "run4 = \<lparr>fs = fs world0, dirs = dirs world0, today = today world0,
      trace = [GetLogger, Import ''CESM'', Load ''loadCESM'' args2], snaps = []\<rparr>"

definition run5 :: run where
  "run5 = \<lparr>fs = fs world0, dirs = dirs world0, today = today world0,
      trace = [GetLogger, Import ''WRF''], snaps = []\<rparr>"

text \<open>
  The world that a run leaves to the next one, and an engine whose output is a complete file
  of 4096 bytes.
\<close>

definition world_after :: "run \<Rightarrow> world" where
  "world_after r = \<lparr>fs = fs r, dirs = dirs r, today = today r\<rparr>"

definition env4 :: "nat env" where
  "env4 = env0\<lparr>ShapeAverage := (\<lambda>s d n v. Inr 4096)\<rparr>"

subsection \<open>Predicates on events and on phases\<close>

text \<open>An event that changes no file, and a phase of a worker that changes nothing but the
  trace, to which it adds such events only.\<close>

definition reads :: "event \<Rightarrow> bool" where
  "reads e =
     (case e of
        Remove p \<Rightarrow> False | Create p \<Rightarrow> False | Write p \<Rightarrow> False
      | Sync p \<Rightarrow> False | Close p \<Rightarrow> False | Rename p q \<Rightarrow> False
      | _ \<Rightarrow> True)"

definition quiet :: "'a io \<Rightarrow> bool" where
  "quiet m \<longleftrightarrow>
     (\<forall>r res r'. m r = (res, r') \<longrightarrow>
        fs r' = fs r \<and> dirs r' = dirs r \<and> today r' = today r \<and> snaps r' = snaps r
        \<and> (\<exists>es. trace r' = trace r @ es \<and> list_all reads es))"

text \<open>
  A phase that keeps an invariant of the file system: started where the invariant holds, it
  ends where it holds, leaves the directories and the clock alone, adds to the trace only
  events of a given kind and to the snapshots only file systems with the invariant.
\<close>

definition steps :: "((string \<rightharpoonup> fileinfo) \<Rightarrow> bool) \<Rightarrow> (event \<Rightarrow> bool) \<Rightarrow> 'a io \<Rightarrow> bool" where
  "steps Inv P m \<longleftrightarrow>
     (\<forall>r res r'. m r = (res, r') \<longrightarrow> Inv (fs r) \<longrightarrow>
        Inv (fs r') \<and> dirs r' = dirs r \<and> today r' = today r
        \<and> (\<exists>es ss. trace r' = trace r @ es \<and> snaps r' = snaps r @ ss
              \<and> list_all P es \<and> list_all Inv ss))"

text \<open>Events other than the call of a loader.\<close>

definition no_load :: "event \<Rightarrow> bool" where
  "no_load e = (case e of Load f a \<Rightarrow> False | _ \<Rightarrow> True)"

text \<open>What the logger setup of lines 49 to 56 leaves in the trace.\<close>

definition logger_events :: "logger_arg \<Rightarrow> event list" where
  "logger_events l = (if l = LoggerHandle then [] else [GetLogger])"

text \<open>
  Events that write to a path directly, events that rename something to it, events that do
  neither; a file system in which the path is absent; events other than the message that
  reports a skip.
\<close>

definition direct :: "string \<Rightarrow> event \<Rightarrow> bool" where
  "direct fp e = (e = Create fp \<or> e = Write fp \<or> e = Sync fp \<or> e = Close fp)"

definition renames_to :: "string \<Rightarrow> event \<Rightarrow> bool" where
  "renames_to fp e = (case e of Rename a b \<Rightarrow> b = fp | _ \<Rightarrow> False)"

definition untouched :: "string \<Rightarrow> event \<Rightarrow> bool" where
  "untouched fp e = (\<not> direct fp e \<and> \<not> renames_to fp e)"

definition absent :: "string \<Rightarrow> (string \<rightharpoonup> fileinfo) \<Rightarrow> bool" where
  "absent fp m = (m fp = None)"

definition no_skip :: "event \<Rightarrow> bool" where
  "no_skip e = (case e of Info (Skipping a b) \<Rightarrow> False | _ \<Rightarrow> True)"

section \<open>Properties\<close>

subsection \<open>The phases before the skip decision change no file\<close>

lemma bnd_cases:
  assumes "bnd m f r = (res, r')"
  obtains (fail) e where "m r = (Inl e, r')" "res = Inl e"
        | (pass) x r1 where "m r = (Inr x, r1)" "f x r1 = (res, r')"
proof (cases "m r")
  case (Pair a r1)
  show ?thesis
  proof (cases a)
    case (Inl e)
    with Pair assms fail show ?thesis by (simp add: bnd_def)
  next
    case (Inr x)
    with Pair assms pass show ?thesis by (simp add: bnd_def)
  qed
qed

lemma bnd_InrE:
  assumes "bnd m f r = (Inr y, r')"
  obtains x r1 where "m r = (Inr x, r1)" "f x r1 = (Inr y, r')"
  using assms by (cases rule: bnd_cases) auto

lemma bnd_Inr: "m r = (Inr x, r1) \<Longrightarrow> bnd m f r = f x r1"
  by (simp add: bnd_def)

lemma bnd_Inl: "m r = (Inl e, r1) \<Longrightarrow> bnd m f r = (Inl e, r1)"
  by (simp add: bnd_def)

lemma quiet_ok: "quiet (ok x)" by (simp add: quiet_def ok_def)
lemma quiet_raise: "quiet (raise e)" by (simp add: quiet_def raise_def)
lemma quiet_lift: "quiet (lift v)" by (simp add: quiet_def lift_def)
lemma quiet_emit: "reads e \<Longrightarrow> quiet (emit e)" by (auto simp: quiet_def emit_def)
lemma quiet_info: "quiet (info m)" by (simp add: info_def quiet_emit reads_def)

lemma quiet_bnd:
  assumes "quiet m" and "\<And>x. quiet (f x)"
  shows "quiet (bnd m f)"
  unfolding quiet_def
proof (intro allI impI)
  fix r res r'
  assume run: "bnd m f r = (res, r')"
  from run show "fs r' = fs r \<and> dirs r' = dirs r \<and> today r' = today r \<and> snaps r' = snaps r
      \<and> (\<exists>es. trace r' = trace r @ es \<and> list_all reads es)"
  proof (cases rule: bnd_cases)
    case (fail e)
    with assms(1) show ?thesis by (simp add: quiet_def)
  next
    case (pass x r1)
    from assms(1) pass(1) have a: "fs r1 = fs r" "dirs r1 = dirs r" "today r1 = today r"
      "snaps r1 = snaps r" and "\<exists>es. trace r1 = trace r @ es \<and> list_all reads es"
      unfolding quiet_def by blast+
    then obtain es where es: "trace r1 = trace r @ es" "list_all reads es" by blast
    from assms(2) [of x] pass(2) have b: "fs r' = fs r1" "dirs r' = dirs r1" "today r' = today r1"
      "snaps r' = snaps r1" and "\<exists>es. trace r' = trace r1 @ es \<and> list_all reads es"
      unfolding quiet_def by blast+
    then obtain es' where es': "trace r' = trace r1 @ es'" "list_all reads es'" by blast
    have "trace r' = trace r @ (es @ es')" using es es' by simp
    moreover have "list_all reads (es @ es')" using es es' by simp
    ultimately show ?thesis using a b by metis
  qed
qed

lemma quiet_if: "(c \<Longrightarrow> quiet a) \<Longrightarrow> (\<not> c \<Longrightarrow> quiet b) \<Longrightarrow> quiet (if c then a else b)"
  by simp

lemma quiet_case_option: "quiet a \<Longrightarrow> (\<And>x. quiet (f x)) \<Longrightarrow> quiet (case v of None \<Rightarrow> a | Some x \<Rightarrow> f x)"
  by (cases v) simp_all

lemma quiet_case_list: "quiet a \<Longrightarrow> (\<And>x xs. quiet (f x xs)) \<Longrightarrow> quiet (case v of [] \<Rightarrow> a | x # xs \<Rightarrow> f x xs)"
  by (cases v) simp_all

lemma quiet_case_prod: "(\<And>a b. quiet (f a b)) \<Longrightarrow> quiet (case v of (a, b) \<Rightarrow> f a b)"
  by (cases v) simp_all

lemma quiet_case_logger:
  "quiet a \<Longrightarrow> (\<And>n. quiet (b n)) \<Longrightarrow> quiet c \<Longrightarrow> quiet d
   \<Longrightarrow> quiet (case l of NoLogger \<Rightarrow> a | LoggerName n \<Rightarrow> b n | LoggerHandle \<Rightarrow> c | NotALogger \<Rightarrow> d)"
  by (cases l) simp_all

lemma quiet_case_domain:
  "(\<And>n. quiet (a n)) \<Longrightarrow> (\<And>n. quiet (b n)) \<Longrightarrow> quiet c
   \<Longrightarrow> quiet (case l of DInt n \<Rightarrow> a n | DSeq n \<Rightarrow> b n | DOther \<Rightarrow> c)"
  by (cases l) simp_all

lemma quiet_lookup: "quiet (lookup v)" by (simp add: lookup_def quiet_case_option quiet_ok quiet_raise)
lemma quiet_local_var: "quiet (local_var v)" by (simp add: local_var_def quiet_case_option quiet_ok quiet_raise)
lemma quiet_attribute: "quiet (attribute v)" by (simp add: attribute_def quiet_case_option quiet_ok quiet_raise)
lemma quiet_global_var: "quiet (global_var v)" by (simp add: global_var_def quiet_case_option quiet_ok quiet_raise)
lemma quiet_first: "quiet (first v)" by (simp add: first_def quiet_case_list quiet_ok quiet_raise)
lemma quiet_today: "quiet datetime_today" by (simp add: quiet_def datetime_today_def)
lemma quiet_exists: "quiet (os_path_exists p)"
  by (auto simp: quiet_def os_path_exists_def bnd_def emit_def reads_def)
lemma quiet_getmtime: "quiet (os_path_getmtime p)"
  by (auto simp: quiet_def os_path_getmtime_def bnd_def emit_def reads_def)
lemma quiet_getsize: "quiet (os_path_getsize p)"
  by (auto simp: quiet_def os_path_getsize_def bnd_def emit_def reads_def)

lemmas quiet_intros = quiet_ok quiet_raise quiet_lift quiet_info quiet_bnd quiet_if quiet_case_option
  quiet_case_list quiet_case_prod quiet_case_logger quiet_case_domain quiet_lookup quiet_local_var
  quiet_attribute quiet_global_var quiet_first quiet_today quiet_exists quiet_getmtime quiet_getsize

lemma quiet_oldest: "quiet (oldest fl t)"
  by (induction fl arbitrary: t) (auto intro!: quiet_intros)

lemma quiet_source_age: "quiet (source_age ov src)"
  unfolding source_age_def by (intro quiet_intros quiet_oldest)

lemma quiet_check_input: "quiet (check_input kw)"
  unfolding check_input_def by (intro quiet_intros)

lemma quiet_setup_logger: "quiet (setup_logger l)"
  unfolding setup_logger_def by (intro quiet_intros quiet_emit) (simp_all add: reads_def)

lemma quiet_import: "quiet (import_module env m)"
  unfolding import_module_def by (intro quiet_intros quiet_emit) (simp_all add: reads_def)

lemma quiet_call_loader: "quiet (call_loader env f a)"
  unfolding call_loader_def by (intro quiet_intros quiet_emit) (simp_all add: reads_def)

lemma quiet_check_period: "quiet (check_period p src)"
  unfolding check_period_def by (intro quiet_intros)

lemma quiet_load_WRF: "quiet (load_WRF env mode da vl)"
  unfolding load_WRF_def by (intro quiet_intros quiet_import quiet_call_loader quiet_check_period)

lemma quiet_load_CESM: "quiet (load_CESM env mode da vl)"
  unfolding load_CESM_def by (intro quiet_intros quiet_import quiet_call_loader quiet_check_period)

lemma quiet_load_obs: "quiet (load_obs env ds mode da vl)"
  unfolding load_obs_def by (intro quiet_intros quiet_import quiet_call_loader quiet_check_period)

lemma quiet_load_source: "quiet (load_source env ds mode da vl)"
  unfolding load_source_def by (intro quiet_intros quiet_load_WRF quiet_load_CESM quiet_load_obs)

lemma quiet_announce: "quiet (announce mode kw v)"
  unfolding announce_def by (intro quiet_intros)

lemma quiet_target_names: "quiet (target_names env ds mode shp kw v)"
  unfolding target_names_def Let_def by (intro quiet_intros)

lemma quiet_check_folder: "quiet (check_folder kw fn fo)"
  unfolding check_folder_def by (intro quiet_intros)

lemma quiet_after_load: "quiet (after_load env ds mode shp kw v)"
  unfolding after_load_def
  by (intro quiet_intros quiet_announce quiet_source_age quiet_target_names quiet_check_folder)

lemma quiet_prepare: "quiet (prepare env ds mode shp da kw)"
  unfolding prepare_def
  by (intro quiet_intros quiet_check_input quiet_setup_logger quiet_load_source quiet_after_load)

lemma quiet_open_source: "quiet (open_source env ex ft d ps ov par lg)"
  unfolding open_source_def
  by (intro quiet_intros quiet_source_age quiet_case_logger quiet_emit) (simp_all add: reads_def)


subsection \<open>The age of the source\<close>

lemma quietD:
  assumes "quiet m" "m r = (res, r')"
  shows "fs r' = fs r" "dirs r' = dirs r" "today r' = today r" "snaps r' = snaps r"
    "\<exists>es. trace r' = trace r @ es \<and> list_all reads es"
  using assms unfolding quiet_def by blast+

lemma getmtime_Inr:
  assumes "os_path_getmtime p r = (Inr a, r')"
  shows "\<exists>f. fs r p = Some f \<and> a = mtime f"
  using assms by (auto simp: os_path_getmtime_def bnd_def emit_def split: option.splits)

lemma oldest_value:
  assumes "oldest fl t r = (Inr a, r')"
  shows "(\<forall>p\<in>set fl. fs r p \<noteq> None)
       \<and> a = Min (insert t ((\<lambda>p. mtime (the (fs r p))) ` set fl))"
  using assms
proof (induction fl arbitrary: t r)
  case Nil
  then show ?case by (simp add: ok_def)
next
  case (Cons p rest)
  from Cons.prems have "bnd (os_path_getmtime p)
      (\<lambda>age. oldest rest (if age < t then age else t)) r = (Inr a, r')" by simp
  then show ?case
  proof (cases rule: bnd_cases)
    case (fail e)
    then show ?thesis by simp
  next
    case (pass age r1)
    from getmtime_Inr [OF pass(1)] obtain f where f: "fs r p = Some f" "age = mtime f" by blast
    have same: "fs r1 = fs r" using quietD(1) [OF quiet_getmtime pass(1)] .
    from Cons.IH [OF pass(2)] have ih: "\<forall>q\<in>set rest. fs r1 q \<noteq> None"
      "a = Min (insert (if age < t then age else t) ((\<lambda>q. mtime (the (fs r1 q))) ` set rest))"
      by blast+
    let ?S = "(\<lambda>q. mtime (the (fs r q))) ` set rest"
    have "Min (insert (if age < t then age else t) ?S) = Min (insert t (insert age ?S))"
    proof (cases "?S = {}")
      case True
      then show ?thesis by (simp add: min_def)
    next
      case False
      then have "Min (insert t (insert age ?S)) = min t (min age (Min ?S))" by simp
      moreover have "Min (insert (if age < t then age else t) ?S)
          = min (if age < t then age else t) (Min ?S)" using False by simp
      ultimately show ?thesis by (simp add: min_def)
    qed
    then show ?thesis using ih f same by simp
  qed
qed

lemma source_age_value:
  assumes "source_age False src r = (Inr sa, r')"
  shows "(\<forall>p\<in>set (filelist src). fs r p \<noteq> None)
       \<and> sa = Some (Min (insert (today r) ((\<lambda>p. mtime (the (fs r p))) ` set (filelist src))))"
proof -
  from assms have "bnd datetime_today
      (\<lambda>t. bnd (oldest (filelist src) t) (\<lambda>sourceage. ok (Some sourceage))) r = (Inr sa, r')"
    by (simp add: source_age_def)
  then have "bnd (oldest (filelist src) (today r)) (\<lambda>sourceage. ok (Some sourceage)) r = (Inr sa, r')"
    by (simp add: bnd_def datetime_today_def)
  then show ?thesis
  proof (cases rule: bnd_cases)
    case (fail e)
    then show ?thesis by simp
  next
    case (pass a r1)
    then have "sa = Some a" by (simp add: ok_def)
    with oldest_value [OF pass(1)] show ?thesis by simp
  qed
qed

lemma source_age_overwrite: "source_age True src r = (Inr None, r)"
  by (simp add: source_age_def ok_def)

text \<open>What a successful preparation tells about the job.\<close>

lemma after_load_Inr:
  assumes "after_load env ds mode shp kw v r0 = (Inr j, r1)"
  obtains ra rb where "fs ra = fs r0" "today ra = today r0" "j_vars j = v"
    "source_age (loverwrite kw) (v_source v) ra = (Inr (j_sourceage j), rb)"
proof -
  from assms [unfolded after_load_def] obtain u4 r5 where 4: "announce mode kw v r0 = (Inr u4, r5)"
    and c4: "bnd (source_age (loverwrite kw) (v_source v)) (\<lambda>sourceage.
     bnd (target_names env ds mode shp kw v) (\<lambda>(periodstr, filename, folder).
     bnd (check_folder kw filename folder) (\<lambda>(filename', avgf).
     ok \<lparr>j_vars = v, j_sourceage = sourceage, j_periodstr = periodstr,
         j_filename = filename', j_avgfolder = avgf\<rparr>))) r5 = (Inr j, r1)"
    by (rule bnd_InrE)
  from c4 obtain sa r6 where 5: "source_age (loverwrite kw) (v_source v) r5 = (Inr sa, r6)"
    and c5: "bnd (target_names env ds mode shp kw v) (\<lambda>(periodstr, filename, folder).
     bnd (check_folder kw filename folder) (\<lambda>(filename', avgf).
     ok \<lparr>j_vars = v, j_sourceage = sa, j_periodstr = periodstr,
         j_filename = filename', j_avgfolder = avgf\<rparr>)) r6 = (Inr j, r1)"
    by (rule bnd_InrE)
  from c5 have jv: "j_vars j = v \<and> j_sourceage j = sa"
    by (auto elim!: bnd_cases simp: ok_def split: prod.splits)
  have "fs r5 = fs r0" "today r5 = today r0"
    using quietD(1,3) [OF quiet_announce 4] by simp_all
  with 5 jv that show ?thesis by blast
qed

lemma prepare_Inr:
  assumes "prepare env ds mode shp da kw r0 = (Inr j, r1)"
  obtains ra rb where "fs ra = fs r0" "today ra = today r0"
    "source_age (loverwrite kw) (v_source (j_vars j)) ra = (Inr (j_sourceage j), rb)"
proof -
  from assms [unfolded prepare_def] obtain u1 r2 where
      1: "check_input kw r0 = (Inr u1, r2)" and
      c1: "bnd (setup_logger (logger kw)) (\<lambda>_.
     bnd (load_source env ds mode da (varlist kw)) (\<lambda>v.
     after_load env ds mode shp kw v)) r2 = (Inr j, r1)"
    by (rule bnd_InrE)
  from c1 obtain u2 r3 where 2: "setup_logger (logger kw) r2 = (Inr u2, r3)" and
      c2: "bnd (load_source env ds mode da (varlist kw)) (\<lambda>v.
     after_load env ds mode shp kw v) r3 = (Inr j, r1)"
    by (rule bnd_InrE)
  from c2 obtain v r4 where 3: "load_source env ds mode da (varlist kw) r3 = (Inr v, r4)" and
      c3: "after_load env ds mode shp kw v r4 = (Inr j, r1)"
    by (rule bnd_InrE)
  from after_load_Inr [OF c3] obtain ra rb where a: "fs ra = fs r4" "today ra = today r4"
    "j_vars j = v" "source_age (loverwrite kw) (v_source v) ra = (Inr (j_sourceage j), rb)"
    by blast
  have "fs r4 = fs r0" "today r4 = today r0"
    using quietD(1,3) [OF quiet_check_input 1] quietD(1,3) [OF quiet_setup_logger 2]
      quietD(1,3) [OF quiet_load_source 3] by simp_all
  with a that show ?thesis by simp
qed

lemma prepare_sourceage:
  assumes "prepare env ds mode shp da kw r0 = (Inr j, r1)" and "\<not> loverwrite kw"
  shows "(\<forall>p\<in>set (filelist (v_source (j_vars j))). fs r0 p \<noteq> None)
     \<and> j_sourceage j = Some (Min (insert (today r0)
           ((\<lambda>p. mtime (the (fs r0 p))) ` set (filelist (v_source (j_vars j))))))"
proof -
  from prepare_Inr [OF assms(1)] obtain ra rb where
    "fs ra = fs r0" "today ra = today r0"
    "source_age (loverwrite kw) (v_source (j_vars j)) ra = (Inr (j_sourceage j), rb)" by blast
  with source_age_value [of "v_source (j_vars j)" ra "j_sourceage j" rb] assms(2)
  show ?thesis by simp
qed

lemma open_source_Inr:
  assumes "open_source env ex ft d ps ov par lg r0 = (Inr (fc, src, sa), r1)"
  obtains ra rb where "fs ra = fs r0" "today ra = today r0"
    "source_age ov src ra = (Inr sa, rb)"
proof -
  note q = quiet_intros quiet_emit quiet_case_logger
  from assms [unfolded open_source_def] obtain u1 r2 where
      1: "(case ps of None \<Rightarrow> ok ()
          | Some ps \<Rightarrow> bnd (lift (isInt env ps)) (\<lambda>b. if \<not> b then raise TypeError else ok ())) r0
          = (Inr u1, r2)"
    and c1: "bnd (lookup (fileclasses env ft)) (\<lambda>fc.
     bnd (case lg of
            LoggerHandle \<Rightarrow> info (Processing ex (tsfile fc d))
          | _ \<Rightarrow> raise AttributeError) (\<lambda>_.
     bnd (emit (Load ''loadWRF_TS''
            \<lparr>la_experiment = ex, la_domains = Some d, la_period = PNone,
             la_filetypes = [ft], la_resolution = None, la_varlist = None,
             la_load3D = None, la_folder = None\<rparr>)) (\<lambda>_.
     bnd (lift (loadWRF_TS env ex [ft] d)) (\<lambda>src.
     bnd (if \<not> par then info SourceInfo else ok ()) (\<lambda>_.
     bnd (source_age ov src) (\<lambda>sourceage.
     ok (fc, src, sourceage))))))) r2 = (Inr (fc, src, sa), r1)"
    by (rule bnd_InrE)
  from c1 obtain fc' r3 where 2: "lookup (fileclasses env ft) r2 = (Inr fc', r3)"
    and c2: "bnd (case lg of
            LoggerHandle \<Rightarrow> info (Processing ex (tsfile fc' d))
          | _ \<Rightarrow> raise AttributeError) (\<lambda>_.
     bnd (emit (Load ''loadWRF_TS''
            \<lparr>la_experiment = ex, la_domains = Some d, la_period = PNone,
             la_filetypes = [ft], la_resolution = None, la_varlist = None,
             la_load3D = None, la_folder = None\<rparr>)) (\<lambda>_.
     bnd (lift (loadWRF_TS env ex [ft] d)) (\<lambda>src.
     bnd (if \<not> par then info SourceInfo else ok ()) (\<lambda>_.
     bnd (source_age ov src) (\<lambda>sourceage.
     ok (fc', src, sourceage)))))) r3 = (Inr (fc, src, sa), r1)"
    by (rule bnd_InrE)
  from c2 obtain u3 r4 where 3: "(case lg of
            LoggerHandle \<Rightarrow> info (Processing ex (tsfile fc' d))
          | _ \<Rightarrow> raise AttributeError) r3 = (Inr u3, r4)"
    and c3: "bnd (emit (Load ''loadWRF_TS''
            \<lparr>la_experiment = ex, la_domains = Some d, la_period = PNone,
             la_filetypes = [ft], la_resolution = None, la_varlist = None,
             la_load3D = None, la_folder = None\<rparr>)) (\<lambda>_.
     bnd (lift (loadWRF_TS env ex [ft] d)) (\<lambda>src.
     bnd (if \<not> par then info SourceInfo else ok ()) (\<lambda>_.
     bnd (source_age ov src) (\<lambda>sourceage.
     ok (fc', src, sourceage))))) r4 = (Inr (fc, src, sa), r1)"
    by (rule bnd_InrE)
  from c3 obtain u4 r5 where 4: "emit (Load ''loadWRF_TS''
            \<lparr>la_experiment = ex, la_domains = Some d, la_period = PNone,
             la_filetypes = [ft], la_resolution = None, la_varlist = None,
             la_load3D = None, la_folder = None\<rparr>) r4 = (Inr u4, r5)"
    and c4: "bnd (lift (loadWRF_TS env ex [ft] d)) (\<lambda>src.
     bnd (if \<not> par then info SourceInfo else ok ()) (\<lambda>_.
     bnd (source_age ov src) (\<lambda>sourceage.
     ok (fc', src, sourceage)))) r5 = (Inr (fc, src, sa), r1)"
    by (rule bnd_InrE)
  from c4 obtain src' r6 where 5: "lift (loadWRF_TS env ex [ft] d) r5 = (Inr src', r6)"
    and c5: "bnd (if \<not> par then info SourceInfo else ok ()) (\<lambda>_.
     bnd (source_age ov src') (\<lambda>sourceage.
     ok (fc', src', sourceage))) r6 = (Inr (fc, src, sa), r1)"
    by (rule bnd_InrE)
  from c5 obtain u6 r7 where 6: "(if \<not> par then info SourceInfo else ok ()) r6 = (Inr u6, r7)"
    and c6: "bnd (source_age ov src') (\<lambda>sourceage.
     ok (fc', src', sourceage)) r7 = (Inr (fc, src, sa), r1)"
    by (rule bnd_InrE)
  from c6 obtain sa' r8 where 7: "source_age ov src' r7 = (Inr sa', r8)"
    and c7: "ok (fc', src', sa') r8 = (Inr (fc, src, sa), r1)"
    by (rule bnd_InrE)
  from c7 have eq: "src' = src" "sa' = sa" by (simp_all add: ok_def)
  have q1: "quiet (case ps of None \<Rightarrow> ok ()
          | Some ps \<Rightarrow> bnd (lift (isInt env ps)) (\<lambda>b. if \<not> b then raise TypeError else ok ()))"
    by (intro q)
  have q3: "quiet (case lg of
            LoggerHandle \<Rightarrow> info (Processing ex (tsfile fc' d))
          | _ \<Rightarrow> raise AttributeError)"
    by (cases lg) (simp_all add: q)
  have q4: "quiet (emit (Load ''loadWRF_TS''
            \<lparr>la_experiment = ex, la_domains = Some d, la_period = PNone,
             la_filetypes = [ft], la_resolution = None, la_varlist = None,
             la_load3D = None, la_folder = None\<rparr>))"
    by (rule quiet_emit) (simp add: reads_def)
  have q6: "quiet (if \<not> par then info SourceInfo else ok ())" by (intro q)
  have "fs r7 = fs r0" "today r7 = today r0"
    using quietD(1,3) [OF q1 1] quietD(1,3) [OF quiet_lookup 2] quietD(1,3) [OF q3 3]
      quietD(1,3) [OF q4 4] quietD(1,3) [OF quiet_lift 5] quietD(1,3) [OF q6 6] by simp_all
  with 7 eq that show ?thesis by blast
qed

lemma open_source_sourceage:
  assumes "open_source env ex ft d ps False par lg r0 = (Inr (fc, src, sa), r1)"
  shows "(\<forall>p\<in>set (filelist src). fs r0 p \<noteq> None)
     \<and> sa = Some (Min (insert (today r0) ((\<lambda>p. mtime (the (fs r0 p))) ` set (filelist src))))"
proof -
  from open_source_Inr [OF assms] obtain ra rb where "fs ra = fs r0" "today ra = today r0"
    "source_age False src ra = (Inr sa, rb)" by blast
  then show ?thesis using source_age_value [of src ra sa rb] by simp
qed



subsection \<open>Evaluation of the concrete inputs\<close>

lemmas io_defs = ok_def raise_def bnd_def lift_def emit_def change_def info_def lookup_def
  local_var_def attribute_def global_var_def datetime_today_def os_path_exists_def
  os_path_getmtime_def os_path_getsize_def os_remove_def os_rename_def nc_create_def nc_write_def
  nc_sync_def nc_close_def first_def

lemmas prep_defs = prepare_def after_load_def check_input_def setup_logger_def
  load_source_def load_WRF_def load_CESM_def load_obs_def model_period_def obs_period_def
  import_module_def call_loader_def check_period_def periodstr_of_def format_period_def
  announce_def source_age_def target_names_def check_folder_def

lemmas str_defs = upper_def upper_char_def lower_char_def title_def fmt4d_def fmt02d_def str_int_def
  py_int_def strip_def is_space_def digit_of_def digits.simps

lemmas ex_defs = fileclass0_def env0_def da0_def world0_def src0_def wrf_module_def default_kwargs_def
  wenv0_def world1_def

text \<open>The definitions that a concrete run unfolds.\<close>

lemma open0_any:
  "open_source wenv0 ''max'' ''srfc'' 1 ps False False LoggerHandle (start world1)
     = (Inr (fileclass0, src0, Some 10), run1)"
  by (cases ps)
     (simp_all add: open_source_def source_age_def io_defs str_defs wenv0_def world1_def src0_def
      fileclass0_def start_def run1_def)

lemma years0: "year_of src0 ''begin_date'' = Inr 1979" "year_of src0 ''end_date'' = Inr 1989"
  by (simp_all add: year_of_def src0_def str_defs)

lemma prepare0:
  "prepare env0 ''WRF'' ''time-series'' ''shpavg'' da0 default_kwargs (start world0) = (Inr job0, run0)"
  by (simp add: prep_defs io_defs str_defs ex_defs start_def job0_def run0_def Let_def)

text \<open>
  C2 (amended). In a job run without the overwrite flag, the reference time \<open>sourceage\<close> that
  is computed before the skip decision is the least of the time of day at which the job
  started and the modification times of all files in the file list of the source: the age of
  the oldest source file, not of the most recent one. This holds of the shape-average worker
  and of the climatology worker; every file of the list exists, or the job would have failed.
\<close>

theorem sourceage_is_oldest:
  "(prepare env dataset mode shape_name da kw (start w) = (Inr j, r1) \<and> \<not> loverwrite kw \<longrightarrow>
      (\<forall>p\<in>set (filelist (v_source (j_vars j))). fs w p \<noteq> None)
      \<and> j_sourceage j = Some (Min (insert (today w)
           ((\<lambda>p. mtime (the (fs w p))) ` set (filelist (v_source (j_vars j)))))))
   \<and> (open_source wenv exper filetype dmn periods False parallel lg (start w)
         = (Inr (fc, src, sa), r2) \<longrightarrow>
      (\<forall>p\<in>set (filelist src). fs w p \<noteq> None)
      \<and> sa = Some (Min (insert (today w) ((\<lambda>p. mtime (the (fs w p))) ` set (filelist src)))))"
proof (intro conjI impI)
  assume a: "prepare env dataset mode shape_name da kw (start w) = (Inr j, r1) \<and> \<not> loverwrite kw"
  from prepare_sourceage [of env dataset mode shape_name da kw "start w" j r1] a
  show "\<forall>p\<in>set (filelist (v_source (j_vars j))). fs w p \<noteq> None"
    and "j_sourceage j = Some (Min (insert (today w)
           ((\<lambda>p. mtime (the (fs w p))) ` set (filelist (v_source (j_vars j))))))"
    by (simp_all add: start_def)
next
  assume b: "open_source wenv exper filetype dmn periods False parallel lg (start w)
         = (Inr (fc, src, sa), r2)"
  from open_source_sourceage [OF b]
  show "\<forall>p\<in>set (filelist src). fs w p \<noteq> None"
    and "sa = Some (Min (insert (today w) ((\<lambda>p. mtime (the (fs w p))) ` set (filelist src))))"
    by (simp_all add: start_def)
qed


theorem sourceage_is_oldest_witness:
  "prepare env0 ''WRF'' ''time-series'' ''shpavg'' da0 default_kwargs (start world0)
     = (Inr job0, run0)
   \<and> \<not> loverwrite default_kwargs
   \<and> filelist (v_source (j_vars job0)) = [''/a.nc'', ''/b.nc'']
   \<and> j_sourceage job0 = Some (Min {today world0, mtime (the (fs world0 ''/a.nc'')),
         mtime (the (fs world0 ''/b.nc''))})
   \<and> open_source wenv0 ''max'' ''srfc'' 1 (Some [5]) False False LoggerHandle (start world1)
     = (Inr (fileclass0, src0, Some 10), run1)
   \<and> Some (10::int) = Some (Min {today world1, mtime (the (fs world1 ''/a.nc'')),
         mtime (the (fs world1 ''/b.nc''))})"
  using sourceage_is_oldest [where env = env0 and dataset = "''WRF''" and mode = "''time-series''"
      and shape_name = "''shpavg''" and da = da0 and kw = default_kwargs and w = world0
      and j = job0 and ?r1.0 = run0 and wenv = wenv0 and exper = "''max''"
      and filetype = "''srfc''" and dmn = 1 and periods = "Some [5]" and parallel = False
      and lg = LoggerHandle and fc = fileclass0 and src = src0 and sa = "Some 10" and ?r2.0 = run1]
    prepare0 open0_any [of "Some [5]"]
  by (simp add: default_kwargs_def job0_def src0_def world0_def world1_def)

text \<open>
  C2 as stated: with source files modified at 10 and at 20 the reference time is 10, not the
  maximum 20.
\<close>

theorem sourceage_maximum_counterexample:
  "prepare env0 ''WRF'' ''time-series'' ''shpavg'' da0 default_kwargs (start world0)
     = (Inr job0, run0)
   \<and> \<not> loverwrite default_kwargs
   \<and> filelist (v_source (j_vars job0)) = [''/a.nc'', ''/b.nc'']
   \<and> map_option mtime (fs world0 ''/a.nc'') = Some 10
   \<and> map_option mtime (fs world0 ''/b.nc'') = Some 20
   \<and> j_sourceage job0 = Some 10
   \<and> j_sourceage job0 \<noteq> Some (max 10 20)"
  using prepare0 by (simp add: default_kwargs_def job0_def src0_def world0_def)


subsection \<open>Phases that keep an invariant\<close>

lemma stepsD:
  assumes "steps Inv P m" "m r = (res, r')" "Inv (fs r)"
  obtains es ss where "Inv (fs r')" "dirs r' = dirs r" "today r' = today r"
    "trace r' = trace r @ es" "snaps r' = snaps r @ ss" "list_all P es" "list_all Inv ss"
  using assms unfolding steps_def by blast

lemma steps_ok: "steps Inv P (ok x)" by (simp add: steps_def ok_def)
lemma steps_raise: "steps Inv P (raise e)" by (simp add: steps_def raise_def)
lemma steps_lift: "steps Inv P (lift v)" by (simp add: steps_def lift_def)
lemma steps_emit: "P e \<Longrightarrow> steps Inv P (emit e)" by (simp add: steps_def emit_def)
lemma steps_info: "P (Info m) \<Longrightarrow> steps Inv P (info m)" by (simp add: info_def steps_emit)
lemma steps_today: "steps Inv P datetime_today" by (simp add: steps_def datetime_today_def)

lemma steps_change:
  assumes "P e" "\<And>m. Inv m \<Longrightarrow> Inv (f m)"
  shows "steps Inv P (change e f)"
  using assms by (simp add: steps_def change_def)

lemma steps_bnd:
  assumes "steps Inv P m" and "\<And>x. steps Inv P (f x)"
  shows "steps Inv P (bnd m f)"
  unfolding steps_def
proof (intro allI impI)
  fix r res r'
  assume run: "bnd m f r = (res, r')" and inv: "Inv (fs r)"
  from run show "Inv (fs r') \<and> dirs r' = dirs r \<and> today r' = today r
        \<and> (\<exists>es ss. trace r' = trace r @ es \<and> snaps r' = snaps r @ ss
              \<and> list_all P es \<and> list_all Inv ss)"
  proof (cases rule: bnd_cases)
    case (fail e)
    with assms(1) inv show ?thesis unfolding steps_def by blast
  next
    case (pass x r1)
    from stepsD [OF assms(1) pass(1) inv] obtain es ss where
      a: "Inv (fs r1)" "dirs r1 = dirs r" "today r1 = today r"
      "trace r1 = trace r @ es" "snaps r1 = snaps r @ ss" "list_all P es" "list_all Inv ss" .
    from stepsD [OF assms(2) pass(2) a(1)] obtain es' ss' where
      b: "Inv (fs r')" "dirs r' = dirs r1" "today r' = today r1"
      "trace r' = trace r1 @ es'" "snaps r' = snaps r1 @ ss'" "list_all P es'" "list_all Inv ss'" .
    have "trace r' = trace r @ (es @ es')" "snaps r' = snaps r @ (ss @ ss')"
      "list_all P (es @ es')" "list_all Inv (ss @ ss')"
      using a b by simp_all
    then show ?thesis using a b by metis
  qed
qed

lemma steps_if: "(c \<Longrightarrow> steps Inv P a) \<Longrightarrow> (\<not> c \<Longrightarrow> steps Inv P b) \<Longrightarrow> steps Inv P (if c then a else b)"
  by simp

lemma steps_case_option:
  "steps Inv P a \<Longrightarrow> (\<And>x. steps Inv P (f x)) \<Longrightarrow> steps Inv P (case v of None \<Rightarrow> a | Some x \<Rightarrow> f x)"
  by (cases v) simp_all

lemma steps_case_list:
  "steps Inv P a \<Longrightarrow> (\<And>x xs. steps Inv P (f x xs))
   \<Longrightarrow> steps Inv P (case v of [] \<Rightarrow> a | x # xs \<Rightarrow> f x xs)"
  by (cases v) simp_all

lemma steps_case_prod: "(\<And>a b. steps Inv P (f a b)) \<Longrightarrow> steps Inv P (case v of (a, b) \<Rightarrow> f a b)"
  by (cases v) simp_all

lemma steps_case_logger:
  "steps Inv P a \<Longrightarrow> (\<And>n. steps Inv P (b n)) \<Longrightarrow> steps Inv P c \<Longrightarrow> steps Inv P d
   \<Longrightarrow> steps Inv P (case l of NoLogger \<Rightarrow> a | LoggerName n \<Rightarrow> b n | LoggerHandle \<Rightarrow> c | NotALogger \<Rightarrow> d)"
  by (cases l) simp_all

lemma steps_case_domain:
  "(\<And>n. steps Inv P (a n)) \<Longrightarrow> (\<And>n. steps Inv P (b n)) \<Longrightarrow> steps Inv P c
   \<Longrightarrow> steps Inv P (case l of DInt n \<Rightarrow> a n | DSeq n \<Rightarrow> b n | DOther \<Rightarrow> c)"
  by (cases l) simp_all

lemma steps_lookup: "steps Inv P (lookup v)"
  by (simp add: lookup_def steps_case_option steps_ok steps_raise)
lemma steps_local_var: "steps Inv P (local_var v)"
  by (simp add: local_var_def steps_case_option steps_ok steps_raise)
lemma steps_attribute: "steps Inv P (attribute v)"
  by (simp add: attribute_def steps_case_option steps_ok steps_raise)
lemma steps_global_var: "steps Inv P (global_var v)"
  by (simp add: global_var_def steps_case_option steps_ok steps_raise)
lemma steps_first: "steps Inv P (first v)"
  by (simp add: first_def steps_case_list steps_ok steps_raise)

lemma steps_exists: "P (Exists p) \<Longrightarrow> steps Inv P (os_path_exists p)"
  by (auto simp: steps_def os_path_exists_def bnd_def emit_def)
lemma steps_getmtime: "P (Getmtime p) \<Longrightarrow> steps Inv P (os_path_getmtime p)"
  by (auto simp: steps_def os_path_getmtime_def bnd_def emit_def)
lemma steps_getsize: "P (Getsize p) \<Longrightarrow> steps Inv P (os_path_getsize p)"
  by (auto simp: steps_def os_path_getsize_def bnd_def emit_def)

lemma steps_remove:
  assumes "P (Remove p)" "\<And>m. Inv m \<Longrightarrow> Inv (m(p := None))"
  shows "steps Inv P (os_remove p)"
  using assms by (auto simp: steps_def os_remove_def change_def split: option.splits)

lemma steps_rename:
  assumes "P (Rename a b)" "\<And>m f. Inv m \<Longrightarrow> m a = Some f \<Longrightarrow> Inv ((m(a := None))(b \<mapsto> f))"
  shows "steps Inv P (os_rename a b)"
  using assms by (auto simp: steps_def os_rename_def change_def split: option.splits)

lemma steps_create:
  assumes "P (Create p)" "\<And>m f. Inv m \<Longrightarrow> Inv (m(p \<mapsto> f))"
  shows "steps Inv P (nc_create p)"
  using assms by (auto simp: steps_def nc_create_def change_def)

lemma steps_write:
  assumes "P (Write p)" "\<And>m f. Inv m \<Longrightarrow> Inv (m(p \<mapsto> f))"
  shows "steps Inv P (nc_write p n)"
  using assms by (auto simp: steps_def nc_write_def change_def)

lemma steps_sync:
  assumes "P (Sync p)" "\<And>m f. Inv m \<Longrightarrow> Inv (m(p \<mapsto> f))"
  shows "steps Inv P (nc_sync p)"
  using assms by (auto simp: steps_def nc_sync_def change_def split: option.splits)

lemma steps_close:
  assumes "P (Close p)" "\<And>m f. Inv m \<Longrightarrow> Inv (m(p \<mapsto> f))"
  shows "steps Inv P (nc_close p)"
  using assms by (auto simp: steps_def nc_close_def change_def split: option.splits)

lemmas steps_intros = steps_ok steps_raise steps_lift steps_emit steps_info steps_today steps_bnd
  steps_if steps_case_option steps_case_list steps_case_prod steps_case_logger steps_case_domain
  steps_lookup steps_local_var steps_attribute steps_global_var steps_first steps_exists
  steps_getmtime steps_getsize steps_remove steps_rename steps_create steps_write steps_sync
  steps_close

lemma steps_oldest: "P = no_load \<Longrightarrow> steps Inv P (oldest fl t)"
  by (induction fl arbitrary: t) (auto intro!: steps_intros simp: no_load_def)

lemma no_load_check_input: "steps (\<lambda>m. True) no_load (check_input kw)"
  unfolding check_input_def by (intro steps_intros)

lemma no_load_setup_logger: "steps (\<lambda>m. True) no_load (setup_logger l)"
  unfolding setup_logger_def by (intro steps_intros) (simp_all add: no_load_def)

lemma no_load_announce: "steps (\<lambda>m. True) no_load (announce mode kw v)"
  unfolding announce_def by (intro steps_intros) (simp_all add: no_load_def)

lemma no_load_source_age: "steps (\<lambda>m. True) no_load (source_age ov src)"
  unfolding source_age_def by (intro steps_intros steps_oldest) simp_all

lemma no_load_target_names: "steps (\<lambda>m. True) no_load (target_names env ds mode shp kw v)"
  unfolding target_names_def Let_def by (intro steps_intros)

lemma no_load_check_folder: "steps (\<lambda>m. True) no_load (check_folder kw fn fo)"
  unfolding check_folder_def by (intro steps_intros) (simp_all add: no_load_def)

lemma no_load_after_load: "steps (\<lambda>m. True) no_load (after_load env ds mode shp kw v)"
  unfolding after_load_def
  by (intro steps_intros no_load_announce no_load_source_age no_load_target_names
      no_load_check_folder)

lemma no_load_skip_or_compute: "steps (\<lambda>m. True) no_load (skip_or_compute env mode shp sd kw j)"
  unfolding skip_or_compute_def skip_decision_def existing_file_def compute_def new_sink_def
    process_def write_results_def Let_def
  by (intro steps_intros) (simp_all add: no_load_def)


subsection \<open>The period check\<close>

lemma load_WRF_period:
  assumes "load_WRF env mode da vl r0 = (x, r')"
    and "list_all no_load (trace r0)"
    and "Load f args \<in> set (trace r')" "load env f args = Inr src"
    and "experiment_key da = Some e" "period da = Some p0" "model_period env e p0 = Inr p"
    and "periodstr_of [] p = Inr ps"
  shows "(mode = ''climatology'' \<or> mode = ''time-series'')
     \<and> (if \<exists>a. atts src ''period'' = Some a \<and> a \<noteq> ps
         then x = Inl DateError \<and> last (trace r') = Load f args
         else \<exists>v. x = Inr v)"
proof -
  have nl: "Load f args \<notin> set (trace r0)"
    using assms(2) by (auto simp: list_all_iff no_load_def)
  show ?thesis
    using assms(1,3-) nl
    by (auto simp: load_WRF_def io_defs import_module_def call_loader_def check_period_def
        split: option.splits sum.splits if_splits list.splits domain_arg.splits)
qed

lemma load_CESM_period:
  assumes "load_CESM env mode da vl r0 = (x, r')"
    and "list_all no_load (trace r0)"
    and "Load f args \<in> set (trace r')" "load env f args = Inr src"
    and "experiment_key da = Some e" "period da = Some p0" "model_period env e p0 = Inr p"
    and "periodstr_of [] p = Inr ps"
  shows "(mode = ''climatology'' \<or> mode = ''time-series'')
     \<and> (if \<exists>a. atts src ''period'' = Some a \<and> a \<noteq> ps
         then x = Inl DateError \<and> last (trace r') = Load f args
         else \<exists>v. x = Inr v)"
proof -
  have nl: "Load f args \<notin> set (trace r0)"
    using assms(2) by (auto simp: list_all_iff no_load_def)
  show ?thesis
    using assms(1,3-) nl
    by (auto simp: load_CESM_def io_defs import_module_def call_loader_def check_period_def
        split: option.splits sum.splits if_splits list.splits)
qed

lemma load_source_period:
  assumes "dataset = ''WRF'' \<or> dataset = ''CESM''"
    and "load_source env dataset mode da vl r0 = (x, r')"
    and "list_all no_load (trace r0)"
    and "Load f args \<in> set (trace r')" "load env f args = Inr src"
    and "experiment_key da = Some e" "period da = Some p0" "model_period env e p0 = Inr p"
    and "periodstr_of [] p = Inr ps"
  shows "(mode = ''climatology'' \<or> mode = ''time-series'')
     \<and> (if \<exists>a. atts src ''period'' = Some a \<and> a \<noteq> ps
         then x = Inl DateError \<and> last (trace r') = Load f args
         else \<exists>v. x = Inr v)"
proof (cases "dataset = ''WRF''")
  case True
  with assms(2) have "load_WRF env mode da vl r0 = (x, r')" by (simp add: load_source_def)
  from load_WRF_period [OF this assms(3-)] show ?thesis .
next
  case False
  with assms(1,2) have "load_CESM env mode da vl r0 = (x, r')" by (simp add: load_source_def)
  from load_CESM_period [OF this assms(3-)] show ?thesis .
qed

lemma announce_valid:
  assumes "mode = ''climatology'' \<or> mode = ''time-series''"
  shows "\<exists>m es. announce mode kw v r
      = (Inr (), r\<lparr>trace := trace r @ Info m # es\<rparr>) \<and> list_all no_load es"
proof -
  let ?msg = "Processing (v_datamsgstr v)
      (if mode = ''climatology''
       then ''Averaging Data from Climatology ('' @ v_periodstr v @ '')''
       else ''Averaging Data from Time-series'')"
  let ?es = "if \<not> lparallel kw \<and> ldebug kw then [Info SourceInfo] else []"
  have "announce mode kw v r = (Inr (), r\<lparr>trace := trace r @ Info ?msg # ?es\<rparr>)"
    using assms by (auto simp: announce_def io_defs)
  moreover have "list_all no_load ?es" by (simp add: no_load_def)
  ultimately show ?thesis by blast
qed

lemma after_load_info:
  assumes "mode = ''climatology'' \<or> mode = ''time-series''"
    and "after_load env ds mode shp kw v r0 = (x, r')"
  shows "\<exists>m es. trace r' = trace r0 @ Info m # es \<and> list_all no_load es"
proof -
  from announce_valid [OF assms(1), of kw v r0] obtain m es where
    a: "announce mode kw v r0 = (Inr (), r0\<lparr>trace := trace r0 @ Info m # es\<rparr>)"
    and es: "list_all no_load es" by blast
  let ?k = "\<lambda>_::unit. bnd (source_age (loverwrite kw) (v_source v)) (\<lambda>sourceage.
     bnd (target_names env ds mode shp kw v) (\<lambda>(periodstr, filename, folder).
     bnd (check_folder kw filename folder) (\<lambda>(filename', avgf).
     ok \<lparr>j_vars = v, j_sourceage = sourceage, j_periodstr = periodstr,
         j_filename = filename', j_avgfolder = avgf\<rparr>)))"
  have k: "steps (\<lambda>m. True) no_load (?k ())"
    by (intro steps_intros no_load_source_age no_load_target_names no_load_check_folder)
  from assms(2) a have "?k () (r0\<lparr>trace := trace r0 @ Info m # es\<rparr>) = (x, r')"
    by (simp add: after_load_def bnd_def)
  from stepsD [OF k this] obtain es' where
    "trace r' = trace (r0\<lparr>trace := trace r0 @ Info m # es\<rparr>) @ es'" "list_all no_load es'"
    by auto
  then have "trace r' = trace r0 @ Info m # (es @ es')" "list_all no_load (es @ es')"
    using es by simp_all
  then show ?thesis by blast
qed

lemma no_load_not_in: "list_all no_load es \<Longrightarrow> Load f a \<notin> set es"
  by (auto simp: list_all_iff no_load_def)

lemma prepare_period:
  assumes ds: "dataset = ''WRF'' \<or> dataset = ''CESM''"
    and run: "prepare env dataset mode shp da kw r0 = (x, r')"
    and r0: "list_all no_load (trace r0)"
    and ld: "Load f args \<in> set (trace r')" "load env f args = Inr src"
    and rq: "experiment_key da = Some e" "period da = Some p0" "model_period env e p0 = Inr p"
      "periodstr_of [] p = Inr ps"
  shows "if \<exists>a. atts src ''period'' = Some a \<and> a \<noteq> ps
         then x = Inl DateError \<and> last (trace r') = Load f args
         else \<exists>tr m es. trace r' = tr @ Info m # es \<and> list_all no_load es"
proof -
  from run [unfolded prepare_def] show ?thesis
  proof (cases rule: bnd_cases)
    case (fail err)
    from stepsD [OF no_load_check_input fail(1)] obtain es where
      "trace r' = trace r0 @ es" "list_all no_load es" by auto
    with r0 ld(1) show ?thesis using no_load_not_in by fastforce
  next
    case (pass u1 r2)
    from stepsD [OF no_load_check_input pass(1)] obtain es where
      "trace r2 = trace r0 @ es" "list_all no_load es" by auto
    with r0 have r2: "list_all no_load (trace r2)" by simp
    from pass(2) show ?thesis
    proof (cases rule: bnd_cases)
      case (fail err)
      from stepsD [OF no_load_setup_logger fail(1)] obtain es where
        "trace r' = trace r2 @ es" "list_all no_load es" by auto
      with r2 ld(1) show ?thesis using no_load_not_in by fastforce
    next
      case (pass u2 r3)
      from stepsD [OF no_load_setup_logger pass(1)] obtain es where
        "trace r3 = trace r2 @ es" "list_all no_load es" by auto
      with r2 have r3: "list_all no_load (trace r3)" by simp
      from pass(2) show ?thesis
      proof (cases rule: bnd_cases)
        case (fail err)
        from load_source_period [OF ds fail(1) r3 ld rq] fail(2) show ?thesis
          by (auto split: if_splits)
      next
        case (pass v r4)
        from after_load_info [OF _ pass(2)] obtain m es
          where tr: "trace r' = trace r4 @ Info m # es" "list_all no_load es"
          if "mode = ''climatology'' \<or> mode = ''time-series''" by blast
        have "Load f args \<in> set (trace r4)"
        proof -
          from stepsD [OF no_load_after_load pass(2)] obtain es' where
            "trace r' = trace r4 @ es'" "list_all no_load es'" by auto
          with ld(1) show ?thesis using no_load_not_in by fastforce
        qed
        from load_source_period [OF ds pass(1) r3 this ld(2) rq]
        have md: "mode = ''climatology'' \<or> mode = ''time-series''"
          and nm: "\<not> (\<exists>a. atts src ''period'' = Some a \<and> a \<noteq> ps)"
          by (auto split: if_splits)
        from tr [OF md] nm show ?thesis by auto
      qed
    qed
  qed
qed

lemma last_no_load:
  assumes "tr = pre @ Info m # es" "list_all no_load es"
  shows "last tr \<noteq> Load f a"
proof (cases es rule: rev_cases)
  case Nil
  with assms show ?thesis by simp
next
  case (snoc ys y)
  with assms have "last tr = y" "no_load y" by simp_all
  then show ?thesis by (auto simp: no_load_def)
qed

lemma periodstr_of_not_date: "periodstr_of l p \<noteq> Inl DateError"
  by (auto simp: periodstr_of_def format_period_def split: period_arg.splits list.splits)

lemma load_WRF_outcome:
  assumes run: "load_WRF env mode da vl r0 = (x, r')"
    and r0: "list_all no_load (trace r0)"
    and e: "experiment_key da = Some e" and p0: "period da = Some p0"
  shows "\<And>f args err. Load f args \<in> set (trace r') \<Longrightarrow> load env f args = Inl err \<Longrightarrow> x = Inl err"
    and "\<And>f args src p err. Load f args \<in> set (trace r') \<Longrightarrow> load env f args = Inr src
           \<Longrightarrow> model_period env e p0 = Inr p \<Longrightarrow> periodstr_of [] p = Inl err \<Longrightarrow> x = Inl err"
    and "\<And>f args. Load f args \<in> set (trace r')
           \<Longrightarrow> last (trace r') = Load f args \<and> (\<exists>p. model_period env e p0 = Inr p)"
    and "list_all no_load (trace r')
           \<Longrightarrow> (\<exists>err. x = Inl err) \<and> (x = Inl DateError \<longrightarrow> model_period env e p0 = Inl DateError)"
    and "\<And>err. model_period env e p0 = Inl err
           \<Longrightarrow> list_all no_load (trace r')
               \<and> (x = Inl err \<or> x = Inl ImportError \<or> x = Inl KeyError)"
proof -
  note defs = load_WRF_def io_defs import_module_def call_loader_def check_period_def
  have nl: "Load f args \<notin> set (trace r0)" for f args
    using r0 by (auto simp: list_all_iff no_load_def)
  show "\<And>f args err. Load f args \<in> set (trace r') \<Longrightarrow> load env f args = Inl err \<Longrightarrow> x = Inl err"
    using run e p0 nl
    by (auto simp: defs
        split: option.splits sum.splits if_splits list.splits domain_arg.splits)
  show "\<And>f args src p err. Load f args \<in> set (trace r') \<Longrightarrow> load env f args = Inr src
           \<Longrightarrow> model_period env e p0 = Inr p \<Longrightarrow> periodstr_of [] p = Inl err \<Longrightarrow> x = Inl err"
    using run e p0 nl
    by (auto simp: defs
        split: option.splits sum.splits if_splits list.splits domain_arg.splits)
  show "\<And>f args. Load f args \<in> set (trace r')
           \<Longrightarrow> last (trace r') = Load f args \<and> (\<exists>p. model_period env e p0 = Inr p)"
    using run e p0 nl
    by (auto simp: defs
        split: option.splits sum.splits if_splits list.splits domain_arg.splits)
  show "list_all no_load (trace r')
           \<Longrightarrow> (\<exists>err. x = Inl err) \<and> (x = Inl DateError \<longrightarrow> model_period env e p0 = Inl DateError)"
    using run e p0 r0
    by (auto simp: defs no_load_def
        split: option.splits sum.splits if_splits list.splits domain_arg.splits)
  show "\<And>err. model_period env e p0 = Inl err
           \<Longrightarrow> list_all no_load (trace r')
               \<and> (x = Inl err \<or> x = Inl ImportError \<or> x = Inl KeyError)"
    using run e p0 r0
    by (auto simp: defs no_load_def
        split: option.splits sum.splits if_splits list.splits domain_arg.splits)
qed

lemma load_CESM_outcome:
  assumes run: "load_CESM env mode da vl r0 = (x, r')"
    and r0: "list_all no_load (trace r0)"
    and e: "experiment_key da = Some e" and p0: "period da = Some p0"
  shows "\<And>f args err. Load f args \<in> set (trace r') \<Longrightarrow> load env f args = Inl err \<Longrightarrow> x = Inl err"
    and "\<And>f args src p err. Load f args \<in> set (trace r') \<Longrightarrow> load env f args = Inr src
           \<Longrightarrow> model_period env e p0 = Inr p \<Longrightarrow> periodstr_of [] p = Inl err \<Longrightarrow> x = Inl err"
    and "\<And>f args. Load f args \<in> set (trace r')
           \<Longrightarrow> last (trace r') = Load f args \<and> (\<exists>p. model_period env e p0 = Inr p)"
    and "list_all no_load (trace r')
           \<Longrightarrow> (\<exists>err. x = Inl err) \<and> (x = Inl DateError \<longrightarrow> model_period env e p0 = Inl DateError)"
    and "\<And>err. model_period env e p0 = Inl err
           \<Longrightarrow> list_all no_load (trace r')
               \<and> (x = Inl err \<or> x = Inl ImportError \<or> x = Inl KeyError)"
proof -
  note defs = load_CESM_def io_defs import_module_def call_loader_def check_period_def
  have nl: "Load f args \<notin> set (trace r0)" for f args
    using r0 by (auto simp: list_all_iff no_load_def)
  show "\<And>f args err. Load f args \<in> set (trace r') \<Longrightarrow> load env f args = Inl err \<Longrightarrow> x = Inl err"
    using run e p0 nl
    by (auto simp: defs
        split: option.splits sum.splits if_splits list.splits domain_arg.splits)
  show "\<And>f args src p err. Load f args \<in> set (trace r') \<Longrightarrow> load env f args = Inr src
           \<Longrightarrow> model_period env e p0 = Inr p \<Longrightarrow> periodstr_of [] p = Inl err \<Longrightarrow> x = Inl err"
    using run e p0 nl
    by (auto simp: defs
        split: option.splits sum.splits if_splits list.splits domain_arg.splits)
  show "\<And>f args. Load f args \<in> set (trace r')
           \<Longrightarrow> last (trace r') = Load f args \<and> (\<exists>p. model_period env e p0 = Inr p)"
    using run e p0 nl
    by (auto simp: defs
        split: option.splits sum.splits if_splits list.splits domain_arg.splits)
  show "list_all no_load (trace r')
           \<Longrightarrow> (\<exists>err. x = Inl err) \<and> (x = Inl DateError \<longrightarrow> model_period env e p0 = Inl DateError)"
    using run e p0 r0
    by (auto simp: defs no_load_def
        split: option.splits sum.splits if_splits list.splits domain_arg.splits)
  show "\<And>err. model_period env e p0 = Inl err
           \<Longrightarrow> list_all no_load (trace r')
               \<and> (x = Inl err \<or> x = Inl ImportError \<or> x = Inl KeyError)"
    using run e p0 r0
    by (auto simp: defs no_load_def
        split: option.splits sum.splits if_splits list.splits domain_arg.splits)
qed


lemma load_source_outcome:
  assumes ds: "dataset = ''WRF'' \<or> dataset = ''CESM''"
    and run: "load_source env dataset mode da vl r0 = (x, r')"
    and r0: "list_all no_load (trace r0)"
    and e: "experiment_key da = Some e" and p0: "period da = Some p0"
  shows "\<And>f args err. Load f args \<in> set (trace r') \<Longrightarrow> load env f args = Inl err \<Longrightarrow> x = Inl err"
    and "\<And>f args src p err. Load f args \<in> set (trace r') \<Longrightarrow> load env f args = Inr src
           \<Longrightarrow> model_period env e p0 = Inr p \<Longrightarrow> periodstr_of [] p = Inl err \<Longrightarrow> x = Inl err"
    and "\<And>f args. Load f args \<in> set (trace r')
           \<Longrightarrow> last (trace r') = Load f args \<and> (\<exists>p. model_period env e p0 = Inr p)"
    and "list_all no_load (trace r')
           \<Longrightarrow> (\<exists>err. x = Inl err) \<and> (x = Inl DateError \<longrightarrow> model_period env e p0 = Inl DateError)"
    and "\<And>err. model_period env e p0 = Inl err
           \<Longrightarrow> list_all no_load (trace r')
               \<and> (x = Inl err \<or> x = Inl ImportError \<or> x = Inl KeyError)"
proof -
  consider (wrf) "load_WRF env mode da vl r0 = (x, r')"
    | (cesm) "load_CESM env mode da vl r0 = (x, r')"
    using ds run by (auto simp: load_source_def)
  note c = this
  show "\<And>f args err. Load f args \<in> set (trace r') \<Longrightarrow> load env f args = Inl err \<Longrightarrow> x = Inl err"
    using c load_WRF_outcome(1) [OF _ r0 e p0] load_CESM_outcome(1) [OF _ r0 e p0] by metis
  show "\<And>f args src p err. Load f args \<in> set (trace r') \<Longrightarrow> load env f args = Inr src
           \<Longrightarrow> model_period env e p0 = Inr p \<Longrightarrow> periodstr_of [] p = Inl err \<Longrightarrow> x = Inl err"
    using c load_WRF_outcome(2) [OF _ r0 e p0] load_CESM_outcome(2) [OF _ r0 e p0] by metis
  show "\<And>f args. Load f args \<in> set (trace r')
           \<Longrightarrow> last (trace r') = Load f args \<and> (\<exists>p. model_period env e p0 = Inr p)"
    using c load_WRF_outcome(3) [OF _ r0 e p0] load_CESM_outcome(3) [OF _ r0 e p0] by metis
  show "list_all no_load (trace r')
           \<Longrightarrow> (\<exists>err. x = Inl err) \<and> (x = Inl DateError \<longrightarrow> model_period env e p0 = Inl DateError)"
    using c load_WRF_outcome(4) [OF _ r0 e p0] load_CESM_outcome(4) [OF _ r0 e p0] by metis
  show "\<And>err. model_period env e p0 = Inl err
           \<Longrightarrow> list_all no_load (trace r')
               \<and> (x = Inl err \<or> x = Inl ImportError \<or> x = Inl KeyError)"
    using c load_WRF_outcome(5) [OF _ r0 e p0] load_CESM_outcome(5) [OF _ r0 e p0] by metis
qed

lemma check_input_error: "check_input kw r0 = (Inl err, r') \<Longrightarrow> err = IOError"
  by (auto simp: check_input_def io_defs split: if_splits)

lemma setup_logger_error: "setup_logger l r0 = (Inl err, r') \<Longrightarrow> err = TypeError"
  by (auto simp: setup_logger_def io_defs split: logger_arg.splits)

lemma prepare_split:
  assumes run: "prepare env dataset mode shp da kw r0 = (x, r')"
    and r0: "list_all no_load (trace r0)"
  obtains (early) "list_all no_load (trace r')" "x = Inl IOError \<or> x = Inl TypeError"
    | (load_fail) r3 err where "list_all no_load (trace r3)"
        "load_source env dataset mode da (varlist kw) r3 = (Inl err, r')" "x = Inl err"
    | (loaded) r3 v r4 where "list_all no_load (trace r3)"
        "load_source env dataset mode da (varlist kw) r3 = (Inr v, r4)"
        "after_load env dataset mode shp kw v r4 = (x, r')"
proof -
  from run [unfolded prepare_def] show ?thesis
  proof (cases rule: bnd_cases)
    case (fail err)
    from stepsD [OF no_load_check_input fail(1) TrueI] obtain es where
      "trace r' = trace r0 @ es" "list_all no_load es" by blast
    with r0 have "list_all no_load (trace r')" by simp
    moreover from check_input_error [OF fail(1)] fail(2) have "x = Inl IOError" by simp
    ultimately show ?thesis using early by blast
  next
    case (pass u1 r2)
    from stepsD [OF no_load_check_input pass(1) TrueI] obtain es where
      "trace r2 = trace r0 @ es" "list_all no_load es" by blast
    with r0 have r2: "list_all no_load (trace r2)" by simp
    from pass(2) show ?thesis
    proof (cases rule: bnd_cases)
      case (fail err)
      from stepsD [OF no_load_setup_logger fail(1) TrueI] obtain es where
        "trace r' = trace r2 @ es" "list_all no_load es" by blast
      with r2 have "list_all no_load (trace r')" by simp
      moreover from setup_logger_error [OF fail(1)] fail(2) have "x = Inl TypeError" by simp
      ultimately show ?thesis using early by blast
    next
      case (pass u2 r3)
      from stepsD [OF no_load_setup_logger pass(1) TrueI] obtain es where
        "trace r3 = trace r2 @ es" "list_all no_load es" by blast
      with r2 have r3: "list_all no_load (trace r3)" by simp
      from pass(2) show ?thesis
      proof (cases rule: bnd_cases)
        case (fail err)
        from load_fail [OF r3 fail] show ?thesis .
      next
        case (pass v r4)
        from loaded [OF r3 pass] show ?thesis .
      qed
    qed
  qed
qed

lemma extraction_split:
  assumes run: "performExtraction env dataset mode shp sd da kw w = (res, r)"
  obtains (early) "list_all no_load (trace r)" "res = Inl IOError \<or> res = Inl TypeError"
    | (load_fail) r3 err where "list_all no_load (trace r3)"
        "load_source env dataset mode da (varlist kw) r3 = (Inl err, r)" "res = Inl err"
    | (loaded) r3 v r4 es where "list_all no_load (trace r3)"
        "load_source env dataset mode da (varlist kw) r3 = (Inr v, r4)"
        "trace r = trace r4 @ es" "list_all no_load es"
        "mode = ''climatology'' \<or> mode = ''time-series'' \<Longrightarrow> \<exists>m es'. es = Info m # es'"
proof -
  have r0: "list_all no_load (trace (start w))" by (simp add: start_def)
  have ld: thesis
    if r3: "list_all no_load (trace r3)"
      and ls: "load_source env dataset mode da (varlist kw) r3 = (Inr v, r4)"
      and al: "after_load env dataset mode shp kw v r4 = (x, r1)"
      and rest: "trace r = trace r1 @ es2" "list_all no_load es2"
    for r3 v r4 x r1 es2
  proof -
    from stepsD [OF no_load_after_load al TrueI] obtain es1 where
      es1: "trace r1 = trace r4 @ es1" "list_all no_load es1" by blast
    have "\<exists>m es'. es1 @ es2 = Info m # es'" if "mode = ''climatology'' \<or> mode = ''time-series''"
    proof -
      from after_load_info [OF that al] obtain m es where "trace r1 = trace r4 @ Info m # es"
        by blast
      with es1(1) have "es1 = Info m # es" by simp
      then show ?thesis by simp
    qed
    moreover have "trace r = trace r4 @ (es1 @ es2)" "list_all no_load (es1 @ es2)"
      using es1 rest by simp_all
    ultimately show thesis using loaded [OF r3 ls] by blast
  qed
  from run [unfolded performExtraction_def] show ?thesis
  proof (cases rule: bnd_cases)
    case (fail err)
    from fail(1) r0 show ?thesis
    proof (cases rule: prepare_split)
      case early
      with fail(2) show ?thesis using that(1) by blast
    next
      case (load_fail r3 err')
      with fail(2) show ?thesis using that(2) by blast
    next
      case (loaded r3 v r4)
      from ld [OF loaded, of "[]"] show ?thesis by simp
    qed
  next
    case (pass j r1)
    from stepsD [OF no_load_skip_or_compute pass(2) TrueI] obtain es2 where
      es2: "trace r = trace r1 @ es2" "list_all no_load es2" by blast
    from pass(1) r0 show ?thesis
    proof (cases rule: prepare_split)
      case early
      then show ?thesis by auto
    next
      case (load_fail r3 err')
      then show ?thesis by simp
    next
      case (loaded r3 v r4)
      from ld [OF loaded es2] show ?thesis .
    qed
  qed
qed


lemma load_source_mode:
  assumes "dataset = ''WRF'' \<or> dataset = ''CESM''"
    and "load_source env dataset mode da vl r0 = (Inr v, r')"
  shows "mode = ''climatology'' \<or> mode = ''time-series''"
  using assms
  by (auto simp: load_source_def load_WRF_def load_CESM_def io_defs import_module_def
      call_loader_def check_period_def
      split: option.splits sum.splits if_splits list.splits domain_arg.splits)

lemma extraction_loaded_period:
  assumes "dataset = ''WRF'' \<or> dataset = ''CESM''"
    and "performExtraction env dataset mode shape_name shape_dict da kw w = (res, r)"
    and "Load f args \<in> set (trace r)" and "load env f args = Inr src"
    and "experiment_key da = Some e" and "period da = Some p0"
    and "model_period env e p0 = Inr p" and "periodstr_of [] p = Inr ps"
  shows "(res = Inl DateError \<and> last (trace r) = Load f args)
     \<longleftrightarrow> (\<exists>a. atts src ''period'' = Some a \<and> a \<noteq> ps)"
proof -
  have r0: "list_all no_load (trace (start w))" by (simp add: start_def)
  from assms(2) [unfolded performExtraction_def] show ?thesis
  proof (cases rule: bnd_cases)
    case (fail err)
    from prepare_period [OF assms(1) fail(1) r0 assms(3-)] fail(2) show ?thesis
      using last_no_load by (fastforce split: if_splits)
  next
    case (pass j r1)
    from stepsD [OF no_load_skip_or_compute pass(2)] obtain es where
      es: "trace r = trace r1 @ es" "list_all no_load es" by auto
    with assms(3) have "Load f args \<in> set (trace r1)" using no_load_not_in by fastforce
    from prepare_period [OF assms(1) pass(1) r0 this assms(4-)]
    have nm: "\<not> (\<exists>a. atts src ''period'' = Some a \<and> a \<noteq> ps)"
      and "\<exists>tr m es. trace r1 = tr @ Info m # es \<and> list_all no_load es"
      by (auto split: if_splits)
    then obtain tr m es' where "trace r1 = tr @ Info m # es'" "list_all no_load es'" by blast
    with es have "trace r = tr @ Info m # (es' @ es)" "list_all no_load (es' @ es)" by simp_all
    from last_no_load [OF this] nm show ?thesis by blast
  qed
qed

lemma extraction_loader_error:
  assumes ds: "dataset = ''WRF'' \<or> dataset = ''CESM''"
    and run: "performExtraction env dataset mode shape_name shape_dict da kw w = (res, r)"
    and e: "experiment_key da = Some e" and p0: "period da = Some p0"
    and ld: "Load f args \<in> set (trace r)" and err: "load env f args = Inl err"
  shows "res = Inl err \<and> last (trace r) = Load f args"
  using run
proof (cases rule: extraction_split)
  case early
  with ld show ?thesis using no_load_not_in by blast
next
  case (load_fail r3 err')
  note o = load_source_outcome [OF ds load_fail(2) load_fail(1) e p0]
  from o(1) [OF ld err] o(3) [OF ld] load_fail(3) show ?thesis by simp
next
  case (loaded r3 v r4 es)
  from ld loaded(3,4) have "Load f args \<in> set (trace r4)" using no_load_not_in by fastforce
  from load_source_outcome(1) [OF ds loaded(2) loaded(1) e p0 this err] show ?thesis by simp
qed

lemma extraction_period_error:
  assumes ds: "dataset = ''WRF'' \<or> dataset = ''CESM''"
    and run: "performExtraction env dataset mode shape_name shape_dict da kw w = (res, r)"
    and e: "experiment_key da = Some e" and p0: "period da = Some p0"
    and mp: "model_period env e p0 = Inl err"
  shows "list_all no_load (trace r)
     \<and> (res = Inl err \<or> res = Inl IOError \<or> res = Inl TypeError \<or> res = Inl ImportError
        \<or> res = Inl KeyError)"
  using run
proof (cases rule: extraction_split)
  case early
  then show ?thesis by blast
next
  case (load_fail r3 err')
  from load_source_outcome(5) [OF ds load_fail(2) load_fail(1) e p0 mp] load_fail(3)
  show ?thesis by blast
next
  case (loaded r3 v r4 es)
  from load_source_outcome(5) [OF ds loaded(2) loaded(1) e p0 mp] show ?thesis by simp
qed

lemma extraction_date_unloaded:
  assumes ds: "dataset = ''WRF'' \<or> dataset = ''CESM''"
    and run: "performExtraction env dataset mode shape_name shape_dict da kw w = (res, r)"
    and e: "experiment_key da = Some e" and p0: "period da = Some p0"
    and de: "res = Inl DateError" and nl: "list_all no_load (trace r)"
  shows "model_period env e p0 = Inl DateError"
  using run
proof (cases rule: extraction_split)
  case early
  with de show ?thesis by simp
next
  case (load_fail r3 err')
  from load_source_outcome(4) [OF ds load_fail(2) load_fail(1) e p0 nl] load_fail(3) de
  show ?thesis by simp
next
  case (loaded r3 v r4 es)
  from nl loaded(3) have "list_all no_load (trace r4)" by simp
  from load_source_outcome(4) [OF ds loaded(2) loaded(1) e p0 this] show ?thesis by simp
qed

lemma extraction_date_loaded:
  assumes ds: "dataset = ''WRF'' \<or> dataset = ''CESM''"
    and run: "performExtraction env dataset mode shape_name shape_dict da kw w = (res, r)"
    and e: "experiment_key da = Some e" and p0: "period da = Some p0"
    and de: "res = Inl DateError" and ld: "Load f args \<in> set (trace r)"
    and la: "last (trace r) = Load f args"
  shows "load env f args = Inl DateError
     \<or> (\<exists>src p ps a. load env f args = Inr src \<and> model_period env e p0 = Inr p
          \<and> periodstr_of [] p = Inr ps \<and> atts src ''period'' = Some a \<and> a \<noteq> ps)"
  using run
proof (cases rule: extraction_split)
  case early
  with ld show ?thesis using no_load_not_in by blast
next
  case (load_fail r3 err')
  note o = load_source_outcome [OF ds load_fail(2) load_fail(1) e p0]
  from load_fail(3) de have x: "err' = DateError" by simp
  show ?thesis
  proof (cases "load env f args")
    case (Inl err)
    from o(1) [OF ld Inl] x Inl show ?thesis by simp
  next
    case (Inr src)
    from o(3) [OF ld] obtain p where p: "model_period env e p0 = Inr p" by blast
    show ?thesis
    proof (cases "periodstr_of [] p")
      case (Inl err)
      from o(2) [OF ld Inr p Inl] x Inl periodstr_of_not_date [of "[]" p] show ?thesis by simp
    next
      case ps: (Inr ps)
      from load_source_period [OF ds load_fail(2) load_fail(1) ld Inr e p0 p ps]
      have "\<exists>a. atts src ''period'' = Some a \<and> a \<noteq> ps" by (auto split: if_splits)
      with Inr p ps show ?thesis by blast
    qed
  qed
next
  case (loaded r3 v r4 es)
  from loaded(5) [OF load_source_mode [OF ds loaded(2)]] obtain m es' where
    "es = Info m # es'" by blast
  with loaded(3,4) have "trace r = trace r4 @ Info m # es'" "list_all no_load es'" by simp_all
  from last_no_load [OF this, of f args] la show ?thesis by simp
qed

text \<open>
  C6 (amended). In a WRF or CESM job with an experiment and a period argument, a date-range
  error up to the period check of lines 87 to 90 and 118 to 121 has three sources, which the
  trace tells apart. If the loader was called and returned a source, and \<open>ps\<close> is the period
  string derived from the requested period (empty for no period, else begin and end year in
  four columns each, joined by a hyphen), the worker raises a date-range error right after
  the load, the load being its last event, exactly when the source has an attribute
  \<^verbatim>\<open>period\<close> that differs from \<open>ps\<close>. If the loader was called and raised, the job ends
  with the error of the loader right after the load. If the period cannot be fixed (lines 66
  to 71 and 98 to 103, where a sequence of integers whose length is not 2 is a date-range
  error), no loader is called and the job ends with that error, unless it has failed before
  with \<^verbatim>\<open>IOError\<close>, \<^verbatim>\<open>TypeError\<close>, \<^verbatim>\<open>ImportError\<close> or \<^verbatim>\<open>KeyError\<close>. Conversely, a date-range
  error of a job that has called no loader comes from fixing the period, and a date-range
  error with the load as last event comes from the loader or from the period attribute.
\<close>

theorem period_mismatch:
  assumes "dataset = ''WRF'' \<or> dataset = ''CESM''"
    and "performExtraction env dataset mode shape_name shape_dict da kw w = (res, r)"
    and "experiment_key da = Some e" and "period da = Some p0"
  shows "(Load f args \<in> set (trace r) \<and> load env f args = Inr src
          \<and> model_period env e p0 = Inr p \<and> periodstr_of [] p = Inr ps \<longrightarrow>
            ((res = Inl DateError \<and> last (trace r) = Load f args)
               \<longleftrightarrow> (\<exists>a. atts src ''period'' = Some a \<and> a \<noteq> ps)))
     \<and> (Load f args \<in> set (trace r) \<and> load env f args = Inl err \<longrightarrow>
            res = Inl err \<and> last (trace r) = Load f args)
     \<and> (model_period env e p0 = Inl err \<longrightarrow>
            list_all no_load (trace r)
            \<and> (res = Inl err \<or> res = Inl IOError \<or> res = Inl TypeError
               \<or> res = Inl ImportError \<or> res = Inl KeyError))
     \<and> (res = Inl DateError \<and> list_all no_load (trace r) \<longrightarrow>
            model_period env e p0 = Inl DateError)
     \<and> (res = Inl DateError \<and> Load f args \<in> set (trace r) \<and> last (trace r) = Load f args \<longrightarrow>
            load env f args = Inl DateError
            \<or> (\<exists>src' p' ps' a. load env f args = Inr src' \<and> model_period env e p0 = Inr p'
                 \<and> periodstr_of [] p' = Inr ps' \<and> atts src' ''period'' = Some a \<and> a \<noteq> ps'))"
proof (intro conjI impI)
  assume "Load f args \<in> set (trace r) \<and> load env f args = Inr src
      \<and> model_period env e p0 = Inr p \<and> periodstr_of [] p = Inr ps"
  then show "(res = Inl DateError \<and> last (trace r) = Load f args)
      \<longleftrightarrow> (\<exists>a. atts src ''period'' = Some a \<and> a \<noteq> ps)"
    using extraction_loaded_period [OF assms(1,2) _ _ assms(3,4)] by blast
next
  assume a: "Load f args \<in> set (trace r) \<and> load env f args = Inl err"
  then show "res = Inl err" using extraction_loader_error [OF assms] by blast
  from a show "last (trace r) = Load f args" using extraction_loader_error [OF assms] by blast
next
  assume a: "model_period env e p0 = Inl err"
  then show "list_all no_load (trace r)" using extraction_period_error [OF assms] by blast
  from a show "res = Inl err \<or> res = Inl IOError \<or> res = Inl TypeError
      \<or> res = Inl ImportError \<or> res = Inl KeyError"
    using extraction_period_error [OF assms] by blast
next
  assume "res = Inl DateError \<and> list_all no_load (trace r)"
  then show "model_period env e p0 = Inl DateError"
    using extraction_date_unloaded [OF assms] by blast
next
  assume "res = Inl DateError \<and> Load f args \<in> set (trace r) \<and> last (trace r) = Load f args"
  then show "load env f args = Inl DateError
      \<or> (\<exists>src' p' ps' a. load env f args = Inr src' \<and> model_period env e p0 = Inr p'
           \<and> periodstr_of [] p' = Inr ps' \<and> atts src' ''period'' = Some a \<and> a \<noteq> ps')"
    using extraction_date_loaded [OF assms] by blast
qed

lemma extract1:
  "performExtraction env1 ''WRF'' ''climatology'' ''shpavg'' [] da1 default_kwargs world0
     = (Inl DateError, run2)"
  by (simp add: performExtraction_def prep_defs io_defs str_defs ex_defs start_def
      env1_def da1_def src1_def args1_def run2_def Let_def)

lemma extract3:
  "performExtraction env2 ''CESM'' ''climatology'' ''shpavg'' [] da1 default_kwargs world0
     = (Inl DateError, run4)"
  by (simp add: performExtraction_def prep_defs io_defs str_defs ex_defs start_def
      env1_def env2_def da1_def src1_def args2_def run4_def cesm_module_def Let_def)

lemma extract4:
  "performExtraction env3 ''CESM'' ''climatology'' ''shpavg'' [] da1 default_kwargs world0
     = (Inl TypeError, run4)"
  by (simp add: performExtraction_def prep_defs io_defs str_defs ex_defs start_def
      env1_def env2_def env3_def da1_def src1_def args2_def run4_def cesm_module_def Let_def)

lemma extract5:
  "performExtraction env0 ''WRF'' ''time-series'' ''shpavg'' [] da2 default_kwargs world0
     = (Inl DateError, run5)"
  by (simp add: performExtraction_def prep_defs io_defs str_defs ex_defs start_def
      da2_def run5_def Let_def)

theorem period_mismatch_witness:
  "performExtraction env1 ''WRF'' ''climatology'' ''shpavg'' [] da1 default_kwargs world0
     = (Inl DateError, run2)
   \<and> experiment_key da1 = Some \<lparr>name = ''max'', begindate = ''1979-01-01''\<rparr>
   \<and> period da1 = Some (PInt 10)
   \<and> Load ''loadWRF'' args1 \<in> set (trace run2) \<and> load env1 ''loadWRF'' args1 = Inr src1
   \<and> model_period env1 \<lparr>name = ''max'', begindate = ''1979-01-01''\<rparr> (PInt 10)
        = Inr (PSeq [1979, 1989])
   \<and> periodstr_of [] (PSeq [1979, 1989]) = Inr ''1979-1989''
   \<and> atts src1 ''period'' = Some ''1979-1984''
   \<and> last (trace run2) = Load ''loadWRF'' args1
   \<and> performExtraction env2 ''CESM'' ''climatology'' ''shpavg'' [] da1 default_kwargs world0
     = (Inl DateError, run4)
   \<and> Load ''loadCESM'' args2 \<in> set (trace run4) \<and> load env2 ''loadCESM'' args2 = Inr src1
   \<and> model_period env2 \<lparr>name = ''max'', begindate = ''1979-01-01''\<rparr> (PInt 10)
        = Inr (PSeq [1979, 1989])
   \<and> last (trace run4) = Load ''loadCESM'' args2
   \<and> performExtraction env3 ''CESM'' ''climatology'' ''shpavg'' [] da1 default_kwargs world0
     = (Inl TypeError, run4)
   \<and> load env3 ''loadCESM'' args2 = Inl TypeError
   \<and> performExtraction env0 ''WRF'' ''time-series'' ''shpavg'' [] da2 default_kwargs world0
     = (Inl DateError, run5)
   \<and> experiment_key da2 = Some \<lparr>name = ''max'', begindate = ''1979-01-01''\<rparr>
   \<and> period da2 = Some (PSeq [1979, 1984, 1989])
   \<and> model_period env0 \<lparr>name = ''max'', begindate = ''1979-01-01''\<rparr> (PSeq [1979, 1984, 1989])
        = Inl DateError
   \<and> list_all no_load (trace run5)"
proof -
  let ?e = "\<lparr>name = ''max'', begindate = ''1979-01-01''\<rparr>"
  have ds1: "''WRF'' = ''WRF'' \<or> ''WRF'' = ''CESM''"
    and ds2: "''CESM'' = ''WRF'' \<or> ''CESM'' = ''CESM''" by simp_all
  have e1: "experiment_key da1 = Some ?e" and p1: "period da1 = Some (PInt 10)"
    by (simp_all add: da1_def da0_def)
  have e2: "experiment_key da2 = Some ?e" and p2: "period da2 = Some (PSeq [1979, 1984, 1989])"
    by (simp_all add: da2_def da0_def)
  have mp1: "model_period env1 ?e (PInt 10) = Inr (PSeq [1979, 1989])"
    and mp2: "model_period env2 ?e (PInt 10) = Inr (PSeq [1979, 1989])"
    by (simp_all add: model_period_def str_defs)
  have mp3: "model_period env0 ?e (PSeq [1979, 1984, 1989]) = Inl DateError"
    by (simp add: model_period_def env0_def)
  have ps: "periodstr_of [] (PSeq [1979, 1989]) = Inr ''1979-1989''"
    by (simp add: periodstr_of_def format_period_def str_defs)
  have ld1: "load env1 ''loadWRF'' args1 = Inr src1"
    and ld2: "load env2 ''loadCESM'' args2 = Inr src1"
    and ld3: "load env3 ''loadCESM'' args2 = Inl TypeError"
    by (simp_all add: env1_def env2_def env3_def)
  have in1: "Load ''loadWRF'' args1 \<in> set (trace run2)"
    and in2: "Load ''loadCESM'' args2 \<in> set (trace run4)"
    by (simp_all add: run2_def run4_def)
  have at: "atts src1 ''period'' = Some ''1979-1984''" by (simp add: src1_def)
  have ne: "\<exists>a. atts src1 ''period'' = Some a \<and> a \<noteq> ''1979-1989''" by (simp add: src1_def)
  from period_mismatch [OF ds1 extract1 e1 p1, where f = "''loadWRF''" and args = args1
      and src = src1 and p = "PSeq [1979, 1989]" and ps = "''1979-1989''" and err = DateError]
    in1 ld1 mp1 ps ne
  have w1: "last (trace run2) = Load ''loadWRF'' args1" by blast
  from period_mismatch [OF ds2 extract3 e1 p1, where f = "''loadCESM''" and args = args2
      and src = src1 and p = "PSeq [1979, 1989]" and ps = "''1979-1989''" and err = DateError]
    in2 ld2 mp2 ps ne
  have w2: "last (trace run4) = Load ''loadCESM'' args2" by blast
  from period_mismatch [OF ds2 extract4 e1 p1, where f = "''loadCESM''" and args = args2
      and src = src1 and p = "PSeq [1979, 1989]" and ps = "''1979-1989''" and err = TypeError]
    in2 ld3
  have w3: "last (trace run4) = Load ''loadCESM'' args2" by blast
  from period_mismatch [OF ds1 extract5 e2 p2, where f = "''loadWRF''" and args = args1
      and src = src1 and p = "PSeq [1979, 1989]" and ps = "''1979-1989''" and err = DateError]
    mp3
  have w4: "list_all no_load (trace run5)" by blast
  show ?thesis
    using extract1 e1 p1 in1 ld1 mp1 ps at w1 extract3 in2 ld2 mp2 w2 extract4 ld3 extract5 e2 p2
      mp3 w4
    by (intro conjI)
qed

text \<open>
  C6 as stated: a WRF job with a period of three years raises a date-range error at line 71
  before any loader is called; no source is loaded, and the source that the loader returns
  has no attribute \<^verbatim>\<open>period\<close>.
\<close>

theorem period_sequence_counterexample:
  "fst (performExtraction env0 ''WRF'' ''time-series'' ''shpavg'' [] da2 default_kwargs world0)
     = Inl DateError
   \<and> trace (snd (performExtraction env0 ''WRF'' ''time-series'' ''shpavg'' [] da2 default_kwargs
        world0)) = [GetLogger, Import ''WRF'']
   \<and> period da2 = Some (PSeq [1979, 1984, 1989])
   \<and> load env0 ''loadWRF_TS''
        \<lparr>la_experiment = ''max'', la_domains = Some 2, la_period = PNone,
         la_filetypes = [''srfc''], la_resolution = None, la_varlist = None,
         la_load3D = None, la_folder = None\<rparr> = Inr src0
   \<and> atts src0 ''period'' = None"
  using extract5 by (simp add: run5_def da2_def env0_def src0_def)


subsection \<open>Input check and dataset dispatch\<close>

text \<open>
  C9. A call of the shape-average worker in parallel mode with writing disabled or with the
  dataset asked back raises \<^verbatim>\<open>IOError\<close> in the input check: the run ends as it started, with
  no event in its trace (no logger set up, nothing loaded, no file looked at).
\<close>

theorem parallel_needs_files:
  assumes "lparallel kw" and "\<not> lwrite kw \<or> lreturn kw"
  shows "performExtraction env dataset mode shape_name shape_dict da kw w = (Inl IOError, start w)
     \<and> trace (start w) = [] \<and> snaps (start w) = [] \<and> fs (start w) = fs w"
  using assms
  by (auto simp: performExtraction_def prepare_def check_input_def bnd_def raise_def start_def)

theorem parallel_needs_files_witness:
  "lparallel (default_kwargs\<lparr>lparallel := True, lreturn := True\<rparr>)
   \<and> lreturn (default_kwargs\<lparr>lparallel := True, lreturn := True\<rparr>)
   \<and> performExtraction env0 ''WRF'' ''time-series'' ''shpavg'' [] da0
        (default_kwargs\<lparr>lparallel := True, lreturn := True\<rparr>) world0
       = (Inl IOError, start world0)
   \<and> trace (start world0) = []"
  using parallel_needs_files [where kw = "default_kwargs\<lparr>lparallel := True, lreturn := True\<rparr>"
      and env = env0 and dataset = "''WRF''" and mode = "''time-series''"
      and shape_name = "''shpavg''" and shape_dict = "[]" and da = da0 and w = world0]
  by (simp add: default_kwargs_def)

text \<open>
  C8 (amended). Once the input check and the logger setup have passed, a dataset identifier
  other than \<^verbatim>\<open>WRF\<close> and \<^verbatim>\<open>CESM\<close> that is not in upper case throughout raises
  \<^verbatim>\<open>DatasetError\<close> with nothing but the logger setup in the trace; an identifier in upper
  case is taken for an observational dataset, and when no module of that name exists the
  import of the module raises \<^verbatim>\<open>ImportError\<close>.
\<close>

theorem unknown_dataset:
  assumes "dataset \<noteq> ''WRF''" and "dataset \<noteq> ''CESM''"
    and "\<not> (lparallel kw \<and> (\<not> lwrite kw \<or> lreturn kw))" and "logger kw \<noteq> NotALogger"
  shows "(dataset \<noteq> upper dataset \<longrightarrow>
            performExtraction env dataset mode shape_name shape_dict da kw w
              = (Inl DatasetError, (start w)\<lparr>trace := logger_events (logger kw)\<rparr>))
       \<and> (dataset = upper dataset \<and> modules env dataset = None \<longrightarrow>
            performExtraction env dataset mode shape_name shape_dict da kw w
              = (Inl ImportError,
                 (start w)\<lparr>trace := logger_events (logger kw) @ [Import dataset]\<rparr>))"
  using assms
  by (cases "logger kw")
     (auto simp: performExtraction_def prepare_def check_input_def setup_logger_def
        load_source_def load_obs_def import_module_def io_defs start_def logger_events_def)

theorem unknown_dataset_witness:
  "''wrf'' \<noteq> ''WRF'' \<and> ''wrf'' \<noteq> ''CESM'' \<and> ''wrf'' \<noteq> upper ''wrf''
   \<and> logger default_kwargs \<noteq> NotALogger
   \<and> performExtraction env0 ''wrf'' ''time-series'' ''shpavg'' [] da0 default_kwargs world0
       = (Inl DatasetError, (start world0)\<lparr>trace := [GetLogger]\<rparr>)
   \<and> ''XYZ'' = upper ''XYZ'' \<and> modules env0 ''XYZ'' = None
   \<and> performExtraction env0 ''XYZ'' ''time-series'' ''shpavg'' [] da0 default_kwargs world0
       = (Inl ImportError, (start world0)\<lparr>trace := [GetLogger, Import ''XYZ'']\<rparr>)"
  using unknown_dataset [where dataset = "''wrf''" and kw = default_kwargs and env = env0
      and mode = "''time-series''" and shape_name = "''shpavg''" and shape_dict = "[]"
      and da = da0 and w = world0]
    unknown_dataset [where dataset = "''XYZ''" and kw = default_kwargs and env = env0
      and mode = "''time-series''" and shape_name = "''shpavg''" and shape_dict = "[]"
      and da = da0 and w = world0]
  by (simp add: default_kwargs_def env0_def str_defs logger_events_def)

text \<open>
  C8 as stated: the unknown identifier \<^verbatim>\<open>XYZ\<close> does not raise a dataset-not-found error but
  an import error.
\<close>

theorem unknown_dataset_counterexample:
  "''XYZ'' \<noteq> ''WRF'' \<and> ''XYZ'' \<noteq> ''CESM'' \<and> modules env0 ''XYZ'' = None
   \<and> fst (performExtraction env0 ''XYZ'' ''time-series'' ''shpavg'' [] da0 default_kwargs world0)
       = Inl ImportError
   \<and> fst (performExtraction env0 ''XYZ'' ''time-series'' ''shpavg'' [] da0 default_kwargs world0)
       \<noteq> Inl DatasetError"
  by (simp add: performExtraction_def prepare_def check_input_def setup_logger_def
      load_source_def load_obs_def import_module_def io_defs start_def default_kwargs_def
      env0_def str_defs)


subsection \<open>The averaging block and the years of the source\<close>

lemma climatology_opened:
  assumes "open_source env exper filetype dmn periods overwrite parallel lg (start w) = (Inr op, r1)"
  shows "computeClimatology env exper filetype dmn periods offset gd overwrite parallel lg w
       = climatologies env exper dmn periods offset gd overwrite parallel op r1"
  using assms by (simp add: computeClimatology_def bnd_def)

text \<open>
  C10. A call of the climatology worker with no periods and offset 0, on a source that has
  been opened and whose end year is greater than its begin year, takes as its only period
  the begin year minus the end year, a negative number; the end of the block then lies
  before the begin year of the file, and the worker raises a date-range error in the state
  in which the source was opened: no file has been created, written or removed.
\<close>

theorem default_period_fails:
  assumes "open_source env exper filetype dmn None overwrite parallel lg (start w)
             = (Inr (fc, src, sa), r1)"
    and "year_of src ''begin_date'' = Inr fb" and "year_of src ''end_date'' = Inr fe"
    and "fb < fe"
  shows "default_periods (0 + fb) fe = [fb - fe] \<and> fb - fe \<le> 0 \<and> (0 + fb) + (fb - fe) < fb
     \<and> computeClimatology env exper filetype dmn None 0 gd overwrite parallel lg w
          = (Inl DateError, r1)
     \<and> fs r1 = fs w \<and> snaps r1 = [] \<and> list_all reads (trace r1)"
proof -
  have "climatologies env exper dmn None 0 gd overwrite parallel (fc, src, sa) r1
      = (Inl DateError, r1)"
    using assms(2-) by (simp add: climatologies_def clim_job_def climatology_period_def
        default_periods_def io_defs Let_def)
  moreover have "fs r1 = fs w \<and> snaps r1 = [] \<and> list_all reads (trace r1)"
    using quietD [OF quiet_open_source assms(1)] by (auto simp: start_def)
  ultimately show ?thesis
    using climatology_opened [OF assms(1)] assms(4) by (simp add: default_periods_def)
qed

theorem default_period_fails_witness:
  "open_source wenv0 ''max'' ''srfc'' 1 None False False LoggerHandle (start world1)
     = (Inr (fileclass0, src0, Some 10), run1)
   \<and> year_of src0 ''begin_date'' = Inr 1979 \<and> year_of src0 ''end_date'' = Inr 1989
   \<and> default_periods (0 + 1979) 1989 = [- 10]
   \<and> computeClimatology wenv0 ''max'' ''srfc'' 1 None 0 None False False LoggerHandle world1
        = (Inl DateError, run1)
   \<and> snaps run1 = []"
  using default_period_fails [where env = wenv0 and exper = "''max''" and filetype = "''srfc''"
      and dmn = 1 and overwrite = False and parallel = False and lg = LoggerHandle
      and w = world1 and fc = fileclass0 and src = src0 and sa = "Some 10" and ?r1.0 = run1
      and fb = 1979 and fe = 1989 and gd = None]
    open0_any [of None] years0
  by simp

lemma climatology_loop_append:
  "climatology_loop env c (ps1 @ ps2)
     = bnd (climatology_loop env c ps1) (\<lambda>_. climatology_loop env c ps2)"
  by (induction ps1) (simp_all add: bnd_def ok_def fun_eq_iff split: prod.splits sum.splits)

lemma climatology_loop_reached:
  assumes "climatology_loop env c ps1 r1 = (Inr (), r')"
  shows "climatology_loop env c (ps1 @ p # ps2) r1
       = bnd (climatology_period env c p) (\<lambda>_. climatology_loop env c ps2) r'"
  using assms by (simp add: climatology_loop_append bnd_def)

lemma climatologies_reached:
  assumes "year_of src ''begin_date'' = Inr fb" and "year_of src ''end_date'' = Inr fe"
    and "fb \<le> offset + fb" and "offset + fb \<le> fe"
    and "(case periods of None \<Rightarrow> default_periods (offset + fb) fe | Some ps \<Rightarrow> ps)
           = ps1 @ p # ps2"
    and "climatology_loop env (clim_job exper dmn offset gd overwrite parallel (fc, src, sa) fb fe)
           ps1 r1 = (Inr (), r')"
  shows "climatologies env exper dmn periods offset gd overwrite parallel (fc, src, sa) r1
       = bnd (bnd (climatology_period env
                     (clim_job exper dmn offset gd overwrite parallel (fc, src, sa) fb fe) p)
                (\<lambda>_. climatology_loop env
                     (clim_job exper dmn offset gd overwrite parallel (fc, src, sa) fb fe) ps2))
           (\<lambda>_. ok RetNone) r'"
  using assms(1-5) climatology_loop_reached [OF assms(6), of p ps2]
  by (simp add: climatologies_def Let_def bnd_def lift_def)

lemmas clim_defs = climatologies_def clim_job_def climatology_period_def average_period_def
  clim_existing_file_def write_climatology_def clim_periodstr_def expfolder_def
  clim_filename_def clim_filepath_def

lemma loop20:
  "climatology_loop wenv0 (clim_job ''max'' 1 0 None False False (fileclass0, src0, Some 10) 1979 1989)
     [20] run1 = (Inr (), run1\<lparr>trace := trace run1 @ [Info (InvalidPeriod 1999)]\<rparr>)"
  by (simp add: climatology_period_def clim_job_def io_defs Let_def)

lemma loop5:
  "bnd (climatology_loop wenv0
          (clim_job ''max'' 1 0 None False False (fileclass0, src0, Some 10) 1979 1989) [5])
     (\<lambda>_. ok RetNone) (run1\<lparr>trace := trace run1 @ [Info (InvalidPeriod 1999)]\<rparr>)
   = (Inr RetNone,
      run1\<lparr>trace := trace run1 @
        [Info (InvalidPeriod 1999), Info (Computing ''1979-1984''), Exists ''/wrfavg/max/'',
         Exists ''/wrfavg/max/wrfsrfc_d01_clim_1979-1984.nc'',
         Getmtime ''/wrfavg/max/wrfsrfc_d01_clim_1979-1984.nc'',
         Info (Skipping ''wrfsrfc_d01_clim_1979-1984.nc''
                 ''/wrfavg/max/wrfsrfc_d01_clim_1979-1984.nc'')]\<rparr>)"
  by (simp add: clim_defs io_defs str_defs wenv0_def fileclass0_def run1_def world1_def
      Let_def)


text \<open>
  C4 (amended). In a climatology job whose source has been opened, a start year (begin year
  of the source plus offset) outside the years of the source raises a date-range error
  before any block is looked at. With the start year in range the blocks are taken in the
  order of the period list (the default list when none is given), and for every block that
  the loop reaches, the blocks before it having raised nothing: a block that ends before
  the begin year of the source raises a date-range error in the state that the loop has
  reached; a block that ends after the end year of the source raises nothing: the worker
  logs the invalid period, computes no climatology for it and goes on with the remaining
  periods, after which it returns.
\<close>

theorem block_outside_source:
  assumes "open_source env exper filetype dmn periods overwrite parallel lg (start w)
             = (Inr (fc, src, sa), r1)"
    and "year_of src ''begin_date'' = Inr fb" and "year_of src ''end_date'' = Inr fe"
  shows "(\<not> (fb \<le> offset + fb \<and> offset + fb \<le> fe) \<longrightarrow>
            computeClimatology env exper filetype dmn periods offset gd overwrite parallel lg w
              = (Inl DateError, r1))
     \<and> (fb \<le> offset + fb \<and> offset + fb \<le> fe
        \<and> (case periods of None \<Rightarrow> default_periods (offset + fb) fe | Some ps \<Rightarrow> ps)
            = ps1 @ p # ps2
        \<and> climatology_loop env
            (clim_job exper dmn offset gd overwrite parallel (fc, src, sa) fb fe) ps1 r1
            = (Inr (), r')
        \<longrightarrow>
          (offset + fb + p < fb \<longrightarrow>
            computeClimatology env exper filetype dmn periods offset gd overwrite parallel lg w
              = (Inl DateError, r'))
        \<and> (fe < offset + fb + p \<longrightarrow>
            computeClimatology env exper filetype dmn periods offset gd overwrite parallel lg w
              = bnd (climatology_loop env
                       (clim_job exper dmn offset gd overwrite parallel (fc, src, sa) fb fe) ps2)
                  (\<lambda>_. ok RetNone)
                  (r'\<lparr>trace := trace r' @ [Info (InvalidPeriod (offset + fb + p))]\<rparr>)))"
proof (intro conjI impI)
  assume "\<not> (fb \<le> offset + fb \<and> offset + fb \<le> fe)"
  then show "computeClimatology env exper filetype dmn periods offset gd overwrite parallel lg w
      = (Inl DateError, r1)"
    using assms(2-) unfolding climatology_opened [OF assms(1)]
    by (auto simp: climatologies_def io_defs Let_def)
next
  assume a: "fb \<le> offset + fb \<and> offset + fb \<le> fe
        \<and> (case periods of None \<Rightarrow> default_periods (offset + fb) fe | Some ps \<Rightarrow> ps)
            = ps1 @ p # ps2
        \<and> climatology_loop env
            (clim_job exper dmn offset gd overwrite parallel (fc, src, sa) fb fe) ps1 r1
            = (Inr (), r')"
  then have eq: "computeClimatology env exper filetype dmn periods offset gd overwrite parallel lg w
       = bnd (bnd (climatology_period env
                     (clim_job exper dmn offset gd overwrite parallel (fc, src, sa) fb fe) p)
                (\<lambda>_. climatology_loop env
                     (clim_job exper dmn offset gd overwrite parallel (fc, src, sa) fb fe) ps2))
           (\<lambda>_. ok RetNone) r'"
    unfolding climatology_opened [OF assms(1)]
    using climatologies_reached [OF assms(2,3)] by blast
  {
    assume "offset + fb + p < fb"
    then show "computeClimatology env exper filetype dmn periods offset gd overwrite parallel lg w
        = (Inl DateError, r')"
      unfolding eq by (simp add: climatology_period_def clim_job_def io_defs Let_def)
  }
  {
    assume "fe < offset + fb + p"
    moreover from a have "fb \<le> offset + fb" "offset + fb \<le> fe" by simp_all
    ultimately show "computeClimatology env exper filetype dmn periods offset gd overwrite parallel lg w
        = bnd (climatology_loop env
                 (clim_job exper dmn offset gd overwrite parallel (fc, src, sa) fb fe) ps2)
            (\<lambda>_. ok RetNone)
            (r'\<lparr>trace := trace r' @ [Info (InvalidPeriod (offset + fb + p))]\<rparr>)"
      unfolding eq by (simp add: climatology_period_def clim_job_def io_defs Let_def)
  }
qed

theorem block_outside_source_witness:
  "open_source wenv0 ''max'' ''srfc'' 1 (Some [10]) False False LoggerHandle (start world1)
     = (Inr (fileclass0, src0, Some 10), run1)
   \<and> year_of src0 ''begin_date'' = Inr 1979 \<and> year_of src0 ''end_date'' = Inr 1989
   \<and> computeClimatology wenv0 ''max'' ''srfc'' 1 (Some [10]) 11 None False False LoggerHandle world1
        = (Inl DateError, run1)
   \<and> climatology_loop wenv0
        (clim_job ''max'' 1 0 None False False (fileclass0, src0, Some 10) 1979 1989) [20] run1
        = (Inr (), run1\<lparr>trace := trace run1 @ [Info (InvalidPeriod 1999)]\<rparr>)
   \<and> computeClimatology wenv0 ''max'' ''srfc'' 1 (Some [20, - 1]) 0 None False False LoggerHandle
        world1
        = (Inl DateError, run1\<lparr>trace := trace run1 @ [Info (InvalidPeriod 1999)]\<rparr>)
   \<and> computeClimatology wenv0 ''max'' ''srfc'' 1 (Some [20, 5]) 0 None False False LoggerHandle
        world1
        = (Inr RetNone,
           run1\<lparr>trace := trace run1 @
             [Info (InvalidPeriod 1999), Info (Computing ''1979-1984''), Exists ''/wrfavg/max/'',
              Exists ''/wrfavg/max/wrfsrfc_d01_clim_1979-1984.nc'',
              Getmtime ''/wrfavg/max/wrfsrfc_d01_clim_1979-1984.nc'',
              Info (Skipping ''wrfsrfc_d01_clim_1979-1984.nc''
                      ''/wrfavg/max/wrfsrfc_d01_clim_1979-1984.nc'')]\<rparr>)"
  using block_outside_source [where env = wenv0 and exper = "''max''" and filetype = "''srfc''"
      and dmn = 1 and periods = "Some [10]" and overwrite = False and parallel = False
      and lg = LoggerHandle and w = world1 and fc = fileclass0 and src = src0 and sa = "Some 10"
      and ?r1.0 = run1 and fb = 1979 and fe = 1989 and gd = None and offset = 11]
    block_outside_source [where env = wenv0 and exper = "''max''" and filetype = "''srfc''"
      and dmn = 1 and periods = "Some [20, - 1]" and overwrite = False and parallel = False
      and lg = LoggerHandle and w = world1 and fc = fileclass0 and src = src0 and sa = "Some 10"
      and ?r1.0 = run1 and fb = 1979 and fe = 1989 and gd = None and offset = 0
      and ?ps1.0 = "[20]" and p = "- 1" and ?ps2.0 = "[]"
      and r' = "run1\<lparr>trace := trace run1 @ [Info (InvalidPeriod 1999)]\<rparr>"]
    block_outside_source [where env = wenv0 and exper = "''max''" and filetype = "''srfc''"
      and dmn = 1 and periods = "Some [20, 5]" and overwrite = False and parallel = False
      and lg = LoggerHandle and w = world1 and fc = fileclass0 and src = src0 and sa = "Some 10"
      and ?r1.0 = run1 and fb = 1979 and fe = 1989 and gd = None and offset = 0
      and ?ps1.0 = "[]" and p = 20 and ?ps2.0 = "[5]" and r' = run1]
    open0_any years0 loop20 loop5
  by (simp add: ok_def)

text \<open>
  C4 as stated: offset 5 and period 10 on a source of 1979 to 1989 end in 1994, and the
  worker returns without a date-range error.
\<close>

theorem block_end_counterexample:
  "year_of src0 ''begin_date'' = Inr 1979 \<and> year_of src0 ''end_date'' = Inr 1989
   \<and> (1989::int) < 1979 + 5 + 10
   \<and> fst (computeClimatology wenv0 ''max'' ''srfc'' 1 (Some [10]) 5 None False False
            LoggerHandle world1) = Inr RetNone
   \<and> fst (computeClimatology wenv0 ''max'' ''srfc'' 1 (Some [10]) 5 None False False
            LoggerHandle world1) \<noteq> Inl DateError"
  using years0 open0_any [of "Some [10]"]
  by (simp add: computeClimatology_def bnd_def climatologies_def clim_job_def
      climatology_period_def io_defs)


subsection \<open>Publication by rename\<close>

lemma tmp_name_neq: "\<not> lreturn kw \<Longrightarrow> tmp_name shp kw fn \<noteq> fn"
proof -
  assume "\<not> lreturn kw"
  then have "length (tmp_name shp kw fn) > length fn" by (simp add: tmp_name_def)
  then show ?thesis by auto
qed

lemma tmp_path_neq: "\<not> lreturn kw \<Longrightarrow> af @ tmp_name shp kw fn \<noteq> af @ fn"
  using tmp_name_neq by simp

lemma skip_decision_post:
  assumes "lwrite kw" "j_filename j = Some fn" "skip_decision shp kw j r1 = (x, r2)"
  shows "(\<exists>es. trace r2 = trace r1 @ es \<and> list_all (untouched (j_avgfolder j @ fn)) es
             \<and> list_all no_skip es)
    \<and> (snaps r2 = snaps r1 \<and> fs r2 = fs r1
        \<or> snaps r2 = snaps r1 @ [(fs r1)(j_avgfolder j @ fn := None)]
            \<and> fs r2 = (fs r1)(j_avgfolder j @ fn := None) \<and> (\<exists>q. x = Inr (False, q)))
    \<and> (\<forall>lskip q. x = Inr (lskip, q) \<longrightarrow>
          q = Some (target_paths shp kw (j_avgfolder j) fn)
          \<and> (\<not> lskip \<longrightarrow> fs r2 (j_avgfolder j @ fn) = None)
          \<and> (lskip \<longrightarrow> snaps r2 = snaps r1))
    \<and> dirs r2 = dirs r1 \<and> today r2 = today r1"
  using assms
  by (auto simp: skip_decision_def existing_file_def target_paths_def io_defs Let_def
      untouched_def direct_def renames_to_def no_skip_def
      split: if_splits option.splits)


lemma write_results_post:
  assumes "lwrite kw" "\<not> lreturn kw" "write_results kw (Some p) r = (x, r')"
    and "fs r (filepath p) = None" "tmpfilepath p \<noteq> filepath p"
  shows "(\<exists>e. x = Inl e) \<and> (\<exists>es ss. trace r' = trace r @ es
              \<and> list_all (untouched (filepath p)) es
              \<and> snaps r' = snaps r @ ss \<and> list_all (absent (filepath p)) ss)
     \<or> x = Inr () \<and> (\<exists>ss f. trace r' = trace r @ [Sync (tmpfilepath p),
              Info (Writing (filename p) (filepath p)), Close (tmpfilepath p),
              Exists (filepath p), Rename (tmpfilepath p) (filepath p)]
            \<and> snaps r' = snaps r @ ss @ [fs r'] \<and> list_all (absent (filepath p)) ss
            \<and> fs r' (filepath p) = Some f \<and> fstatus f = Closed)"
  using assms
  by (auto simp: write_results_def io_defs untouched_def direct_def renames_to_def absent_def
      split: if_splits option.splits)

lemma new_sink_file:
  assumes "lwrite kw" "new_sink mode shp kw j (Some p) r = (Inr snk, r')"
  shows "sink_file snk = Some (tmpfilepath p)"
  using assms by (auto simp: new_sink_def elim!: bnd_InrE simp: ok_def local_var_def)

lemma bnd_ok: "bnd (ok x) f = f x"
  by (simp add: bnd_def ok_def)

lemma local_var_Some: "local_var (Some x) = ok x"
  by (simp add: local_var_def)

lemma safe_new_sink:
  assumes "tmpfilepath p \<noteq> fp"
  shows "steps (absent fp) (untouched fp) (new_sink mode shp kw j (Some p))"
  unfolding new_sink_def local_var_Some bnd_ok
  using assms
  by (auto intro!: steps_intros simp: untouched_def direct_def renames_to_def absent_def)

lemma safe_process:
  assumes "sink_file snk = Some tp" "tp \<noteq> fp"
  shows "steps (absent fp) (untouched fp) (process env shp sd kw j snk)"
  unfolding process_def
  using assms
  by (auto intro!: steps_intros simp: untouched_def direct_def renames_to_def absent_def)

lemma safe_info: "steps (absent fp) (untouched fp) (info m)"
  by (rule steps_info) (simp add: untouched_def direct_def renames_to_def)


lemma write_results_fail:
  assumes "lwrite kw" "\<not> lreturn kw" "write_results kw (Some p) r = (Inl e, r')"
    and "fs r (filepath p) = None" "tmpfilepath p \<noteq> filepath p"
  obtains es ss where "trace r' = trace r @ es" "list_all (untouched (filepath p)) es"
    "snaps r' = snaps r @ ss" "list_all (absent (filepath p)) ss"
  using write_results_post [OF assms] by auto

lemma write_results_done:
  assumes "lwrite kw" "\<not> lreturn kw" "write_results kw (Some p) r = (Inr u, r')"
    and "fs r (filepath p) = None" "tmpfilepath p \<noteq> filepath p"
  obtains ss f where "trace r' = trace r @ [Sync (tmpfilepath p),
      Info (Writing (filename p) (filepath p)), Close (tmpfilepath p),
      Exists (filepath p), Rename (tmpfilepath p) (filepath p)]"
    "snaps r' = snaps r @ ss @ [fs r']" "list_all (absent (filepath p)) ss"
    "fs r' (filepath p) = Some f" "fstatus f = Closed"
  using write_results_post [OF assms] by auto


lemma compute_post:
  assumes lw: "lwrite kw" and nr: "\<not> lreturn kw"
    and ne: "tmpfilepath p \<noteq> filepath p"
    and ab: "fs r2 (filepath p) = None"
    and run: "compute env mode shp sd kw j False (Some p) r2 = (res, r)"
  obtains (fails) e es ss where "res = Inl e" "trace r = trace r2 @ es"
      "list_all (untouched (filepath p)) es"
      "snaps r = snaps r2 @ ss" "list_all (absent (filepath p)) ss"
  | (published) es ss f where "res = Inr (RetCode 0)"
      "trace r = trace r2 @ es @ [Sync (tmpfilepath p),
          Info (Writing (filename p) (filepath p)), Close (tmpfilepath p),
          Exists (filepath p), Rename (tmpfilepath p) (filepath p)]"
      "list_all (untouched (filepath p)) es"
      "snaps r = snaps r2 @ ss @ [fs r]" "list_all (absent (filepath p)) ss"
      "fs r (filepath p) = Some f" "fstatus f = Closed"
proof -
  let ?fp = "filepath p" and ?tp = "tmpfilepath p"
  have ab2: "absent ?fp (fs r2)" using ab by (simp add: absent_def)
  from run have "bnd (new_sink mode shp kw j (Some p)) (\<lambda>snk.
        bnd (process env shp sd kw j snk) (\<lambda>_.
        bnd (if \<not> lparallel kw \<and> ldebug kw then info SinkInfo else ok ()) (\<lambda>_.
        bnd (write_results kw (Some p)) (\<lambda>_.
        if lreturn kw then ok (RetSink snk) else ok (RetCode 0))))) r2 = (res, r)"
    by (simp add: compute_def)
  then show ?thesis
  proof (cases rule: bnd_cases)
    case (fail e)
    from stepsD [OF safe_new_sink [OF ne] fail(1) ab2] obtain es ss where
      "trace r = trace r2 @ es" "snaps r = snaps r2 @ ss"
      "list_all (untouched ?fp) es" "list_all (absent ?fp) ss" by metis
    then show ?thesis using fail(2) fails by metis
  next
    case (pass snk r3)
    from stepsD [OF safe_new_sink [OF ne] pass(1) ab2] obtain es1 ss1 where
      s1: "absent ?fp (fs r3)" "trace r3 = trace r2 @ es1" "snaps r3 = snaps r2 @ ss1"
        "list_all (untouched ?fp) es1" "list_all (absent ?fp) ss1" by metis
    have sf: "sink_file snk = Some ?tp" using new_sink_file [OF lw pass(1)] .
    from pass(2) show ?thesis
    proof (cases rule: bnd_cases)
      case (fail e)
      from stepsD [OF safe_process [OF sf ne] fail(1) s1(1)] obtain es2 ss2 where
        "trace r = trace r3 @ es2" "snaps r = snaps r3 @ ss2"
        "list_all (untouched ?fp) es2" "list_all (absent ?fp) ss2" by metis
      with s1 have "trace r = trace r2 @ (es1 @ es2)" "list_all (untouched ?fp) (es1 @ es2)"
        "snaps r = snaps r2 @ (ss1 @ ss2)" "list_all (absent ?fp) (ss1 @ ss2)" by simp_all
      then show ?thesis using fail(2) fails by metis
    next
      case (pass u r4)
      from stepsD [OF safe_process [OF sf ne] pass(1) s1(1)] obtain es2 ss2 where
        s2: "absent ?fp (fs r4)" "trace r4 = trace r3 @ es2" "snaps r4 = snaps r3 @ ss2"
          "list_all (untouched ?fp) es2" "list_all (absent ?fp) ss2" by metis
      have dbg: "steps (absent ?fp) (untouched ?fp)
          (if \<not> lparallel kw \<and> ldebug kw then info SinkInfo else ok ())"
        by (intro steps_if safe_info steps_ok)
      from pass(2) show ?thesis
      proof (cases rule: bnd_cases)
        case (fail e)
        from stepsD [OF dbg fail(1) s2(1)] obtain es3 ss3 where
          "trace r = trace r4 @ es3" "snaps r = snaps r4 @ ss3"
          "list_all (untouched ?fp) es3" "list_all (absent ?fp) ss3" by metis
        with s1 s2 have "trace r = trace r2 @ (es1 @ es2 @ es3)"
          "list_all (untouched ?fp) (es1 @ es2 @ es3)"
          "snaps r = snaps r2 @ (ss1 @ ss2 @ ss3)"
          "list_all (absent ?fp) (ss1 @ ss2 @ ss3)"
          by simp_all
        then show ?thesis using fail(2) fails by metis
      next
        case (pass u' r5)
        from stepsD [OF dbg pass(1) s2(1)] obtain es3 ss3 where
          s3: "absent ?fp (fs r5)" "trace r5 = trace r4 @ es3" "snaps r5 = snaps r4 @ ss3"
            "list_all (untouched ?fp) es3" "list_all (absent ?fp) ss3" by metis
        have t5: "trace r5 = trace r2 @ (es1 @ es2 @ es3)"
          "snaps r5 = snaps r2 @ (ss1 @ ss2 @ ss3)"
          "list_all (untouched ?fp) (es1 @ es2 @ es3)" "list_all (absent ?fp) (ss1 @ ss2 @ ss3)"
          using s1 s2 s3 by simp_all
        have ab5: "fs r5 ?fp = None" using s3(1) by (simp add: absent_def)
        from pass(2) show ?thesis
        proof (cases rule: bnd_cases)
          case (fail e)
          from write_results_fail [OF lw nr fail(1) ab5 ne] obtain es4 ss4 where
            "trace r = trace r5 @ es4" "list_all (untouched ?fp) es4"
            "snaps r = snaps r5 @ ss4" "list_all (absent ?fp) ss4" .
          with t5 have "trace r = trace r2 @ ((es1 @ es2 @ es3) @ es4)"
            "list_all (untouched ?fp) ((es1 @ es2 @ es3) @ es4)"
            "snaps r = snaps r2 @ ((ss1 @ ss2 @ ss3) @ ss4)"
            "list_all (absent ?fp) ((ss1 @ ss2 @ ss3) @ ss4)"
            by simp_all
          then show ?thesis using fail(2) fails by metis
        next
          case (pass u'' r6)
          from pass(2) nr have fin: "res = Inr (RetCode 0)" "r = r6" by (simp_all add: ok_def)
          from write_results_done [OF lw nr pass(1) ab5 ne] obtain ss4 f where
            w: "trace r6 = trace r5 @ [Sync ?tp, Info (Writing (filename p) ?fp), Close ?tp,
                  Exists ?fp, Rename ?tp ?fp]"
              "snaps r6 = snaps r5 @ ss4 @ [fs r6]" "list_all (absent ?fp) ss4"
              "fs r6 ?fp = Some f" "fstatus f = Closed" .
          have a: "trace r = trace r2 @ (es1 @ es2 @ es3) @ [Sync ?tp,
                  Info (Writing (filename p) ?fp), Close ?tp, Exists ?fp, Rename ?tp ?fp]"
            using w(1) t5(1) fin(2) by simp
          have b: "snaps r = snaps r2 @ ((ss1 @ ss2 @ ss3) @ ss4) @ [fs r]"
            using w(2) t5(2) fin(2) by simp
          have c: "list_all (absent ?fp) ((ss1 @ ss2 @ ss3) @ ss4)"
            using w(3) t5(4) by simp
          have d: "fs r ?fp = Some f" using w(4) fin(2) by simp
          from published [OF fin(1) a t5(3) b c d w(5)] show ?thesis .
        qed
      qed
    qed
  qed
qed

lemma reads_untouched: "reads e \<Longrightarrow> untouched fp e"
  by (cases e) (simp_all add: reads_def untouched_def direct_def renames_to_def)

lemma untouchedD: "untouched fp e \<Longrightarrow> \<not> direct fp e \<and> \<not> renames_to fp e"
  by (simp add: untouched_def)

lemma prepare_start:
  assumes "prepare env ds mode shp da kw (start w) = (Inr j, r1)"
  shows "fs r1 = fs w" "dirs r1 = dirs w" "today r1 = today w" "snaps r1 = []"
    "list_all reads (trace r1)"
  using quietD [OF quiet_prepare assms] by (auto simp: start_def)

lemma extraction_prepared:
  assumes "prepare env ds mode shp da kw (start w) = (Inr j, r1)"
  shows "performExtraction env ds mode shp sd da kw w = skip_or_compute env mode shp sd kw j r1"
  using assms by (simp add: performExtraction_def bnd_def)

lemma compute_skip:
  "compute env mode shp sd kw j True (Some p) r
     = (Inr RetNone, r\<lparr>trace := trace r @ [Info (Skipping (filename p) (filepath p))]\<rparr>)"
  by (simp add: compute_def io_defs)

lemma target_paths_simps:
  "filename (target_paths shp kw af fn) = fn"
  "filepath (target_paths shp kw af fn) = af @ fn"
  "tmpfilepath (target_paths shp kw af fn) = af @ tmp_name shp kw fn"
  by (simp_all add: target_paths_def)

lemma skip_decision_trace:
  assumes "lwrite kw" "j_filename j = Some fn" "skip_decision shp kw j r1 = (x, r2)"
  obtains es where "trace r2 = trace r1 @ es" "list_all (untouched (j_avgfolder j @ fn)) es"
    "list_all no_skip es"
  using skip_decision_post [OF assms] by blast

lemma skip_decision_snaps:
  assumes "lwrite kw" "j_filename j = Some fn" "skip_decision shp kw j r1 = (x, r2)"
  shows "snaps r2 = snaps r1 \<or> snaps r2 = snaps r1 @ [(fs r1)(j_avgfolder j @ fn := None)]"
  using skip_decision_post [OF assms] by blast

lemma skip_decision_Inl:
  assumes "lwrite kw" "j_filename j = Some fn" "skip_decision shp kw j r1 = (Inl e, r2)"
  shows "snaps r2 = snaps r1"
  using skip_decision_post [OF assms] by simp

lemma skip_decision_Inr:
  assumes "lwrite kw" "j_filename j = Some fn" "skip_decision shp kw j r1 = (Inr (lskip, q), r2)"
  shows "q = Some (target_paths shp kw (j_avgfolder j) fn)"
    and "\<not> lskip \<Longrightarrow> fs r2 (j_avgfolder j @ fn) = None"
    and "lskip \<Longrightarrow> snaps r2 = snaps r1"
  using skip_decision_post [OF assms] by auto

text \<open>
  C3 (amended). A shape-average job that writes to disk and does not hand the dataset back
  writes its sink to a temporary path that differs from the final path. No event of the job
  creates, writes, syncs or closes a file at the final path; in the file system after every
  change but the last the final path is absent; a job that returns 0 ends with the sync of
  the temporary file, the message, its close, the look at the final path and the one rename,
  and only then the final path holds a file, which is closed; a job that does not return 0
  renames nothing to the final path and leaves it absent after every change it makes.
\<close>

theorem publish_by_rename:
  assumes prep: "prepare env dataset mode shape_name da kw (start w) = (Inr j, r1)"
    and lw: "lwrite kw" and nr: "\<not> lreturn kw" and fn: "j_filename j = Some fn"
    and run: "performExtraction env dataset mode shape_name shape_dict da kw w = (res, r)"
  shows "j_avgfolder j @ tmp_name shape_name kw fn \<noteq> j_avgfolder j @ fn
     \<and> (\<forall>e\<in>set (trace r). \<not> direct (j_avgfolder j @ fn) e)
     \<and> (\<forall>s\<in>set (butlast (snaps r)). s (j_avgfolder j @ fn) = None)
     \<and> (res = Inr (RetCode 0) \<longrightarrow>
           snaps r \<noteq> []
           \<and> (\<exists>f. last (snaps r) (j_avgfolder j @ fn) = Some f \<and> fstatus f = Closed)
           \<and> (\<exists>es. trace r = es @ [Sync (j_avgfolder j @ tmp_name shape_name kw fn),
                     Info (Writing fn (j_avgfolder j @ fn)),
                     Close (j_avgfolder j @ tmp_name shape_name kw fn),
                     Exists (j_avgfolder j @ fn),
                     Rename (j_avgfolder j @ tmp_name shape_name kw fn) (j_avgfolder j @ fn)]
                 \<and> (\<forall>e\<in>set es. \<not> renames_to (j_avgfolder j @ fn) e)))
     \<and> (res \<noteq> Inr (RetCode 0) \<longrightarrow>
           (\<forall>s\<in>set (snaps r). s (j_avgfolder j @ fn) = None)
           \<and> (\<forall>e\<in>set (trace r). \<not> renames_to (j_avgfolder j @ fn) e))"
proof -
  let ?fp = "j_avgfolder j @ fn" and ?tp = "j_avgfolder j @ tmp_name shape_name kw fn"
  let ?p = "target_paths shape_name kw (j_avgfolder j) fn"
  have ne: "?tp \<noteq> ?fp" using nr by (rule tmp_path_neq)
  note st = prepare_start [OF prep]
  have u1: "list_all (untouched ?fp) (trace r1)"
    using st(5) by (auto simp: list_all_iff intro: reads_untouched)
  text \<open>The three ways in which the run can end.\<close>
  have quietly: ?thesis
    if "list_all (untouched ?fp) (trace r)" "list_all (absent ?fp) (snaps r)"
      "res \<noteq> Inr (RetCode 0)"
  proof -
    have a: "\<forall>e\<in>set (trace r). \<not> direct ?fp e \<and> \<not> renames_to ?fp e"
      using that(1) by (auto simp: list_all_iff dest: untouchedD)
    have b: "\<forall>s\<in>set (snaps r). s ?fp = None"
      using that(2) by (auto simp: list_all_iff absent_def)
    then have c: "\<forall>s\<in>set (butlast (snaps r)). s ?fp = None"
      by (auto dest: in_set_butlastD)
    have e: "\<forall>e\<in>set (trace r). \<not> direct ?fp e" using a by blast
    have f: "\<forall>e\<in>set (trace r). \<not> renames_to ?fp e" using a by blast
    show ?thesis
      apply (intro conjI)
          apply (rule ne)
         apply (rule e)
        apply (rule c)
       apply (simp add: that(3))
      apply (simp add: b f)
      done
  qed
  from run have "bnd (skip_decision shape_name kw j)
      (\<lambda>(lskip, ps). compute env mode shape_name shape_dict kw j lskip ps) r1 = (res, r)"
    by (simp add: extraction_prepared [OF prep] skip_or_compute_def)
  then show ?thesis
  proof (cases rule: bnd_cases)
    case (fail e)
    from skip_decision_trace [OF lw fn fail(1)] obtain es where
      es: "trace r = trace r1 @ es" "list_all (untouched ?fp) es" by blast
    moreover have "snaps r = snaps r1" by (rule skip_decision_Inl [OF lw fn fail(1)])
    ultimately have "list_all (untouched ?fp) (trace r)" "list_all (absent ?fp) (snaps r)"
      using u1 st(4) by simp_all
    then show ?thesis using fail(2) by (intro quietly) simp_all
  next
    case (pass x r2)
    obtain lskip q where x: "x = (lskip, q)" by (cases x)
    have sd: "skip_decision shape_name kw j r1 = (Inr (lskip, q), r2)" using pass(1) x by simp
    from skip_decision_trace [OF lw fn sd] obtain es where
      es: "trace r2 = trace r1 @ es" "list_all (untouched ?fp) es" by blast
    have sn: "snaps r2 = snaps r1 \<or> snaps r2 = snaps r1 @ [(fs r1)(?fp := None)]"
      by (rule skip_decision_snaps [OF lw fn sd])
    have q: "q = Some ?p" by (rule skip_decision_Inr(1) [OF lw fn sd])
    have ab: "\<not> lskip \<Longrightarrow> fs r2 ?fp = None" by (rule skip_decision_Inr(2) [OF lw fn sd])
    have u2: "list_all (untouched ?fp) (trace r2)" using es u1 by simp
    have a2: "list_all (absent ?fp) (snaps r2)" using sn st(4) by (auto simp: absent_def)
    from pass(2) x q have c: "compute env mode shape_name shape_dict kw j lskip (Some ?p) r2
        = (res, r)" by simp
    show ?thesis
    proof (cases lskip)
      case True
      with c have "res = Inr RetNone"
        "r = r2\<lparr>trace := trace r2 @ [Info (Skipping (filename ?p) (filepath ?p))]\<rparr>"
        by (simp_all add: compute_skip)
      then have "list_all (untouched ?fp) (trace r)" "list_all (absent ?fp) (snaps r)"
        "res \<noteq> Inr (RetCode 0)"
        using u2 a2 by (simp_all add: untouched_def direct_def renames_to_def)
      then show ?thesis by (rule quietly)
    next
      case False
      with c have c': "compute env mode shape_name shape_dict kw j False (Some ?p) r2 = (res, r)"
        by simp
      have ne': "tmpfilepath ?p \<noteq> filepath ?p" using ne by (simp add: target_paths_simps)
      have ab': "fs r2 (filepath ?p) = None" using ab False by (simp add: target_paths_simps)
      from lw nr ne' ab' c' show ?thesis
      proof (cases rule: compute_post)
        case (fails e es' ss)
        then have "list_all (untouched ?fp) (trace r)" "list_all (absent ?fp) (snaps r)"
          "res \<noteq> Inr (RetCode 0)"
          using u2 a2 by (simp_all add: target_paths_simps)
        then show ?thesis by (rule quietly)
      next
        case (published es' ss f)
        note pb = published [unfolded target_paths_simps]
        let ?tail = "[Sync ?tp, Info (Writing fn ?fp), Close ?tp, Exists ?fp, Rename ?tp ?fp]"
        have t: "trace r = (trace r2 @ es') @ ?tail" using pb(2) by simp
        have pre: "list_all (untouched ?fp) (trace r2 @ es')" using u2 pb(3) by simp
        have a: "\<forall>e\<in>set (trace r2 @ es'). \<not> direct ?fp e \<and> \<not> renames_to ?fp e"
          using pre by (auto simp: list_all_iff dest: untouchedD)
        have tl: "\<forall>e\<in>set ?tail. \<not> direct ?fp e" using ne by (simp add: direct_def)
        have dr: "\<forall>e\<in>set (trace r). \<not> direct ?fp e"
          unfolding t using a tl by (simp only: set_append Un_iff ball_Un) blast
        have bl: "butlast (snaps r) = snaps r2 @ ss" "last (snaps r) = fs r" "snaps r \<noteq> []"
          using pb(4) by (simp_all add: butlast_append)
        have b: "\<forall>s\<in>set (butlast (snaps r)). s ?fp = None"
          unfolding bl(1) using a2 pb(5) by (auto simp: list_all_iff absent_def)
        have l: "\<exists>f. last (snaps r) ?fp = Some f \<and> fstatus f = Closed"
          unfolding bl(2) using pb(6,7) by blast
        have e: "\<exists>es. trace r = es @ ?tail \<and> (\<forall>e\<in>set es. \<not> renames_to ?fp e)"
          using t a by blast
        show ?thesis
          apply (intro conjI)
              apply (rule ne)
             apply (rule dr)
            apply (rule b)
           apply (simp add: bl(3) l e)
          apply (simp add: pb(1))
          done
      qed
    qed
  qed
qed

lemma prepare2:
  "prepare env0 ''WRF'' ''time-series'' ''shpavg'' da0 default_kwargs (start world2) = (Inr job0, run3)"
  by (simp add: prep_defs io_defs str_defs ex_defs start_def job0_def run0_def run3_def world2_def
      Let_def)

lemma extract2:
  "fst (performExtraction env0 ''WRF'' ''time-series'' ''shpavg'' [] da0 default_kwargs world2)
     = Inr (RetCode 0)
   \<and> snaps (snd (performExtraction env0 ''WRF'' ''time-series'' ''shpavg'' [] da0
        default_kwargs world2)) \<noteq> []"
  unfolding extraction_prepared [OF prepare2]
  by (simp add: skip_or_compute_def skip_decision_def existing_file_def target_paths_def
      tmp_name_def compute_def new_sink_def process_def write_results_def io_defs
      job0_def run3_def run0_def world2_def world0_def env0_def default_kwargs_def Let_def)

theorem publish_by_rename_witness:
  "prepare env0 ''WRF'' ''time-series'' ''shpavg'' da0 default_kwargs (start world2)
     = (Inr job0, run3)
   \<and> lwrite default_kwargs \<and> \<not> lreturn default_kwargs
   \<and> j_filename job0 = Some ''wrfsrfc_d02_shpavg_monthly.nc''
   \<and> fst (performExtraction env0 ''WRF'' ''time-series'' ''shpavg'' [] da0 default_kwargs world2)
       = Inr (RetCode 0)
   \<and> ''/wrfavg/max/tmp_shpavg_wrfsrfc_d02_shpavg_monthly.nc''
       \<noteq> ''/wrfavg/max/wrfsrfc_d02_shpavg_monthly.nc''
   \<and> list_all (absent ''/wrfavg/max/wrfsrfc_d02_shpavg_monthly.nc'')
        (butlast (snaps (snd (performExtraction env0 ''WRF'' ''time-series'' ''shpavg'' []
          da0 default_kwargs world2))))
   \<and> (\<exists>f. last (snaps (snd (performExtraction env0 ''WRF'' ''time-series'' ''shpavg'' []
          da0 default_kwargs world2))) ''/wrfavg/max/wrfsrfc_d02_shpavg_monthly.nc'' = Some f
        \<and> fstatus f = Closed)"
proof -
  have kw: "lwrite default_kwargs" "\<not> lreturn default_kwargs"
    by (simp_all add: default_kwargs_def)
  have fn: "j_filename job0 = Some ''wrfsrfc_d02_shpavg_monthly.nc''"
    and af: "j_avgfolder job0 = ''/wrfavg/max/''"
    by (simp_all add: job0_def)
  have tn: "tmp_name ''shpavg'' default_kwargs ''wrfsrfc_d02_shpavg_monthly.nc''
      = ''tmp_shpavg_wrfsrfc_d02_shpavg_monthly.nc''"
    by (simp add: tmp_name_def default_kwargs_def)
  note th = publish_by_rename [OF prepare2 kw fn surjective_pairing, of "[]", unfolded af tn]
  from th extract2 prepare2 kw fn show ?thesis by (simp add: list_all_iff absent_def)
qed


lemmas out_defs = skip_or_compute_def skip_decision_def existing_file_def target_paths_def
  tmp_name_def compute_def new_sink_def process_def write_results_def

lemma prepare2_ret:
  "prepare env0 ''WRF'' ''time-series'' ''shpavg'' da0 (default_kwargs\<lparr>lreturn := True\<rparr>)
     (start world2) = (Inr job0, run3)"
  by (simp add: prep_defs io_defs str_defs ex_defs start_def job0_def run0_def run3_def world2_def
      Let_def)

text \<open>
  C3 as stated: a job that recomputes, writes to disk and hands the dataset back
  (\<^verbatim>\<open>lreturn\<close>) has no temporary file, since line 195 gives the temporary file the name of
  the final one; it creates its sink at the final path, which holds an unsynced file before
  the last change of the job.
\<close>

theorem returned_sink_counterexample:
  "lwrite (default_kwargs\<lparr>lreturn := True\<rparr>)
   \<and> tmp_name ''shpavg'' (default_kwargs\<lparr>lreturn := True\<rparr>) ''wrfsrfc_d02_shpavg_monthly.nc''
       = ''wrfsrfc_d02_shpavg_monthly.nc''
   \<and> Create ''/wrfavg/max/wrfsrfc_d02_shpavg_monthly.nc''
       \<in> set (trace (snd (performExtraction env0 ''WRF'' ''time-series'' ''shpavg'' [] da0
            (default_kwargs\<lparr>lreturn := True\<rparr>) world2)))
   \<and> map_option fstatus
        (last (butlast (snaps (snd (performExtraction env0 ''WRF'' ''time-series'' ''shpavg'' []
            da0 (default_kwargs\<lparr>lreturn := True\<rparr>) world2))))
           ''/wrfavg/max/wrfsrfc_d02_shpavg_monthly.nc'')
       = Some Unsynced"
  unfolding extraction_prepared [OF prepare2_ret]
  by (simp add: out_defs io_defs job0_def run3_def run0_def world2_def world0_def env0_def
      default_kwargs_def Let_def)

subsection \<open>Return value of a skipped job\<close>



subsection \<open>Skip or recompute\<close>

lemma steps_oldest_any: "(\<And>p. P (Getmtime p)) \<Longrightarrow> steps Inv P (oldest fl t)"
  by (induction fl arbitrary: t) (auto intro!: steps_intros)

lemma no_skip_prepare: "steps (\<lambda>m. True) no_skip (prepare env ds mode shp da kw)"
  unfolding prepare_def after_load_def check_input_def setup_logger_def load_source_def
    load_WRF_def load_CESM_def load_obs_def import_module_def call_loader_def check_period_def
    announce_def source_age_def target_names_def check_folder_def Let_def
  by (intro steps_intros steps_oldest_any) (simp_all add: no_skip_def)

lemma no_skip_compute: "steps (\<lambda>m. True) no_skip (compute env mode shp sd kw j False ps)"
  unfolding compute_def new_sink_def process_def write_results_def
  by (simp only: if_False, intro steps_intros) (simp_all add: no_skip_def)

lemma compute_not_none:
  assumes "compute env mode shp sd kw j False ps r2 = (res, r)"
  shows "res \<noteq> Inr RetNone"
proof
  assume "res = Inr RetNone"
  with assms have "compute env mode shp sd kw j False ps r2 = (Inr RetNone, r)" by simp
  then show False
    unfolding compute_def
    by (simp only: if_False) (auto elim!: bnd_InrE simp: ok_def split: if_splits)
qed

lemma new_sink_creates:
  assumes "lwrite kw" "tmpfilepath p \<notin> dirs r"
  shows "\<exists>snk r'. new_sink mode shp kw j (Some p) r = (Inr snk, r')
      \<and> Create (tmpfilepath p) \<in> set (trace r')"
  using assms by (auto simp: new_sink_def io_defs split: option.splits)

lemma compute_creates:
  assumes "lwrite kw" "tmpfilepath p \<notin> dirs r2"
    and "compute env mode shp sd kw j False (Some p) r2 = (res, r)"
  shows "Create (tmpfilepath p) \<in> set (trace r)"
proof -
  from new_sink_creates [OF assms(1,2)] obtain snk r3 where
    ns: "new_sink mode shp kw j (Some p) r2 = (Inr snk, r3)"
    and cr: "Create (tmpfilepath p) \<in> set (trace r3)" by blast
  let ?k = "bnd (process env shp sd kw j snk) (\<lambda>_.
        bnd (if \<not> lparallel kw \<and> ldebug kw then info SinkInfo else ok ()) (\<lambda>_.
        bnd (write_results kw (Some p)) (\<lambda>_.
        if lreturn kw then ok (RetSink snk) else ok (RetCode 0))))"
  have k: "steps (\<lambda>m. True) (\<lambda>e. True) ?k"
    unfolding process_def write_results_def by (intro steps_intros) simp_all
  from assms(3) ns have "?k r3 = (res, r)" by (simp add: compute_def bnd_def)
  from stepsD [OF k this] obtain es where "trace r = trace r3 @ es" by auto
  with cr show ?thesis by simp
qed

lemma skip_decision_existing:
  assumes "lwrite kw" "j_filename j = Some fn" "fs r1 (j_avgfolder j @ fn) = Some f"
    and "\<not> loverwrite kw \<longrightarrow> j_sourceage j = Some sa"
  shows "skip_decision shp kw j r1 =
    (if \<not> loverwrite kw \<and> sa < mtime f \<and> 1000000 < fsize f
     then (Inr (True, Some (target_paths shp kw (j_avgfolder j) fn)),
           r1\<lparr>trace := trace r1 @ [Exists (j_avgfolder j @ fn), Getmtime (j_avgfolder j @ fn),
              Getsize (j_avgfolder j @ fn)]\<rparr>)
     else (Inr (False, Some (target_paths shp kw (j_avgfolder j) fn)),
           r1\<lparr>fs := (fs r1)(j_avgfolder j @ fn := None),
              trace := trace r1 @ Exists (j_avgfolder j @ fn)
                # (if loverwrite kw then []
                   else if sa < mtime f
                   then [Getmtime (j_avgfolder j @ fn), Getsize (j_avgfolder j @ fn)]
                   else [Getmtime (j_avgfolder j @ fn)])
                @ [Remove (j_avgfolder j @ fn)],
              snaps := snaps r1 @ [(fs r1)(j_avgfolder j @ fn := None)]\<rparr>))"
  using assms
  by (auto simp: skip_decision_def existing_file_def target_paths_def io_defs Let_def)


lemma append_hd_snaps: "xs = [] @ [a] @ ys \<Longrightarrow> xs \<noteq> [] \<and> hd xs = a"
  by simp

text \<open>
  C1 (amended). A shape-average job that writes to disk, that has come through lines 40 to
  191 and whose final file exists when it starts (the temporary path being no directory)
  skips exactly when the overwrite flag is unset, the file is newer than \<open>sourceage\<close> and the
  file is larger than 1000000 bytes. The job that skips changes no file, the existing one
  included, and its last event is the skip message. In every other case the first change of
  the job is the removal of the existing file, the sink is created at the temporary path,
  no skip message is logged and the job does not end as a skip. So the second run of a job
  without the overwrite flag skips when the first run has left a file of more than 1000000
  bytes that is newer than the source.
\<close>

theorem skip_existing_artifact:
  assumes prep: "prepare env dataset mode shape_name da kw (start w) = (Inr j, r1)"
    and lw: "lwrite kw" and fn: "j_filename j = Some fn"
    and ex: "fs w (j_avgfolder j @ fn) = Some f"
    and nd: "j_avgfolder j @ tmp_name shape_name kw fn \<notin> dirs w"
    and run: "performExtraction env dataset mode shape_name shape_dict da kw w = (res, r)"
  shows "if \<not> loverwrite kw \<and> (\<exists>sa. j_sourceage j = Some sa \<and> sa < mtime f)
            \<and> 1000000 < fsize f
         then res = Inr RetNone \<and> fs r = fs w \<and> snaps r = []
              \<and> last (trace r) = Info (Skipping fn (j_avgfolder j @ fn))
         else res \<noteq> Inr RetNone \<and> snaps r \<noteq> []
              \<and> hd (snaps r) = (fs w)(j_avgfolder j @ fn := None)
              \<and> Remove (j_avgfolder j @ fn) \<in> set (trace r)
              \<and> Create (j_avgfolder j @ tmp_name shape_name kw fn) \<in> set (trace r)
              \<and> list_all no_skip (trace r)"
proof -
  let ?fp = "j_avgfolder j @ fn" and ?tp = "j_avgfolder j @ tmp_name shape_name kw fn"
  let ?p = "target_paths shape_name kw (j_avgfolder j) fn"
  note st = prepare_start [OF prep]
  have ns1: "list_all no_skip (trace r1)"
  proof -
    from stepsD [OF no_skip_prepare prep] obtain es where
      "trace r1 = trace (start w) @ es" "list_all no_skip es" by auto
    then show ?thesis by (simp add: start_def)
  qed
  obtain sa where sa: "\<not> loverwrite kw \<longrightarrow> j_sourceage j = Some sa"
    using prepare_sourceage [OF prep] by (cases "loverwrite kw") auto
  have ex1: "fs r1 ?fp = Some f" using ex st(1) by simp
  note sd = skip_decision_existing [OF lw fn ex1 sa, of shape_name]
  from run have sc: "bnd (skip_decision shape_name kw j)
      (\<lambda>(lskip, ps). compute env mode shape_name shape_dict kw j lskip ps) r1 = (res, r)"
    by (simp add: extraction_prepared [OF prep] skip_or_compute_def)
  show ?thesis
  proof (cases "\<not> loverwrite kw \<and> sa < mtime f \<and> 1000000 < fsize f")
    case True
    then have c: "\<not> loverwrite kw \<and> (\<exists>sa. j_sourceage j = Some sa \<and> sa < mtime f)
        \<and> 1000000 < fsize f" using sa by simp
    from sd True have "skip_decision shape_name kw j r1
        = (Inr (True, Some ?p), r1\<lparr>trace := trace r1 @ [Exists ?fp, Getmtime ?fp, Getsize ?fp]\<rparr>)"
      by simp
    with sc have "compute env mode shape_name shape_dict kw j True (Some ?p)
        (r1\<lparr>trace := trace r1 @ [Exists ?fp, Getmtime ?fp, Getsize ?fp]\<rparr>) = (res, r)"
      by (simp add: bnd_def)
    then have "res = Inr RetNone" "fs r = fs r1" "snaps r = snaps r1"
      "last (trace r) = Info (Skipping fn ?fp)"
      by (auto simp: compute_skip target_paths_simps)
    with st c show ?thesis by simp
  next
    case False
    then have c: "\<not> (\<not> loverwrite kw \<and> (\<exists>sa. j_sourceage j = Some sa \<and> sa < mtime f)
        \<and> 1000000 < fsize f)" using sa by auto
    let ?es = "Exists ?fp # (if loverwrite kw then []
                   else if sa < mtime f then [Getmtime ?fp, Getsize ?fp] else [Getmtime ?fp])
                @ [Remove ?fp]"
    let ?r2 = "r1\<lparr>fs := (fs r1)(?fp := None), trace := trace r1 @ ?es,
        snaps := snaps r1 @ [(fs r1)(?fp := None)]\<rparr>"
    from sd False have "skip_decision shape_name kw j r1 = (Inr (False, Some ?p), ?r2)"
      by simp
    with sc have cmp: "compute env mode shape_name shape_dict kw j False (Some ?p) ?r2 = (res, r)"
      by (simp add: bnd_def)
    have ns2: "list_all no_skip (trace ?r2)" using ns1 by (simp add: no_skip_def)
    from stepsD [OF no_skip_compute cmp TrueI] obtain es ss where
      g: "trace r = trace ?r2 @ es" "snaps r = snaps ?r2 @ ss" "list_all no_skip es" by blast
    have 1: "res \<noteq> Inr RetNone" using cmp by (rule compute_not_none)
    have 2: "snaps r \<noteq> [] \<and> hd (snaps r) = (fs w)(?fp := None)"
      using g(2) st(1,4) by simp
    have nd2: "tmpfilepath ?p \<notin> dirs ?r2" using nd st(2) by (simp add: target_paths_simps)
    have 3: "Create ?tp \<in> set (trace r)"
      using compute_creates [OF lw nd2 cmp] by (simp add: target_paths_simps)
    have 4: "list_all no_skip (trace r)" using g(1,3) ns2 by simp
    have 5: "Remove ?fp \<in> set (trace r)" using g(1) by simp
    from c 1 2 3 4 5 show ?thesis by simp
  qed
qed

lemma second_run0:
  "fs (world_after (snd (performExtraction env0 ''WRF'' ''time-series'' ''shpavg'' [] da0
        default_kwargs world2))) ''/wrfavg/max/wrfsrfc_d02_shpavg_monthly.nc''
     = Some \<lparr>mtime = 100, fsize = 2000000, fstatus = Closed\<rparr>"
  "''/wrfavg/max/tmp_shpavg_wrfsrfc_d02_shpavg_monthly.nc''
     \<notin> dirs (world_after (snd (performExtraction env0 ''WRF'' ''time-series'' ''shpavg'' [] da0
        default_kwargs world2)))"
  "fst (prepare env0 ''WRF'' ''time-series'' ''shpavg'' da0 default_kwargs
     (start (world_after (snd (performExtraction env0 ''WRF'' ''time-series'' ''shpavg'' [] da0
        default_kwargs world2))))) = Inr job0"
  by (simp_all add: performExtraction_def prep_defs out_defs io_defs str_defs ex_defs start_def
      world2_def world_after_def job0_def Let_def)

theorem skip_existing_artifact_witness:
  "prepare env0 ''WRF'' ''time-series'' ''shpavg'' da0 default_kwargs (start world0)
     = (Inr job0, run0)
   \<and> lwrite default_kwargs \<and> \<not> loverwrite default_kwargs
   \<and> j_filename job0 = Some ''wrfsrfc_d02_shpavg_monthly.nc''
   \<and> j_avgfolder job0 = ''/wrfavg/max/'' \<and> j_sourceage job0 = Some 10
   \<and> fs world0 ''/wrfavg/max/wrfsrfc_d02_shpavg_monthly.nc''
        = Some \<lparr>mtime = 15, fsize = 2000000, fstatus = Closed\<rparr>
   \<and> ''/wrfavg/max/tmp_shpavg_wrfsrfc_d02_shpavg_monthly.nc'' \<notin> dirs world0
   \<and> fst (performExtraction env0 ''WRF'' ''time-series'' ''shpavg'' [] da0 default_kwargs world0)
        = Inr RetNone
   \<and> snaps (snd (performExtraction env0 ''WRF'' ''time-series'' ''shpavg'' [] da0 default_kwargs
        world0)) = []
   \<and> last (trace (snd (performExtraction env0 ''WRF'' ''time-series'' ''shpavg'' [] da0
        default_kwargs world0)))
        = Info (Skipping ''wrfsrfc_d02_shpavg_monthly.nc''
            ''/wrfavg/max/wrfsrfc_d02_shpavg_monthly.nc'')
   \<and> prepare env0 ''WRF'' ''time-series'' ''shpavg'' da0 default_kwargs (start world2)
     = (Inr job0, run3)
   \<and> fs world2 ''/wrfavg/max/wrfsrfc_d02_shpavg_monthly.nc''
        = Some \<lparr>mtime = 15, fsize = 4096, fstatus = Unsynced\<rparr>
   \<and> ''/wrfavg/max/tmp_shpavg_wrfsrfc_d02_shpavg_monthly.nc'' \<notin> dirs world2
   \<and> fst (performExtraction env0 ''WRF'' ''time-series'' ''shpavg'' [] da0 default_kwargs world2)
        \<noteq> Inr RetNone
   \<and> Remove ''/wrfavg/max/wrfsrfc_d02_shpavg_monthly.nc''
        \<in> set (trace (snd (performExtraction env0 ''WRF'' ''time-series'' ''shpavg'' [] da0
             default_kwargs world2)))
   \<and> Create ''/wrfavg/max/tmp_shpavg_wrfsrfc_d02_shpavg_monthly.nc''
        \<in> set (trace (snd (performExtraction env0 ''WRF'' ''time-series'' ''shpavg'' [] da0
             default_kwargs world2)))
   \<and> fst (prepare env0 ''WRF'' ''time-series'' ''shpavg'' da0 default_kwargs
        (start (world_after (snd (performExtraction env0 ''WRF'' ''time-series'' ''shpavg'' []
           da0 default_kwargs world2))))) = Inr job0
   \<and> fs (world_after (snd (performExtraction env0 ''WRF'' ''time-series'' ''shpavg'' [] da0
        default_kwargs world2))) ''/wrfavg/max/wrfsrfc_d02_shpavg_monthly.nc''
        = Some \<lparr>mtime = 100, fsize = 2000000, fstatus = Closed\<rparr>
   \<and> fst (performExtraction env0 ''WRF'' ''time-series'' ''shpavg'' [] da0 default_kwargs
        (world_after (snd (performExtraction env0 ''WRF'' ''time-series'' ''shpavg'' [] da0
           default_kwargs world2))))
        = Inr RetNone"
proof -
  let ?fp = "''/wrfavg/max/wrfsrfc_d02_shpavg_monthly.nc''"
  let ?w3 = "world_after (snd (performExtraction env0 ''WRF'' ''time-series'' ''shpavg'' [] da0
      default_kwargs world2))"
  have kw: "lwrite default_kwargs" and ov: "\<not> loverwrite default_kwargs"
    by (simp_all add: default_kwargs_def)
  have fn: "j_filename job0 = Some ''wrfsrfc_d02_shpavg_monthly.nc''"
    and af: "j_avgfolder job0 = ''/wrfavg/max/''"
    and sa: "j_sourceage job0 = Some 10"
    by (simp_all add: job0_def)
  have tn: "tmp_name ''shpavg'' default_kwargs ''wrfsrfc_d02_shpavg_monthly.nc''
      = ''tmp_shpavg_wrfsrfc_d02_shpavg_monthly.nc''"
    by (simp add: tmp_name_def default_kwargs_def)
  have ex0: "fs world0 (j_avgfolder job0 @ ''wrfsrfc_d02_shpavg_monthly.nc'')
      = Some \<lparr>mtime = 15, fsize = 2000000, fstatus = Closed\<rparr>"
    and ex2: "fs world2 (j_avgfolder job0 @ ''wrfsrfc_d02_shpavg_monthly.nc'')
      = Some \<lparr>mtime = 15, fsize = 4096, fstatus = Unsynced\<rparr>"
    by (simp_all add: af world0_def world2_def)
  have nd0: "j_avgfolder job0 @ tmp_name ''shpavg'' default_kwargs ''wrfsrfc_d02_shpavg_monthly.nc''
      \<notin> dirs world0"
    and nd2: "j_avgfolder job0 @ tmp_name ''shpavg'' default_kwargs ''wrfsrfc_d02_shpavg_monthly.nc''
      \<notin> dirs world2"
    by (simp_all add: af tn world0_def world2_def)
  have ex3: "fs ?w3 (j_avgfolder job0 @ ''wrfsrfc_d02_shpavg_monthly.nc'')
      = Some \<lparr>mtime = 100, fsize = 2000000, fstatus = Closed\<rparr>"
    and nd3: "j_avgfolder job0 @ tmp_name ''shpavg'' default_kwargs ''wrfsrfc_d02_shpavg_monthly.nc''
      \<notin> dirs ?w3"
    using second_run0(1,2) by (simp_all add: af tn)
  have prepare3: "prepare env0 ''WRF'' ''time-series'' ''shpavg'' da0 default_kwargs (start ?w3)
      = (Inr job0, snd (prepare env0 ''WRF'' ''time-series'' ''shpavg'' da0 default_kwargs
          (start ?w3)))"
    using second_run0(3) by (metis prod.collapse)
  from skip_existing_artifact [OF prepare0 kw fn ex0 nd0 surjective_pairing, of "[]"] ov sa
  have w0: "fst (performExtraction env0 ''WRF'' ''time-series'' ''shpavg'' [] da0 default_kwargs
        world0) = Inr RetNone
      \<and> snaps (snd (performExtraction env0 ''WRF'' ''time-series'' ''shpavg'' [] da0
        default_kwargs world0)) = []
      \<and> last (trace (snd (performExtraction env0 ''WRF'' ''time-series'' ''shpavg'' [] da0
        default_kwargs world0)))
        = Info (Skipping ''wrfsrfc_d02_shpavg_monthly.nc'' ?fp)"
    by (simp add: af)
  from skip_existing_artifact [OF prepare2 kw fn ex2 nd2 surjective_pairing, of "[]"] ov sa
  have w2: "fst (performExtraction env0 ''WRF'' ''time-series'' ''shpavg'' [] da0 default_kwargs
        world2) \<noteq> Inr RetNone
      \<and> Remove ?fp \<in> set (trace (snd (performExtraction env0 ''WRF'' ''time-series'' ''shpavg''
          [] da0 default_kwargs world2)))
      \<and> Create ''/wrfavg/max/tmp_shpavg_wrfsrfc_d02_shpavg_monthly.nc''
          \<in> set (trace (snd (performExtraction env0 ''WRF'' ''time-series'' ''shpavg'' [] da0
               default_kwargs world2)))"
    by (simp add: af tn)
  from skip_existing_artifact [OF prepare3 kw fn ex3 nd3 surjective_pairing, of "[]"] ov sa
  have w3: "fst (performExtraction env0 ''WRF'' ''time-series'' ''shpavg'' [] da0 default_kwargs
        ?w3) = Inr RetNone"
    by (simp add: af)
  have e0: "fs world0 ?fp = Some \<lparr>mtime = 15, fsize = 2000000, fstatus = Closed\<rparr>"
    and e2: "fs world2 ?fp = Some \<lparr>mtime = 15, fsize = 4096, fstatus = Unsynced\<rparr>"
    and d0: "''/wrfavg/max/tmp_shpavg_wrfsrfc_d02_shpavg_monthly.nc'' \<notin> dirs world0"
    and d2: "''/wrfavg/max/tmp_shpavg_wrfsrfc_d02_shpavg_monthly.nc'' \<notin> dirs world2"
    by (simp_all add: world0_def world2_def)
  show ?thesis
    using prepare0 kw ov fn af sa e0 d0 w0 prepare2 e2 d2 w2 second_run0(3) second_run0(1) w3
    by (intro conjI) blast+
qed

text \<open>
  C1 as stated: the engine leaves a complete file of 4096 bytes; the first run returns 0 and
  publishes it, and the second run of the same job, without the overwrite flag, removes it
  and computes again, since line 206 takes a file of at most 1 MB for a fragment.
\<close>

theorem second_run_counterexample:
  "\<not> loverwrite default_kwargs
   \<and> fst (performExtraction env4 ''WRF'' ''time-series'' ''shpavg'' [] da0 default_kwargs world2)
     = Inr (RetCode 0)
   \<and> fs (snd (performExtraction env4 ''WRF'' ''time-series'' ''shpavg'' [] da0 default_kwargs
        world2)) ''/wrfavg/max/wrfsrfc_d02_shpavg_monthly.nc''
     = Some \<lparr>mtime = 100, fsize = 4096, fstatus = Closed\<rparr>
   \<and> fst (performExtraction env4 ''WRF'' ''time-series'' ''shpavg'' [] da0 default_kwargs
        (world_after (snd (performExtraction env4 ''WRF'' ''time-series'' ''shpavg'' [] da0
           default_kwargs world2))))
     = Inr (RetCode 0)
   \<and> Remove ''/wrfavg/max/wrfsrfc_d02_shpavg_monthly.nc''
       \<in> set (trace (snd (performExtraction env4 ''WRF'' ''time-series'' ''shpavg'' [] da0
            default_kwargs
            (world_after (snd (performExtraction env4 ''WRF'' ''time-series'' ''shpavg'' [] da0
               default_kwargs world2))))))
   \<and> list_all no_skip
        (trace (snd (performExtraction env4 ''WRF'' ''time-series'' ''shpavg'' [] da0
            default_kwargs
            (world_after (snd (performExtraction env4 ''WRF'' ''time-series'' ''shpavg'' [] da0
               default_kwargs world2))))))"
  by (simp add: performExtraction_def prep_defs out_defs io_defs str_defs ex_defs start_def
      env4_def world2_def world_after_def no_skip_def Let_def)


subsection \<open>Exit status\<close>

lemma ceil_le_10:
  assumes "1 \<le> n" "ec \<le> int n"
  shows "\<lceil>10 * real_of_int ec / real n\<rceil> \<le> 10"
proof -
  have "10 * real_of_int ec / real n \<le> 10"
    using assms by (simp add: divide_le_eq)
  then show ?thesis by (simp add: ceiling_le_iff)
qed

lemma ceil_eq_10:
  assumes "1 \<le> n" "ec \<le> int n"
  shows "\<lceil>10 * real_of_int ec / real n\<rceil> = 10 \<longleftrightarrow> 9 * int n < 10 * ec"
proof -
  have a: "\<lceil>10 * real_of_int ec / real n\<rceil> \<le> 10" using assms by (rule ceil_le_10)
  have "9 < \<lceil>10 * real_of_int ec / real n\<rceil> \<longleftrightarrow> 9 < 10 * real_of_int ec / real n"
    using less_ceiling_iff [of 9 "10 * real_of_int ec / real n"] by simp
  also have "\<dots> \<longleftrightarrow> 9 * real n < 10 * real_of_int ec"
    using assms by (simp add: less_divide_eq)
  also have "\<dots> \<longleftrightarrow> 9 * int n < 10 * ec"
  proof -
    have "9 * real n = real_of_int (9 * int n)" by simp
    moreover have "10 * real_of_int ec = real_of_int (10 * ec)" by simp
    ultimately show ?thesis by (metis of_int_less_iff)
  qed
  finally show ?thesis using a by linarith
qed

lemma ceil_pos:
  assumes "1 \<le> n" "0 < ec"
  shows "0 < \<lceil>10 * real_of_int ec / real n\<rceil>"
  using assms by (simp add: ceiling_less_iff less_ceiling_iff)

text \<open>
  C7 (amended). For a batch of \<open>n \<ge> 1\<close> jobs of which \<open>ec\<close> fail, the exit code is 0 exactly
  when no job failed and \<open>10 + ceil(10 ec / n)\<close> otherwise; it is at most 20, weakly monotone in
  the failure fraction, and it reaches 20 exactly when more than nine tenths of the jobs
  failed, which includes but is not limited to the batch in which all failed.
\<close>

theorem exit_code_fraction:
  assumes "1 \<le> n" and "0 \<le> ec" and "ec \<le> int n"
      and "1 \<le> n'" and "0 \<le> ec'" and "ec' \<le> int n'"
  shows "\<exists>c c'. exit_code ec n = Inr c \<and> exit_code ec' n' = Inr c'
           \<and> (c = 0 \<longleftrightarrow> ec = 0)
           \<and> (ec \<noteq> 0 \<longrightarrow> c = 10 + \<lceil>10 * real_of_int ec / real n\<rceil>)
           \<and> c \<le> 20
           \<and> (real_of_int ec / real n \<le> real_of_int ec' / real n' \<longrightarrow> c \<le> c')
           \<and> (c = 20 \<longleftrightarrow> 9 * int n < 10 * ec)"
proof (cases "ec = 0")
  case True
  then have "exit_code ec n = Inr 0" by (simp add: exit_code_def)
  moreover have "\<exists>c'. exit_code ec' n' = Inr c' \<and> 0 \<le> c'"
  proof (cases "ec' = 0")
    case True
    then show ?thesis by (simp add: exit_code_def)
  next
    case False
    then have p: "0 < ec'" using assms by simp
    have "0 < \<lceil>10 * real_of_int ec' / real n'\<rceil>" using assms(4) p by (rule ceil_pos)
    moreover have "exit_code ec' n' = Inr (10 + \<lceil>10 * real_of_int ec' / real n'\<rceil>)"
      using p assms(4) by (simp add: exit_code_def)
    ultimately show ?thesis by (intro exI [of _ "10 + \<lceil>10 * real_of_int ec' / real n'\<rceil>"]) linarith
  qed
  ultimately show ?thesis using True assms by auto
next
  case False
  then have pos: "0 < ec" using assms by simp
  let ?q = "10 * real_of_int ec / real n"
  have c: "exit_code ec n = Inr (10 + \<lceil>?q\<rceil>)" using pos assms by (simp add: exit_code_def)
  have le: "\<lceil>?q\<rceil> \<le> 10" using assms by (intro ceil_le_10) auto
  have gt: "0 < \<lceil>?q\<rceil>" using assms pos by (intro ceil_pos) auto
  have mono: "10 + \<lceil>?q\<rceil> \<le> c'"
    if "real_of_int ec / real n \<le> real_of_int ec' / real n'" "exit_code ec' n' = Inr c'" for c'
  proof -
    have "0 < real_of_int ec / real n" using pos assms by simp
    with that have "0 < real_of_int ec' / real n'" by linarith
    then have pos': "0 < ec'" using assms by (simp add: zero_less_divide_iff)
    have "?q \<le> 10 * real_of_int ec' / real n'" using that by simp
    then have "\<lceil>?q\<rceil> \<le> \<lceil>10 * real_of_int ec' / real n'\<rceil>" by (rule ceiling_mono)
    moreover have "c' = 10 + \<lceil>10 * real_of_int ec' / real n'\<rceil>"
      using that(2) pos' assms by (simp add: exit_code_def)
    ultimately show ?thesis by simp
  qed
  obtain c' where c': "exit_code ec' n' = Inr c'"
    using assms by (cases "ec' > 0") (auto simp: exit_code_def)
  have top: "10 + \<lceil>?q\<rceil> = 20 \<longleftrightarrow> 9 * int n < 10 * ec"
    using ceil_eq_10 [of n ec] assms by auto
  have nz: "10 + \<lceil>?q\<rceil> \<noteq> 0" using gt by linarith
  have bd: "10 + \<lceil>?q\<rceil> \<le> 20" using le by linarith
  have "exit_code ec n = Inr (10 + \<lceil>?q\<rceil>) \<and> exit_code ec' n' = Inr c'
      \<and> (10 + \<lceil>?q\<rceil> = 0 \<longleftrightarrow> ec = 0)
      \<and> (ec \<noteq> 0 \<longrightarrow> 10 + \<lceil>?q\<rceil> = 10 + \<lceil>?q\<rceil>)
      \<and> 10 + \<lceil>?q\<rceil> \<le> 20
      \<and> (real_of_int ec / real n \<le> real_of_int ec' / real n' \<longrightarrow> 10 + \<lceil>?q\<rceil> \<le> c')
      \<and> (10 + \<lceil>?q\<rceil> = 20 \<longleftrightarrow> 9 * int n < 10 * ec)"
    using c c' nz False bd mono top by blast
  then show ?thesis by blast
qed

theorem exit_code_fraction_witness:
  "\<exists>c c'. exit_code 1 4 = Inr c \<and> exit_code 3 4 = Inr c' \<and> (c = 0 \<longleftrightarrow> (1::int) = 0)
     \<and> c = 10 + \<lceil>10 * real_of_int 1 / real 4\<rceil> \<and> c \<le> 20 \<and> c \<le> c' \<and> c \<noteq> 20"
  using exit_code_fraction [of 4 1 4 3] by simp

text \<open>
  C7 as stated: the code 20 is not reserved to the batch in which every job failed; 19
  failures out of 20 give it as well.
\<close>

theorem exit_code_maximal_counterexample:
  "exit_code 19 20 = Inr 20 \<and> exit_code 20 20 = Inr 20 \<and> (19::int) \<noteq> int 20"
  by (simp add: exit_code_def)


end
